(* ===== verification/Prelude.thy ===== *)
theory Prelude
  imports Main "HOL-Library.AList"
begin

text \<open>
  Shared vocabulary of the deproxy development (src/deproxy.py): the types that
  name header lists and addresses, the ASCII case folding under which inbound
  HTTP header names are compared, and the generic facts about maps and
  association lists that the component theories use.  The collection
  \<open>deproxy_simps\<close> gathers the evaluation rules of the model so that closed
  instances (witnesses, scenarios) are computed by \<open>simp add: deproxy_simps\<close>.
\<close>

named_theorems deproxy_simps "evaluation rules of the deproxy model"

type_synonym header = "string \<times> string"
type_synonym headers = "header list"

text \<open>A listening address \<open>(host, port)\<close>, as passed to \<open>add_endpoint\<close>.\<close>

type_synonym addr = "string \<times> nat"

subsection \<open>ASCII case folding\<close>

text \<open>
  Python 2's \<open>str.lower\<close> on a byte string folds \<open>A\<close>..\<open>Z\<close> and leaves every
  other byte alone.  The header object of BaseHTTPServer (\<open>mimetools.Message\<close>)
  stores every header name folded this way, so \<open>name in self.headers\<close> and
  \<open>self.headers[name]\<close> in deproxy.py compare names case-insensitively.
\<close>

definition lower_char :: "char \<Rightarrow> char" where
  "lower_char c =
     (let n = (of_char c :: nat) in if 65 \<le> n \<and> n \<le> 90 then char_of (n + 32) else c)"

definition lower :: "string \<Rightarrow> string" where
  "lower s = map lower_char s"

lemma lower_Nil [simp]: "lower [] = []"
  by (simp add: lower_def)

lemma lower_Cons [simp]: "lower (c # s) = lower_char c # lower s"
  by (simp add: lower_def)

lemma lower_append [simp]: "lower (s @ t) = lower s @ lower t"
  by (simp add: lower_def)

lemma length_lower [simp]: "length (lower s) = length s"
  by (simp add: lower_def)

declare lower_char_def [deproxy_simps] Let_def [deproxy_simps]

subsection \<open>Maps and association lists\<close>

text \<open>
  A Python dict whose keys are compared exactly is an association list with
  distinct keys; \<open>d[k] = v\<close> is \<open>AList.update k v d\<close> and \<open>d[k]\<close> reads
  \<open>map_of d k\<close>.  These are the facts on them the components share.
\<close>

lemma map_of_update_same [simp]: "map_of (AList.update k v al) k = Some v"
  by (simp add: update_conv')

lemma map_of_update_other [simp]: "k' \<noteq> k \<Longrightarrow> map_of (AList.update k v al) k' = map_of al k'"
  by (simp add: update_conv')

lemma update_mem_same [simp]: "(k, v) \<in> set (AList.update k v al)"
  by (induction al) auto

lemma set_update_subset: "set (AList.update k v al) \<subseteq> insert (k, v) (set al)"
  by (induction al) auto

lemma update_keys_set: "fst ` set (AList.update k v al) = insert k (fst ` set al)"
  using dom_update [of k v al] by simp

lemma update_mem_other: "(k', v') \<in> set (AList.update k v al) \<Longrightarrow> k' \<noteq> k \<Longrightarrow> (k', v') \<in> set al"
  using set_update_subset by fastforce

lemma fun_upd_dom_same: "m k = Some v \<Longrightarrow> dom (m(k \<mapsto> v')) = dom m"
  by auto

lemma map_option_Some_iff: "map_option f x = Some y \<longleftrightarrow> (\<exists>z. x = Some z \<and> y = f z)"
  by (cases x) auto

text \<open>A partial map whose defined values are pairwise distinct: no two
  threads hold the same request id or the same chain reference.\<close>

definition unique_vals :: "('a \<rightharpoonup> 'b) \<Rightarrow> bool" where
  "unique_vals f \<longleftrightarrow> (\<forall>x y v. f x = Some v \<longrightarrow> f y = Some v \<longrightarrow> x = y)"

lemma unique_valsD: "unique_vals f \<Longrightarrow> f x = Some v \<Longrightarrow> f y = Some v \<Longrightarrow> x = y"
  by (auto simp: unique_vals_def)

lemma unique_vals_upd_fresh: "unique_vals f \<Longrightarrow> v \<notin> ran f \<Longrightarrow> unique_vals (f(x \<mapsto> v))"
  by (auto simp: unique_vals_def ran_def)

lemma unique_vals_upd_None: "unique_vals f \<Longrightarrow> unique_vals (f(x := None))"
  by (auto simp: unique_vals_def)

lemma unique_vals_upd_same: "f x = Some v \<Longrightarrow> unique_vals f \<Longrightarrow> unique_vals (f(x \<mapsto> v))"
  by (simp add: map_upd_triv)

lemma ran_upd_subset: "ran (f(x \<mapsto> v)) \<subseteq> insert v (ran f)"
  by (auto simp: ran_def)

lemma ran_upd_None_subset: "ran (f(x := None)) \<subseteq> ran f"
  by (auto simp: ran_def)

lemma dom_map_option_upd [simp]: "dom (h(r := map_option f (h r))) = dom h"
  by (cases "h r") auto

end
