(* ===== verification/Http.thy ===== *)
theory Http
  imports Prelude
begin

text \<open>
  The data model of deproxy.py, lines 14--32: the named tuples \<open>Request\<close>,
  \<open>Response\<close> and \<open>Handling\<close> as records, the two handler functions of the
  module, the correlation header name, and the two kinds of header container the
  code touches: the inbound header object of BaseHTTPServer (case-insensitive
  names, the last occurrence of a repeated name wins) and the Python dicts that
  the code writes with \<open>d[k] = v\<close> (exact names).
\<close>

record request =
  req_method :: string
  req_path :: string
  req_headers :: headers
  req_body :: string

record response =
  resp_code :: int
  resp_message :: string
  resp_headers :: headers
  resp_body :: string

text \<open>An endpoint is identified by the address its server socket is bound to.\<close>

datatype endpoint = DeproxyEndpoint addr

record handling =
  h_endpoint :: endpoint
  h_request :: request
  h_response :: response

type_synonym handler = "request \<Rightarrow> response"

definition request_id_header_name :: string where
  "request_id_header_name = ''Request-ID''"

definition default_handler :: handler where
  "default_handler req = \<lparr>resp_code = 200, resp_message = ''OK'', resp_headers = [], resp_body = []\<rparr>"

definition handler2 :: handler where
  "handler2 req =
     \<lparr>resp_code = 601, resp_message = ''Something'', resp_headers = [(''X-Header'', ''Value'')],
      resp_body = ''this is the body''\<rparr>"

subsection \<open>Header containers\<close>

text \<open>
  \<open>msg_has\<close> and \<open>msg_get\<close> are \<open>name in self.headers\<close> and
  \<open>self.headers[name]\<close> on the parsed inbound headers (rfc822: the dictionary
  is keyed by the lower-cased name and a later line overwrites an earlier one).
\<close>

definition msg_has :: "headers \<Rightarrow> string \<Rightarrow> bool" where
  "msg_has hs n = list_ex (\<lambda>(k, v). lower k = lower n) hs"

definition msg_get :: "headers \<Rightarrow> string \<Rightarrow> string option" where
  "msg_get hs n =
     (let xs = filter (\<lambda>(k, v). lower k = lower n) hs in
      if xs = [] then None else Some (snd (last xs)))"

text \<open>
  The dictionary rfc822's \<open>Message.readheaders\<close> builds from the same header
  lines: each name is lower-cased and assigned in order, so a later line
  replaces an earlier one; \<open>__getitem__\<close> and \<open>__contains__\<close> lower-case
  the name looked up.
\<close>

definition msg_dict :: "headers \<Rightarrow> (string \<rightharpoonup> string)" where
  "msg_dict hs = fold (\<lambda>(k, v) m. m(lower k \<mapsto> v)) hs Map.empty"

text \<open>\<open>d[k] = v\<close> on a dict of headers.\<close>

definition dict_set :: "headers \<Rightarrow> string \<Rightarrow> string \<Rightarrow> headers" where
  "dict_set d k v = AList.update k v d"

lemma msg_has_iff_get: "msg_has hs n \<longleftrightarrow> msg_get hs n \<noteq> None"
  by (auto simp: msg_has_def msg_get_def list_ex_iff filter_empty_conv)

lemma msg_get_append_match:
  "lower k = lower n \<Longrightarrow> msg_get (hs @ [(k, v)]) n = Some v"
  by (simp add: msg_get_def)

lemma msg_get_Cons_other:
  "lower k \<noteq> lower n \<Longrightarrow> msg_get ((k, v) # hs) n = msg_get hs n"
  by (simp add: msg_get_def)

lemma msg_get_Some_mem: "msg_get hs n = Some v \<Longrightarrow> \<exists>k. (k, v) \<in> set hs \<and> lower k = lower n"
proof -
  assume a: "msg_get hs n = Some v"
  then obtain xs where xs: "filter (\<lambda>(k, v). lower k = lower n) hs = xs" "xs \<noteq> []"
      "v = snd (last xs)"
    by (auto simp: msg_get_def Let_def split: if_splits)
  then have "last xs \<in> set (filter (\<lambda>(k, v). lower k = lower n) hs)" by simp
  with xs show ?thesis by (cases "last xs") auto
qed

lemma fold_lower_upd:
  "fold (\<lambda>(k, v) m. m(lower k \<mapsto> v)) hs m x =
     (case filter (\<lambda>(k, v). lower k = x) hs of [] \<Rightarrow> m x | ys \<Rightarrow> Some (snd (last ys)))"
proof (induction hs arbitrary: m)
  case Nil
  then show ?case by simp
next
  case (Cons kv hs)
  obtain k v where kv: "kv = (k, v)" by (cases kv)
  show ?case
    using Cons.IH [of "m(lower k \<mapsto> v)"]
    by (auto simp: kv split: list.splits)
qed

lemmas header_defs [deproxy_simps] = msg_has_def msg_get_def dict_set_def request_id_header_name_def

end
