(* ===== verification/MessageChain.thy ===== *)
theory MessageChain
  imports Http
begin

text \<open>
  The conversation record: class \<open>MessageChain\<close> of deproxy.py (lines 34--42).
  The object holds the handler the matching endpoint must run and the list of
  handlings recorded for it; \<open>make_request\<close> later sets the attributes
  \<open>sent_request\<close> and \<open>received_response\<close> (lines 68--69), which do not exist
  before: that absence is \<open>None\<close> here.  The per-object lock makes
  \<open>add_handling\<close> one atomic step of the concurrent model (theory System).
\<close>

record message_chain =
  handler_function :: handler
  handlings :: "handling list"
  sent_request :: "request option"
  received_response :: "response option"

definition new_message_chain :: "handler \<Rightarrow> message_chain" where
  "new_message_chain f =
     \<lparr>handler_function = f, handlings = [], sent_request = None, received_response = None\<rparr>"

definition add_handling :: "handling \<Rightarrow> message_chain \<Rightarrow> message_chain" where
  "add_handling h mc = mc\<lparr>handlings := handlings mc @ [h]\<rparr>"

text \<open>Lines 68--69 of \<open>make_request\<close>: the record is finalised with the request
  as sent and the response as received.\<close>

definition finish_message_chain :: "request \<Rightarrow> response \<Rightarrow> message_chain \<Rightarrow> message_chain" where
  "finish_message_chain rq rs mc = mc\<lparr>sent_request := Some rq, received_response := Some rs\<rparr>"

lemmas message_chain_defs [deproxy_simps] =
  new_message_chain_def add_handling_def finish_message_chain_def

lemma handlings_add_handling [simp]: "handlings (add_handling h mc) = handlings mc @ [h]"
  by (simp add: add_handling_def)

lemma handler_add_handling [simp]: "handler_function (add_handling h mc) = handler_function mc"
  by (simp add: add_handling_def)

lemma attrs_add_handling [simp]:
  "sent_request (add_handling h mc) = sent_request mc" "received_response (add_handling h mc) = received_response mc"
  by (simp_all add: add_handling_def)

lemma handlings_finish [simp]: "handlings (finish_message_chain rq rs mc) = handlings mc"
  by (simp add: finish_message_chain_def)

lemma handler_finish [simp]: "handler_function (finish_message_chain rq rs mc) = handler_function mc"
  by (simp add: finish_message_chain_def)

lemma handlings_new [simp]: "handlings (new_message_chain f) = []"
  by (simp add: new_message_chain_def)

lemma handler_new [simp]: "handler_function (new_message_chain f) = f"
  by (simp add: new_message_chain_def)

text \<open>A sequence of \<open>add_handling\<close> calls, serialised by the lock in the order the
  calls take it.\<close>

fun add_handlings :: "handling list \<Rightarrow> message_chain \<Rightarrow> message_chain" where
  "add_handlings [] mc = mc"
| "add_handlings (h # hs) mc = add_handlings hs (add_handling h mc)"

end
