(* ===== verification/Registry.thy ===== *)
theory Registry
  imports MessageChain
begin

text \<open>
  The correlation registry: the dict \<open>Deproxy._message_chains\<close> and its three
  accessors \<open>add_message_chain\<close>, \<open>del_message_chain\<close>, \<open>get_message_chain\<close>
  (deproxy.py lines 44--49 and 80--93).  The dict maps a request id to a
  \<open>MessageChain\<close> object; the objects live in a heap (theory System) and the
  registry stores their references, of any type \<open>'r\<close>.  Each accessor holds
  \<open>message_chains_lock\<close> for its whole body, so each is one atomic step.
  The Deproxy object is a record; its \<open>endpoints\<close> field is the list that
  \<open>add_endpoint\<close> appends to (theory Endpoint).
\<close>

record 'r deproxy =
  message_chains :: "string \<rightharpoonup> 'r"
  endpoints :: "endpoint list"

text \<open>The Python exceptions that reach the model: \<open>KeyError\<close> from \<open>del\<close> on a
  missing key, \<open>socket.error\<close> from binding a used address, the connection error
  of the requests library, and \<open>socket.error\<close> also from a read on a
  connection the peer reset.\<close>

datatype py_error = KeyError | SocketError | ConnectionError

definition add_message_chain :: "('r, 'a) deproxy_scheme \<Rightarrow> string \<Rightarrow> 'r \<Rightarrow> ('r, 'a) deproxy_scheme" where
  "add_message_chain d rid mc = d\<lparr>message_chains := (message_chains d)(rid \<mapsto> mc)\<rparr>"

definition del_message_chain :: "('r, 'a) deproxy_scheme \<Rightarrow> string \<Rightarrow> py_error + ('r, 'a) deproxy_scheme" where
  "del_message_chain d rid =
     (if rid \<in> dom (message_chains d) then Inr (d\<lparr>message_chains := (message_chains d)(rid := None)\<rparr>)
      else Inl KeyError)"

definition get_message_chain :: "('r, 'a) deproxy_scheme \<Rightarrow> string \<Rightarrow> 'r option" where
  "get_message_chain d rid = (if rid \<in> dom (message_chains d) then message_chains d rid else None)"

lemmas registry_defs [deproxy_simps] = add_message_chain_def del_message_chain_def get_message_chain_def

lemma get_message_chain_eq [simp]: "get_message_chain d rid = message_chains d rid"
  by (cases "message_chains d rid") (auto simp: get_message_chain_def)

lemma message_chains_add [simp]:
  "message_chains (add_message_chain d rid mc) = (message_chains d)(rid \<mapsto> mc)"
  by (simp add: add_message_chain_def)

lemma endpoints_add_message_chain [simp]: "endpoints (add_message_chain d rid mc) = endpoints d"
  by (simp add: add_message_chain_def)

lemma del_message_chain_Inr:
  "del_message_chain d rid = Inr d' \<longleftrightarrow>
     rid \<in> dom (message_chains d) \<and> d' = d\<lparr>message_chains := (message_chains d)(rid := None)\<rparr>"
  by (auto simp: del_message_chain_def)

lemma del_message_chain_Inl: "del_message_chain d rid = Inl e \<longleftrightarrow> rid \<notin> dom (message_chains d) \<and> e = KeyError"
  by (auto simp: del_message_chain_def)

subsection \<open>The registry's contract\<close>

text \<open>
  The registry the design asks for (spec section 4.1): \<open>register\<close> refuses an id
  that is present, \<open>unregister\<close> refuses an id that is absent, \<open>lookup\<close> is a
  partial read.  Errors are the spec's \<open>DuplicateIdError\<close> and \<open>NotFoundError\<close>.
\<close>

datatype reg_error = DuplicateIdError | NotFoundError

definition reg_register :: "(string \<rightharpoonup> 'r) \<Rightarrow> string \<Rightarrow> 'r \<Rightarrow> reg_error + (string \<rightharpoonup> 'r)" where
  "reg_register m rid r = (if rid \<in> dom m then Inl DuplicateIdError else Inr (m(rid \<mapsto> r)))"

definition reg_unregister :: "(string \<rightharpoonup> 'r) \<Rightarrow> string \<Rightarrow> reg_error + (string \<rightharpoonup> 'r)" where
  "reg_unregister m rid = (if rid \<in> dom m then Inr (m(rid := None)) else Inl NotFoundError)"

text \<open>How a Python exception of the code corresponds to an error of the contract.\<close>

fun reg_err_of :: "py_error \<Rightarrow> reg_error" where
  "reg_err_of KeyError = NotFoundError"
| "reg_err_of _ = DuplicateIdError"

text \<open>C15. \<open>del_message_chain\<close> (lines 84--86) implements the contract's
  \<open>unregister\<close>: it removes a present id and refuses an absent one, its
  \<open>KeyError\<close> being the contract's \<open>NotFoundError\<close>.\<close>

theorem del_message_chain_refines_unregister:
  "map_sum reg_err_of message_chains (del_message_chain d rid) = reg_unregister (message_chains d) rid"
  by (simp add: del_message_chain_def reg_unregister_def)

text \<open>C16. \<open>add_message_chain\<close> (lines 80--82) implements the contract's
  \<open>register\<close> on an id that is not present, and on a present id, where the
  contract raises \<open>DuplicateIdError\<close>, it silently replaces the registered
  chain by the new one.\<close>

theorem add_message_chain_refines_register_or_overwrites:
  "(rid \<notin> dom (message_chains d) \<longrightarrow>
      reg_register (message_chains d) rid r = Inr (message_chains (add_message_chain d rid r))) \<and>
   (rid \<in> dom (message_chains d) \<longrightarrow>
      reg_register (message_chains d) rid r = Inl DuplicateIdError \<and>
      message_chains (add_message_chain d rid r) = (message_chains d)(rid \<mapsto> r))"
  by (simp add: reg_register_def add_message_chain_def)

theorem add_message_chain_refines_register_or_overwrites_witness:
  "reg_register [''abc'' \<mapsto> (1::nat)] ''abc'' 2 = Inl DuplicateIdError \<and>
   message_chains (add_message_chain \<lparr>message_chains = [''abc'' \<mapsto> (1::nat)], endpoints = []\<rparr> ''abc'' 2) ''abc'' =
     Some 2"
  using add_message_chain_refines_register_or_overwrites
      [of "''abc''" "\<lparr>message_chains = [''abc'' \<mapsto> (1::nat)], endpoints = []\<rparr>" 2]
  by simp

end
