(* ===== verification/Endpoint.thy ===== *)
theory Endpoint
  imports Registry
begin

text \<open>
  Endpoints: class \<open>DeproxyEndpoint\<close> (deproxy.py lines 96--119),
  \<open>Deproxy.add_endpoint\<close> (lines 73--78) and the constructor \<open>Deproxy.__init__\<close>
  (lines 45--51).  Creating a \<open>DeproxyEndpoint\<close> binds its address through
  \<open>BaseHTTPServer.HTTPServer.__init__\<close> and starts a daemon thread that serves
  forever; binding an address some socket already holds raises
  \<open>socket.error\<close>.  The operating system's table of bound addresses is the
  list \<open>bound\<close>, passed and returned explicitly.  The serving thread is not a
  value: each connection it accepts becomes a thread of the concurrent model
  (theory System), which runs \<open>handle_one_request\<close> (theory RequestHandler).
\<close>

definition deproxy_endpoint_init :: "addr list \<Rightarrow> addr \<Rightarrow> py_error + (endpoint \<times> addr list)" where
  "deproxy_endpoint_init bound a =
     (if a \<in> set bound then Inl SocketError else Inr (DeproxyEndpoint a, a # bound))"

definition add_endpoint ::
  "('r, 'a) deproxy_scheme \<Rightarrow> addr list \<Rightarrow> addr \<Rightarrow> py_error + (('r, 'a) deproxy_scheme \<times> addr list \<times> endpoint)" where
  "add_endpoint d bound a =
     (case deproxy_endpoint_init bound a of
        Inl e \<Rightarrow> Inl e
      | Inr (ep, bound') \<Rightarrow> Inr (d\<lparr>endpoints := endpoints d @ [ep]\<rparr>, bound', ep))"

definition deproxy_init :: "addr list \<Rightarrow> addr option \<Rightarrow> py_error + (nat deproxy \<times> addr list)" where
  "deproxy_init bound sa =
     (let d = \<lparr>message_chains = Map.empty, endpoints = []\<rparr> in
      case sa of
        None \<Rightarrow> Inr (d, bound)
      | Some a \<Rightarrow>
          (case add_endpoint d bound a of Inl e \<Rightarrow> Inl e | Inr (d', bound', ep) \<Rightarrow> Inr (d', bound')))"

lemmas endpoint_defs [deproxy_simps] = deproxy_endpoint_init_def add_endpoint_def deproxy_init_def

text \<open>The address an endpoint serves.\<close>

fun ep_addr :: "endpoint \<Rightarrow> addr" where
  "ep_addr (DeproxyEndpoint a) = a"

text \<open>Every endpoint of the list holds its address in the socket table, and the
  endpoints hold distinct addresses.\<close>

definition endpoints_bound :: "endpoint list \<Rightarrow> addr list \<Rightarrow> bool" where
  "endpoints_bound eps bound \<longleftrightarrow> distinct (map ep_addr eps) \<and> set (map ep_addr eps) \<subseteq> set bound"

lemma add_endpoint_Inr:
  "add_endpoint d bound a = Inr (d', bound', ep) \<longleftrightarrow>
     a \<notin> set bound \<and> ep = DeproxyEndpoint a \<and> bound' = a # bound \<and>
     d' = d\<lparr>endpoints := endpoints d @ [ep]\<rparr>"
  by (auto simp: add_endpoint_def deproxy_endpoint_init_def)

lemma endpoints_bound_add:
  "endpoints_bound eps b \<Longrightarrow> a \<notin> set b \<Longrightarrow> endpoints_bound (eps @ [DeproxyEndpoint a]) (a # b)"
  by (auto simp: endpoints_bound_def)

lemma add_endpoint_Inl: "add_endpoint d bound a = Inl e \<longleftrightarrow> a \<in> set bound \<and> e = SocketError"
  by (auto simp: add_endpoint_def deproxy_endpoint_init_def)

end
