(* ===== verification/Wire.thy ===== *)
theory Wire
  imports Registry
begin

text \<open>
  The byte-level side of one connection, as the request handler of deproxy.py
  uses it through BaseHTTPServer (Python 2.7): \<open>rfile.readline(limit)\<close>, the
  request-line parser \<open>parse_request\<close>, the header reader of
  \<open>mimetools.Message\<close>, and the writers \<open>send_response\<close>, \<open>send_header\<close>,
  \<open>end_headers\<close> and \<open>send_error\<close>.  None of these is under src/: they are
  modelled from the library's documented behaviour, reduced to what
  \<open>handle_one_request\<close> depends on.  On the client's side, the bytes the
  requests library writes for a request (\<open>write_request\<close>) and reads back
  as a response (\<open>read_wire\<close>); \<open>read_write_request\<close> shows that the
  server's reader parses the written request back.

  A connection's input is the byte string the peer sends before the
  connection ends, and how it ends: \<open>eof\<close> is true when the peer closed it
  (a read past the data returns what there is, end of file) and false when the
  peer reset it (a read past the data raises \<open>socket.error\<close>).  No timeout
  is ever set on the handler's socket (\<open>StreamRequestHandler.timeout\<close> is
  \<open>None\<close>), so a peer that keeps the connection open without sending blocks
  the read for ever; such a connection never reaches the rest of the handler
  and is not an input of the model.
\<close>

subsection \<open>Reading lines\<close>

text \<open>\<open>readline(n)\<close>: at most \<open>n\<close> bytes, up to and including the first newline.\<close>

fun readline :: "bool \<Rightarrow> nat \<Rightarrow> string \<Rightarrow> py_error + (string \<times> string)" where
  "readline eof 0 s = Inr ([], s)"
| "readline eof (Suc n) [] = (if eof then Inr ([], []) else Inl SocketError)"
| "readline eof (Suc n) (c # s) =
     (if c = CHR ''\<newline>'' then Inr ([c], s)
      else (case readline eof n s of Inl e \<Rightarrow> Inl e | Inr (l, r) \<Rightarrow> Inr (c # l, r)))"

text \<open>\<open>readline()\<close> with no limit, as the header reader calls it.\<close>

definition readline_all :: "bool \<Rightarrow> string \<Rightarrow> py_error + (string \<times> string)" where
  "readline_all eof s = readline eof (Suc (length s)) s"

text \<open>The equations at a numeral limit, so that a closed call evaluates one byte
  at a time.\<close>

lemma readline_numeral_Nil [simp]:
  "readline eof (numeral k) [] = (if eof then Inr ([], []) else Inl SocketError)"
  by (simp add: numeral_eq_Suc)

lemma readline_numeral_Cons [simp]:
  "readline eof (numeral k) (c # s) =
     (if c = CHR ''\<newline>'' then Inr ([c], s)
      else (case readline eof (pred_numeral k) s of Inl e \<Rightarrow> Inl e | Inr (l, r) \<Rightarrow> Inr (c # l, r)))"
  by (simp add: numeral_eq_Suc)

lemma readline_split: "readline eof n s = Inr (l, r) \<Longrightarrow> s = l @ r \<and> length l \<le> n"
proof (induction eof n s arbitrary: l rule: readline.induct)
  case (3 eof n c s)
  then show ?case by (auto split: if_splits sum.splits prod.splits)
qed (auto split: if_splits)

lemma readline_shorter: "readline eof n s = Inr (l, r) \<Longrightarrow> l \<noteq> [] \<Longrightarrow> length r < length s"
  using readline_split [of eof n s l r] by auto

lemma readline_no_newline:
  "n \<le> length s \<Longrightarrow> CHR ''\<newline>'' \<notin> set (take n s) \<Longrightarrow> readline eof n s = Inr (take n s, drop n s)"
proof (induction n arbitrary: s)
  case (Suc n)
  then show ?case by (cases s) auto
qed simp

lemma readline_reset:
  "length s < n \<Longrightarrow> CHR ''\<newline>'' \<notin> set s \<Longrightarrow> readline False n s = Inl SocketError"
proof (induction s arbitrary: n)
  case Nil
  then show ?case by (cases n) auto
next
  case (Cons c s)
  then show ?case by (cases n) auto
qed

subsection \<open>Splitting and stripping\<close>

definition is_space :: "char \<Rightarrow> bool" where
  "is_space c \<longleftrightarrow> of_char c \<in> {9, 10, 11, 12, 13, 32 :: nat}"

text \<open>\<open>s.rstrip('\r\n')\<close> and \<open>s.strip()\<close>.\<close>

definition rstrip_crlf :: "string \<Rightarrow> string" where
  "rstrip_crlf s = rev (dropWhile (\<lambda>c. c = CHR ''\<newline>'' \<or> c = CHR 0x0D) (rev s))"

definition strip :: "string \<Rightarrow> string" where
  "strip s = rev (dropWhile is_space (rev (dropWhile is_space s)))"

text \<open>\<open>s.split()\<close>: the maximal runs of non-space bytes.\<close>

fun split_on :: "(char \<Rightarrow> bool) \<Rightarrow> string \<Rightarrow> string list" where
  "split_on p [] = [[]]"
| "split_on p (c # s) =
     (if p c then [] # split_on p s
      else (case split_on p s of [] \<Rightarrow> [[c]] | w # ws \<Rightarrow> (c # w) # ws))"

definition split_words :: "string \<Rightarrow> string list" where
  "split_words s = filter (\<lambda>w. w \<noteq> []) (split_on is_space s)"

subsection \<open>Headers\<close>

text \<open>
  The header reader of \<open>mimetools.Message(rfile, 0)\<close>: one line per header
  \<open>Name: value\<close>, up to a blank line or the end of the input; a line without a
  colon ends the headers.  (Continuation lines and \<open>From \<close> lines are not
  modelled.)  Every line read makes the input shorter, which is the measure.
\<close>

function read_headers :: "bool \<Rightarrow> string \<Rightarrow> py_error + (headers \<times> string)" where
  "read_headers eof s =
     (case readline_all eof s of
        Inl e \<Rightarrow> Inl e
      | Inr (line, rest) \<Rightarrow>
          (let l = rstrip_crlf line in
           if line = [] \<or> l = [] \<or> CHR '':'' \<notin> set l then Inr ([], rest)
           else
             (case read_headers eof rest of
                Inl e \<Rightarrow> Inl e
              | Inr (hs, body) \<Rightarrow>
                  Inr ((takeWhile (\<lambda>c. c \<noteq> CHR '':'') l,
                        strip (tl (dropWhile (\<lambda>c. c \<noteq> CHR '':'') l))) # hs, body))))"
  by pat_completeness auto
termination
  by (relation "measure (\<lambda>(eof, s). length s)")
     (auto simp: readline_all_def dest: readline_shorter)

declare read_headers.simps [simp del]

subsection \<open>The request line\<close>

text \<open>
  \<open>parse_request\<close> of BaseHTTPRequestHandler: the request line split into words;
  three words need a version starting \<open>HTTP/\<close>, two words are an HTTP/0.9
  \<open>GET\<close>; no word at all is refused silently, anything else with
  \<open>send_error(400)\<close>.  Then the headers are read; what follows them is the
  body stream.  (The numeric check of the version, error 505, is not modelled.)
  The result is an error to send, no response at all, a read error, or the
  parsed command, path, headers and body.
\<close>

datatype parsed =
    ParseError int
  | ParseSilent
  | ParseRead py_error
  | Parsed string string headers string

definition parse_request :: "bool \<Rightarrow> string \<Rightarrow> string \<Rightarrow> parsed" where
  "parse_request eof raw rest =
     (let words = split_words (rstrip_crlf raw) in
      if length words = 3 \<and> take 5 (words ! 2) \<noteq> ''HTTP/'' then ParseError 400
      else if length words = 2 \<and> words ! 0 \<noteq> ''GET'' then ParseError 400
      else if words = [] then ParseSilent
      else if length words \<noteq> 2 \<and> length words \<noteq> 3 then ParseError 400
      else (case read_headers eof rest of
              Inl e \<Rightarrow> ParseRead e
            | Inr (hs, body) \<Rightarrow> Parsed (words ! 0) (words ! 1) hs body))"

subsection \<open>Writing the response\<close>

text \<open>What the handler writes, one element per call: the status line, a header,
  the blank line, the body.\<close>

datatype wire = Status int string | Header string string | EndHeaders | Body string

text \<open>\<open>send_response(code, message)\<close> writes the status line and the two headers
  BaseHTTPServer always adds, \<open>Server\<close> and \<open>Date\<close>; the date is the clock
  reading, a parameter.\<close>

definition server_version :: string where
  "server_version = ''BaseHTTP/0.3 Python/2.7''"

definition send_response :: "string \<Rightarrow> int \<Rightarrow> string \<Rightarrow> wire list" where
  "send_response date code msg = [Status code msg, Header ''Server'' server_version, Header ''Date'' date]"

text \<open>The short messages of BaseHTTPRequestHandler.responses for the codes the
  handler raises itself.\<close>

definition short_message :: "int \<Rightarrow> string" where
  "short_message code =
     (if code = 400 then ''Bad Request'' else if code = 414 then ''Request-URI Too Long'' else ''???'')"

definition send_error :: "string \<Rightarrow> int \<Rightarrow> wire list" where
  "send_error date code =
     send_response date code (short_message code) @
     [Header ''Content-Type'' ''text/html'', Header ''Connection'' ''close'', EndHeaders,
      Body (short_message code)]"

text \<open>Lines 175--181 of \<open>handle_one_request\<close>: status, every header of the
  response dict, the blank line, the body.\<close>

definition write_response :: "string \<Rightarrow> response \<Rightarrow> wire list" where
  "write_response date resp =
     send_response date (resp_code resp) (resp_message resp) @
     map (\<lambda>(n, v). Header n v) (resp_headers resp) @ [EndHeaders, Body (resp_body resp)]"

text \<open>The client's side of the same bytes (httplib's response reader, as
  \<open>requests\<close> uses it): the status line, the headers up to the blank line, the
  body.  \<open>resp.headers\<close> in make_request (line 69) is this header list.\<close>

fun read_wire_headers :: "wire list \<Rightarrow> (headers \<times> wire list) option" where
  "read_wire_headers (Header n v # ws) = map_option (\<lambda>(hs, r). ((n, v) # hs, r)) (read_wire_headers ws)"
| "read_wire_headers (EndHeaders # ws) = Some ([], ws)"
| "read_wire_headers _ = None"

fun read_wire :: "wire list \<Rightarrow> response option" where
  "read_wire (Status code msg # ws) =
     (case read_wire_headers ws of
        Some (hs, [Body b]) \<Rightarrow> Some \<lparr>resp_code = code, resp_message = msg, resp_headers = hs, resp_body = b\<rparr>
      | _ \<Rightarrow> None)"
| "read_wire _ = None"

lemmas wire_defs [deproxy_simps] =
  readline_all_def is_space_def rstrip_crlf_def strip_def split_words_def parse_request_def
  server_version_def send_response_def short_message_def send_error_def write_response_def

lemma read_wire_headers_map:
  "read_wire_headers (map (\<lambda>(n, v). Header n v) hs @ EndHeaders # ws) = Some (hs, ws)"
  by (induction hs) auto

text \<open>Write/parse round trip of a response: what the client reads back from
  the bytes \<open>handle_one_request\<close> writes (lines 175--181) is the handler's
  response with the two headers \<open>send_response\<close> puts first, \<open>Server\<close> and
  \<open>Date\<close>.\<close>

lemma read_wire_write_response:
  "read_wire (write_response date resp) =
     Some (resp\<lparr>resp_headers := [(''Server'', server_version), (''Date'', date)] @ resp_headers resp\<rparr>)"
proof -
  have "write_response date resp =
        Status (resp_code resp) (resp_message resp) #
        map (\<lambda>(n, v). Header n v) ([(''Server'', server_version), (''Date'', date)] @ resp_headers resp) @
        [EndHeaders, Body (resp_body resp)]"
    by (simp add: write_response_def send_response_def)
  then show ?thesis by (simp only: read_wire.simps read_wire_headers_map) simp
qed

subsection \<open>The request as the client writes it\<close>

text \<open>
  The bytes the requests library writes for a request: the request line
  \<open>METHOD path HTTP/1.1\<close>, one \<open>Name: val\<close> line per header, a blank line,
  the body; every line ends with CR LF.  \<open>wf_request\<close> is what the server's
  parser needs to read it back: method and path are words without white space,
  the request line is within the 65536-byte limit, a header name is not empty
  and has no colon and no newline, and a val has no newline and no white
  space at either end (the reader strips it).
\<close>

definition header_line :: "header \<Rightarrow> string" where
  "header_line h = (case h of (name, val) \<Rightarrow> name @ '': '' @ val @ [CHR 0x0D, CHR ''\<newline>''])"

definition write_request :: "request \<Rightarrow> string" where
  "write_request req =
     req_method req @ CHR '' '' # req_path req @ '' HTTP/1.1'' @ [CHR 0x0D, CHR ''\<newline>''] @
     concat (map header_line (req_headers req)) @ [CHR 0x0D, CHR ''\<newline>''] @ req_body req"

definition token :: "string \<Rightarrow> bool" where
  "token s \<longleftrightarrow> s \<noteq> [] \<and> list_all (\<lambda>c. \<not> is_space c) s"

definition header_ok :: "header \<Rightarrow> bool" where
  "header_ok h =
     (case h of (name, val) \<Rightarrow>
        name \<noteq> [] \<and> list_all (\<lambda>c. c \<noteq> CHR '':'' \<and> c \<noteq> CHR ''\<newline>'') name \<and>
        list_all (\<lambda>c. c \<noteq> CHR ''\<newline>'') val \<and>
        (val = [] \<or> \<not> is_space (hd val) \<and> \<not> is_space (last val)))"

definition wf_request :: "request \<Rightarrow> bool" where
  "wf_request req \<longleftrightarrow>
     token (req_method req) \<and> token (req_path req) \<and> list_all header_ok (req_headers req) \<and>
     length (req_method req) + length (req_path req) + 12 \<le> 65536"

lemma readline_line:
  "CHR ''\<newline>'' \<notin> set l \<Longrightarrow> length l < n \<Longrightarrow>
   readline eof n (l @ CHR ''\<newline>'' # r) = Inr (l @ [CHR ''\<newline>''], r)"
proof (induction l arbitrary: n)
  case Nil
  then show ?case by (cases n) auto
next
  case (Cons a l)
  then show ?case by (cases n) auto
qed

lemma readline_all_line:
  "CHR ''\<newline>'' \<notin> set l \<Longrightarrow> readline_all eof (l @ CHR ''\<newline>'' # r) = Inr (l @ [CHR ''\<newline>''], r)"
  by (simp add: readline_all_def readline_line)

lemma split_on_word: "list_all (\<lambda>c. \<not> p c) w \<Longrightarrow> split_on p w = [w]"
  by (induction w) auto

lemma split_on_append:
  "list_all (\<lambda>c. \<not> p c) w \<Longrightarrow> p c \<Longrightarrow> split_on p (w @ c # s) = w # split_on p s"
  by (induction w) auto

lemma is_space_simps [simp]:
  "is_space (CHR '' '')" "is_space (CHR 0x0D)" "is_space (CHR ''\<newline>'')"
  "\<not> is_space (CHR '':'')"
  by (simp_all add: is_space_def)

lemma rstrip_crlf_append:
  "x \<noteq> [] \<Longrightarrow> last x \<noteq> CHR ''\<newline>'' \<Longrightarrow> last x \<noteq> CHR 0x0D \<Longrightarrow>
   rstrip_crlf (x @ [CHR 0x0D, CHR ''\<newline>'']) = x"
  by (cases x rule: rev_cases) (simp_all add: rstrip_crlf_def)

lemma strip_space_value:
  "val = [] \<or> \<not> is_space (hd val) \<and> \<not> is_space (last val) \<Longrightarrow> strip (CHR '' '' # val) = val"
proof (cases val rule: rev_cases)
  case (snoc ys y)
  assume a: "val = [] \<or> \<not> is_space (hd val) \<and> \<not> is_space (last val)"
  with snoc have "dropWhile is_space val = val" by (cases ys) auto
  with snoc a show ?thesis by (simp add: strip_def)
qed (simp add: strip_def)

lemma read_headers_write:
  "list_all header_ok hs \<Longrightarrow>
   read_headers eof (concat (map header_line hs) @ CHR 0x0D # CHR ''\<newline>'' # body) = Inr (hs, body)"
proof (induction hs)
  case Nil
  have "readline_all eof (CHR 0x0D # CHR ''\<newline>'' # body) = Inr ([CHR 0x0D, CHR ''\<newline>''], body)"
    using readline_all_line [of "[CHR 0x0D]" eof body] by simp
  then show ?case by (subst read_headers.simps) (simp add: rstrip_crlf_def)
next
  case (Cons h hs)
  obtain name val where h: "h = (name, val)" by fastforce
  let ?l = "name @ CHR '':'' # CHR '' '' # val"
  have hok: "header_ok (name, val)" using Cons.prems by (simp add: h)
  have hs: "list_all header_ok hs" using Cons.prems by simp
  from hok have ok: "name \<noteq> []" "list_all (\<lambda>c. c \<noteq> CHR '':'' \<and> c \<noteq> CHR ''\<newline>'') name"
    "list_all (\<lambda>c. c \<noteq> CHR ''\<newline>'') val"
    "val = [] \<or> \<not> is_space (hd val) \<and> \<not> is_space (last val)"
    by (simp_all add: header_ok_def)
  have "CHR ''\<newline>'' \<notin> set name" "CHR ''\<newline>'' \<notin> set val"
    using ok(2,3) by (auto simp: list_all_iff)
  then have nl: "CHR ''\<newline>'' \<notin> set (?l @ [CHR 0x0D])" by simp
  have rl: "readline_all eof (header_line (name, val) @ concat (map header_line hs) @ CHR 0x0D # CHR ''\<newline>'' # body) =
      Inr (?l @ [CHR 0x0D, CHR ''\<newline>''], concat (map header_line hs) @ CHR 0x0D # CHR ''\<newline>'' # body)"
    using readline_all_line [OF nl] by (simp add: header_line_def)
  have "last ?l \<noteq> CHR ''\<newline>'' \<and> last ?l \<noteq> CHR 0x0D"
  proof (cases val rule: rev_cases)
    case Nil
    then show ?thesis by simp
  next
    case (snoc ys y)
    then have "\<not> is_space y" "y \<noteq> CHR ''\<newline>''" using ok(3,4) by (simp_all add: list_all_iff)
    moreover from this(1) have "y \<noteq> CHR 0x0D" by (metis is_space_simps(2))
    ultimately show ?thesis by (simp add: snoc)
  qed
  then have rs: "rstrip_crlf (name @ CHR '':'' # CHR '' '' # val @ [CHR 0x0D, CHR ''\<newline>'']) = ?l"
    using rstrip_crlf_append [of ?l] by simp
  have tw: "takeWhile (\<lambda>c. c \<noteq> CHR '':'') ?l = name"
    using ok(2) by (simp add: takeWhile_append list_all_iff)
  have dw: "dropWhile (\<lambda>c. c \<noteq> CHR '':'') ?l = CHR '':'' # CHR '' '' # val"
    using ok(2) by (simp add: dropWhile_append list_all_iff)
  have sv: "strip (CHR '' '' # val) = val" by (rule strip_space_value [OF ok(4)])
  show ?case
    by (subst read_headers.simps) (simp add: h rl rs tw dw sv Cons.IH [OF hs] Let_def)
qed

lemma split_words_request_line:
  "token m \<Longrightarrow> token p \<Longrightarrow> split_words (m @ CHR '' '' # p @ '' HTTP/1.1'') = [m, p, ''HTTP/1.1'']"
proof -
  assume m: "token m" and p: "token p"
  have http: "list_all (\<lambda>c. \<not> is_space c) ''HTTP/1.1''" by (simp add: is_space_def)
  have "split_on is_space (m @ CHR '' '' # p @ CHR '' '' # ''HTTP/1.1'') = [m, p, ''HTTP/1.1'']"
    using m p http by (simp add: token_def split_on_append is_space_def)
  then show ?thesis using m p by (simp add: split_words_def token_def)
qed

lemma read_write_request:
  assumes "wf_request req"
  shows "\<exists>line rest. readline eof 65537 (write_request req) = Inr (line, rest) \<and> line \<noteq> [] \<and>
           length line \<le> 65536 \<and>
           parse_request eof line rest = Parsed (req_method req) (req_path req) (req_headers req) (req_body req)"
proof -
  let ?w = "req_method req @ CHR '' '' # req_path req @ '' HTTP/1.1''"
  let ?rest = "concat (map header_line (req_headers req)) @ [CHR 0x0D, CHR ''\<newline>''] @ req_body req"
  have ok: "token (req_method req)" "token (req_path req)" "list_all header_ok (req_headers req)"
    "length (req_method req) + length (req_path req) + 12 \<le> 65536"
    using assms by (simp_all add: wf_request_def)
  have nl: "CHR ''\<newline>'' \<notin> set (?w @ [CHR 0x0D])"
    using ok(1,2) by (auto simp: token_def list_all_iff)
  have "write_request req = (?w @ [CHR 0x0D]) @ CHR ''\<newline>'' # ?rest" by (simp add: write_request_def)
  moreover have "length (?w @ [CHR 0x0D]) < 65537" using ok(4) by simp
  ultimately have rl: "readline eof 65537 (write_request req) = Inr (?w @ [CHR 0x0D, CHR ''\<newline>''], ?rest)"
    using readline_line [OF nl] by simp
  have "rstrip_crlf (?w @ [CHR 0x0D, CHR ''\<newline>'']) = ?w" by (rule rstrip_crlf_append) simp_all
  then have parse: "parse_request eof (?w @ [CHR 0x0D, CHR ''\<newline>'']) ?rest =
      Parsed (req_method req) (req_path req) (req_headers req) (req_body req)"
    by (simp add: parse_request_def Let_def split_words_request_line [OF ok(1,2)] read_headers_write [OF ok(3)])
  moreover have "?w @ [CHR 0x0D, CHR ''\<newline>''] \<noteq> []" by simp
  moreover have "length (?w @ [CHR 0x0D, CHR ''\<newline>'']) \<le> 65536" using ok(4) by simp
  ultimately show ?thesis using rl by blast
qed

end
