(* ===== verification/RequestHandler.thy ===== *)
theory RequestHandler
  imports Endpoint Wire
begin

text \<open>
  The connection handler: \<open>DeproxyRequestHandler.handle_one_request\<close>
  (deproxy.py lines 131--187), run by the endpoint's thread for each accepted
  connection.  The Deproxy object is read through \<open>get_message_chain\<close>; the
  \<open>MessageChain\<close> objects are a heap \<open>'r \<rightharpoonup> message_chain\<close>, because the
  handler appends to the very object the client of \<open>make_request\<close> holds.
  The body of the method is split as the code is, so that the concurrent model
  (theory System) runs the same pieces as separate atomic steps:
  \<^item> \<open>select_handler\<close>, lines 157--163: the lookup of the \<open>Request-ID\<close> header
    in the registry, and the handler of the chain found, or the default;
  \<^item> \<open>echo_request_id\<close>, lines 167--168: the id copied into the response headers;
  \<^item> \<open>record_handling\<close>, lines 172--173: the handling appended to the chain;
  \<^item> \<open>write_response\<close> (theory Wire), lines 175--181.
  The connection loop of \<open>handle\<close> (lines 123--129 and BaseHTTPServer) is
  \<open>deproxy_handle\<close>.  The handler keeps BaseHTTPServer's default
  \<open>protocol_version\<close> HTTP/1.0, under which \<open>parse_request\<close> never clears
  \<open>close_connection\<close>; the model sets the flag on every path instead of
  parsing the version and the \<open>Connection\<close> header, so the loop stops after
  one request by construction of the model (\<open>handle_one_request_closes\<close>).
\<close>

definition select_handler ::
  "('r, 'a) deproxy_scheme \<Rightarrow> ('r \<rightharpoonup> message_chain) \<Rightarrow> headers \<Rightarrow> handler \<times> 'r option" where
  "select_handler d heap hs =
     (if msg_has hs request_id_header_name then
        (let request_id = the (msg_get hs request_id_header_name) in
         case get_message_chain d request_id of
           Some r \<Rightarrow> (handler_function (the (heap r)), Some r)
         | None \<Rightarrow> (default_handler, None))
      else (default_handler, None))"

definition echo_request_id :: "headers \<Rightarrow> response \<Rightarrow> response" where
  "echo_request_id hs resp =
     (if msg_has hs request_id_header_name
      then resp\<lparr>resp_headers := dict_set (resp_headers resp) request_id_header_name
                                   (the (msg_get hs request_id_header_name))\<rparr>
      else resp)"

definition record_handling :: "('r \<rightharpoonup> message_chain) \<Rightarrow> 'r option \<Rightarrow> handling \<Rightarrow> ('r \<rightharpoonup> message_chain)" where
  "record_handling heap mc h =
     (case mc of None \<Rightarrow> heap | Some r \<Rightarrow> heap(r := map_option (add_handling h) (heap r)))"

text \<open>Lines 155--181, on a request that \<open>parse_request\<close> accepted: the heap
  after the call and the response the handler sent.\<close>

definition serve_request ::
  "('r, 'a) deproxy_scheme \<Rightarrow> ('r \<rightharpoonup> message_chain) \<Rightarrow> endpoint \<Rightarrow> request \<Rightarrow>
   ('r \<rightharpoonup> message_chain) \<times> response" where
  "serve_request d heap ep incoming_request =
     (let (handler_fn, message_chain) = select_handler d heap (req_headers incoming_request);
          resp = handler_fn incoming_request;
          outgoing_response = echo_request_id (req_headers incoming_request) resp
      in (record_handling heap message_chain
            \<lparr>h_endpoint = ep, h_request = incoming_request, h_response = outgoing_response\<rparr>,
          outgoing_response))"

text \<open>What one call leaves behind: the heap, the bytes written, the read
  exception that ended it, if any, the input not consumed, and what it did to
  \<open>self.close_connection\<close> (\<open>None\<close>: left as it was).  A read exception is
  \<open>socket.error\<close> from a reset peer: the \<open>except socket.timeout\<close> of lines
  183--187 does not catch it (and a timeout cannot occur, the socket has
  none), so it leaves \<open>handle_one_request\<close> and SocketServer's
  \<open>handle_error\<close> prints it before the connection is closed; nothing has been
  written and no record touched.  \<open>parse_request\<close> sets the flag first thing,
  and leaves it set because the handler keeps BaseHTTPServer's default
  \<open>protocol_version\<close> HTTP/1.0; \<open>send_error\<close> sets it too, by its
  \<open>Connection: close\<close> header.\<close>

record 'r conn_result =
  cr_chains :: "'r \<rightharpoonup> message_chain"
  cr_out :: "wire list"
  cr_logged :: "py_error option"
  cr_rest :: string
  cr_close :: "bool option"

definition handle_one_request ::
  "('r, 'a) deproxy_scheme \<Rightarrow> ('r \<rightharpoonup> message_chain) \<Rightarrow> endpoint \<Rightarrow> string \<Rightarrow> bool \<Rightarrow> string \<Rightarrow>
   'r conn_result" where
  "handle_one_request d heap ep date eof input =
     (case readline eof 65537 input of
        Inl e \<Rightarrow> \<lparr>cr_chains = heap, cr_out = [], cr_logged = Some e, cr_rest = [], cr_close = Some True\<rparr>
      | Inr (raw_requestline, rest) \<Rightarrow>
          if 65536 < length raw_requestline
          then \<lparr>cr_chains = heap, cr_out = send_error date 414, cr_logged = None, cr_rest = rest, cr_close = Some True\<rparr>
          else if raw_requestline = []
          then \<lparr>cr_chains = heap, cr_out = [], cr_logged = None, cr_rest = rest, cr_close = Some True\<rparr>
          else
            (case parse_request eof raw_requestline rest of
               ParseError code \<Rightarrow>
                 \<lparr>cr_chains = heap, cr_out = send_error date code, cr_logged = None, cr_rest = rest,
                  cr_close = Some True\<rparr>
             | ParseSilent \<Rightarrow> \<lparr>cr_chains = heap, cr_out = [], cr_logged = None, cr_rest = rest, cr_close = Some True\<rparr>
             | ParseRead e \<Rightarrow> \<lparr>cr_chains = heap, cr_out = [], cr_logged = Some e, cr_rest = [], cr_close = Some True\<rparr>
             | Parsed command path hs body \<Rightarrow>
                 (let (heap', resp) =
                        serve_request d heap ep
                          \<lparr>req_method = command, req_path = path, req_headers = hs, req_body = body\<rparr>
                  in \<lparr>cr_chains = heap', cr_out = write_response date resp, cr_logged = None, cr_rest = body,
                      cr_close = Some True\<rparr>)))"

text \<open>\<open>BaseHTTPRequestHandler.handle\<close>, which \<open>DeproxyRequestHandler.handle\<close>
  (lines 127--129) calls and which the constructor (lines 123--125) runs:
  \<open>close_connection = 1\<close>, one \<open>handle_one_request\<close>, then more while the flag
  is clear.  The loop need not end in general, hence \<open>partial_function\<close>:
  \<open>handle_loop\<close> is entered with the flag clear.\<close>

definition close_after :: "bool \<Rightarrow> 'r conn_result \<Rightarrow> bool" where
  "close_after cc r = (case cr_close r of None \<Rightarrow> cc | Some b \<Rightarrow> b)"

partial_function (option) handle_loop ::
  "('r, 'a) deproxy_scheme \<Rightarrow> ('r \<rightharpoonup> message_chain) \<Rightarrow> endpoint \<Rightarrow> string \<Rightarrow> bool \<Rightarrow> string \<Rightarrow>
   'r conn_result option" where
  "handle_loop d heap ep date eof input =
     (let r = handle_one_request d heap ep date eof input in
      if close_after False r then Some r
      else Option.bind (handle_loop d (cr_chains r) ep date eof (cr_rest r))
             (\<lambda>r'. Some (r'\<lparr>cr_out := cr_out r @ cr_out r'\<rparr>)))"

definition deproxy_handle ::
  "('r, 'a) deproxy_scheme \<Rightarrow> ('r \<rightharpoonup> message_chain) \<Rightarrow> endpoint \<Rightarrow> string \<Rightarrow> bool \<Rightarrow> string \<Rightarrow>
   'r conn_result option" where
  "deproxy_handle d heap ep date eof input =
     (let r = handle_one_request d heap ep date eof input in
      if close_after True r then Some r
      else Option.bind (handle_loop d (cr_chains r) ep date eof (cr_rest r))
             (\<lambda>r'. Some (r'\<lparr>cr_out := cr_out r @ cr_out r'\<rparr>)))"

text \<open>Lines 109--111: the endpoint's request-handler factory.  The server calls
  \<open>self.instantiate(request, client_address, server)\<close> for each accepted
  connection, and constructing the handler runs \<open>__init__\<close>, which serves the
  connection before returning.\<close>

definition instantiate ::
  "('r, 'a) deproxy_scheme \<Rightarrow> ('r \<rightharpoonup> message_chain) \<Rightarrow> endpoint \<Rightarrow> string \<Rightarrow> bool \<Rightarrow> string \<Rightarrow>
   'r conn_result option" where
  "instantiate d heap ep date eof input = deproxy_handle d heap ep date eof input"

lemmas handler_defs [deproxy_simps] =
  select_handler_def echo_request_id_def record_handling_def serve_request_def handle_one_request_def

subsection \<open>The pieces, case by case\<close>

lemma select_handler_found:
  "msg_get hs request_id_header_name = Some rid \<Longrightarrow> message_chains d rid = Some r \<Longrightarrow>
   select_handler d heap hs = (handler_function (the (heap r)), Some r)"
  by (simp add: select_handler_def msg_has_iff_get)

lemma select_handler_default:
  "(\<forall>rid. msg_get hs request_id_header_name = Some rid \<longrightarrow> message_chains d rid = None) \<Longrightarrow>
   select_handler d heap hs = (default_handler, None)"
  by (cases "msg_get hs request_id_header_name") (auto simp: select_handler_def msg_has_iff_get)

lemma select_handler_Some:
  "select_handler d heap hs = (f, Some r) \<Longrightarrow>
   \<exists>rid. msg_get hs request_id_header_name = Some rid \<and> message_chains d rid = Some r"
  by (auto simp: select_handler_def msg_has_iff_get Let_def split: if_splits option.splits)

lemma echo_request_id_Some:
  "msg_get hs request_id_header_name = Some rid \<Longrightarrow>
   echo_request_id hs resp = resp\<lparr>resp_headers := dict_set (resp_headers resp) request_id_header_name rid\<rparr>"
  by (simp add: echo_request_id_def msg_has_iff_get)

lemma echo_request_id_None:
  "msg_get hs request_id_header_name = None \<Longrightarrow> echo_request_id hs resp = resp"
  by (simp add: echo_request_id_def msg_has_iff_get)

lemma echo_request_id_fields [simp]:
  "resp_code (echo_request_id hs resp) = resp_code resp"
  "resp_message (echo_request_id hs resp) = resp_message resp"
  "resp_body (echo_request_id hs resp) = resp_body resp"
  by (simp_all add: echo_request_id_def)

lemma record_handling_None [simp]: "record_handling heap None h = heap"
  by (simp add: record_handling_def)

lemma record_handling_Some [simp]:
  "record_handling heap (Some r) h = heap(r := map_option (add_handling h) (heap r))"
  by (simp add: record_handling_def)

lemma record_handling_other: "r' \<noteq> r \<Longrightarrow> record_handling heap (Some r) h r' = heap r'"
  by simp

subsection \<open>Correctness of one request\<close>

lemma serve_request_found:
  assumes "msg_get (req_headers rq) request_id_header_name = Some rid"
    and "message_chains d rid = Some r" and "heap r = Some mc"
  shows "serve_request d heap ep rq =
     (let resp = handler_function mc rq;
          resp' = resp\<lparr>resp_headers := dict_set (resp_headers resp) request_id_header_name rid\<rparr>
      in (heap(r \<mapsto> add_handling \<lparr>h_endpoint = ep, h_request = rq, h_response = resp'\<rparr> mc), resp'))"
  using assms by (simp add: serve_request_def select_handler_found echo_request_id_Some Let_def)

lemma serve_request_unmatched:
  assumes "\<forall>rid. msg_get (req_headers rq) request_id_header_name = Some rid \<longrightarrow> message_chains d rid = None"
  shows "serve_request d heap ep rq = (heap, echo_request_id (req_headers rq) (default_handler rq))"
  using assms by (simp add: serve_request_def select_handler_default)

lemma serve_request_changes:
  assumes "fst (serve_request d heap ep rq) r \<noteq> heap r"
  shows "\<exists>rid mc. heap r = Some mc \<and> message_chains d rid = Some r \<and>
     msg_get (req_headers rq) request_id_header_name = Some rid \<and>
     fst (serve_request d heap ep rq) r =
       Some (add_handling \<lparr>h_endpoint = ep, h_request = rq, h_response = snd (serve_request d heap ep rq)\<rparr> mc)"
proof -
  obtain f m where sel: "select_handler d heap (req_headers rq) = (f, m)"
    by (cases "select_handler d heap (req_headers rq)")
  show ?thesis
  proof (cases m)
    case None
    with sel assms show ?thesis by (simp add: serve_request_def)
  next
    case (Some r0)
    with sel assms have "r = r0" and "heap r0 \<noteq> None"
      by (cases "heap r0"; auto simp: serve_request_def Let_def split: if_splits)+
    with Some sel assms show ?thesis
      by (auto simp: serve_request_def Let_def dest: select_handler_Some)
  qed
qed

lemma serve_request_response:
  "snd (serve_request d heap ep rq) =
     echo_request_id (req_headers rq) (fst (select_handler d heap (req_headers rq)) rq)"
  by (simp add: serve_request_def Let_def split: prod.split)

text \<open>Every call either leaves the heap alone or is \<open>serve_request\<close> on the
  request it parsed.\<close>

lemma handle_one_request_cases:
  "cr_chains (handle_one_request d heap ep date eof input) = heap \<or>
   (\<exists>rq. cr_chains (handle_one_request d heap ep date eof input) = fst (serve_request d heap ep rq))"
proof (cases "readline eof 65537 input")
  case (Inr x)
  obtain raw rest where x: "x = (raw, rest)" by (cases x)
  show ?thesis
  proof (cases "65536 < length raw \<or> raw = []")
    case True
    with Inr x show ?thesis by (auto simp: handle_one_request_def)
  next
    case False
    show ?thesis
    proof (cases "parse_request eof raw rest")
      case (Parsed c p hs b)
      let ?rq = "\<lparr>req_method = c, req_path = p, req_headers = hs, req_body = b\<rparr>"
      have "cr_chains (handle_one_request d heap ep date eof input) = fst (serve_request d heap ep ?rq)"
        using Inr x Parsed False by (simp add: handle_one_request_def split: prod.split)
      then show ?thesis by blast
    qed (use Inr x False in \<open>simp_all add: handle_one_request_def\<close>)
  qed
qed (simp add: handle_one_request_def)

text \<open>C1. A connection changes at most one conversation record, the one its
  \<open>Request-ID\<close> header names in the registry, and only by appending one
  handling to it: an inbound request is never recorded against another call's
  conversation.\<close>

theorem handle_one_request_touches_only_matched_chain:
  assumes "cr_chains (handle_one_request d heap ep date eof input) r \<noteq> heap r"
  shows "\<exists>rid rq resp mc. heap r = Some mc \<and> message_chains d rid = Some r \<and>
     msg_get (req_headers rq) request_id_header_name = Some rid \<and>
     cr_chains (handle_one_request d heap ep date eof input) r =
       Some (add_handling \<lparr>h_endpoint = ep, h_request = rq, h_response = resp\<rparr> mc)"
  using handle_one_request_cases [of d heap ep date eof input]
proof
  assume "cr_chains (handle_one_request d heap ep date eof input) = heap"
  with assms show ?thesis by simp
next
  assume "\<exists>rq. cr_chains (handle_one_request d heap ep date eof input) = fst (serve_request d heap ep rq)"
  then obtain rq where "cr_chains (handle_one_request d heap ep date eof input) = fst (serve_request d heap ep rq)" ..
  with assms serve_request_changes [of d heap ep rq r] show ?thesis by fastforce
qed

theorem handle_one_request_touches_only_matched_chain_witness:
  "cr_chains (handle_one_request \<lparr>message_chains = [''abc'' \<mapsto> (1::nat)], endpoints = []\<rparr>
      [1 \<mapsto> new_message_chain handler2] (DeproxyEndpoint (''localhost'', 8081)) ''now'' True
      (''GET /abc/123 HTTP/1.1'' @ [CHR ''\<newline>''] @ ''Request-ID: abc'' @ [CHR ''\<newline>'', CHR ''\<newline>''])) 1
    \<noteq> [1 \<mapsto> new_message_chain handler2] 1 \<and>
   (\<exists>rid rq resp mc. [(1::nat) \<mapsto> new_message_chain handler2] 1 = Some mc \<and>
     message_chains \<lparr>message_chains = [''abc'' \<mapsto> (1::nat)], endpoints = []\<rparr> rid = Some 1 \<and>
     msg_get (req_headers rq) request_id_header_name = Some rid \<and>
     cr_chains (handle_one_request \<lparr>message_chains = [''abc'' \<mapsto> (1::nat)], endpoints = []\<rparr>
      [1 \<mapsto> new_message_chain handler2] (DeproxyEndpoint (''localhost'', 8081)) ''now'' True
      (''GET /abc/123 HTTP/1.1'' @ [CHR ''\<newline>''] @ ''Request-ID: abc'' @ [CHR ''\<newline>'', CHR ''\<newline>''])) 1 =
       Some (add_handling \<lparr>h_endpoint = DeproxyEndpoint (''localhost'', 8081), h_request = rq, h_response = resp\<rparr> mc))"
proof -
  have h: "cr_chains (handle_one_request \<lparr>message_chains = [''abc'' \<mapsto> (1::nat)], endpoints = []\<rparr>
      [1 \<mapsto> new_message_chain handler2] (DeproxyEndpoint (''localhost'', 8081)) ''now'' True
      (''GET /abc/123 HTTP/1.1'' @ [CHR ''\<newline>''] @ ''Request-ID: abc'' @ [CHR ''\<newline>'', CHR ''\<newline>''])) 1
    \<noteq> [1 \<mapsto> new_message_chain handler2] 1"
    by (simp add: deproxy_simps read_headers.simps)
  show ?thesis
    by (rule conjI [OF h handle_one_request_touches_only_matched_chain [OF h]])
qed

subsection \<open>Errors, defaults and the echo\<close>

text \<open>C9. A request line longer than 65536 bytes (no newline within the
  first 65537 bytes read) is answered with \<open>send_error(414)\<close> and no
  conversation record is touched (lines 141--147; spec scenario 4).\<close>

theorem oversized_request_line_rejected:
  assumes "65537 \<le> length input" "CHR ''\<newline>'' \<notin> set (take 65537 input)"
  shows "handle_one_request d heap ep date eof input =
           \<lparr>cr_chains = heap, cr_out = send_error date 414, cr_logged = None, cr_rest = drop 65537 input,
            cr_close = Some True\<rparr>"
proof -
  have "readline eof 65537 input = Inr (take 65537 input, drop 65537 input)"
    using assms by (rule readline_no_newline)
  moreover have "65536 < length (take 65537 input)" using assms(1) by simp
  ultimately show ?thesis by (simp add: handle_one_request_def)
qed

theorem oversized_request_line_rejected_witness:
  "handle_one_request \<lparr>message_chains = [''abc'' \<mapsto> (1::nat)], endpoints = []\<rparr> [1 \<mapsto> new_message_chain handler2]
     (DeproxyEndpoint (''localhost'', 8081)) ''now'' True (replicate 65537 (CHR ''a'')) =
   \<lparr>cr_chains = [1 \<mapsto> new_message_chain handler2], cr_out = send_error ''now'' 414, cr_logged = None,
    cr_rest = [], cr_close = Some True\<rparr>"
  using oversized_request_line_rejected [of "replicate 65537 (CHR ''a'')"] by simp

text \<open>C10. A request whose \<open>Request-ID\<close> is absent or not registered is
  answered by the default handler, 200 \<open>OK\<close> with an empty body, and nothing
  is recorded; but the response is not free of headers when the request
  carried an unregistered id: lines 167--168 test only that the header is
  present, so that id is echoed.\<close>

theorem unmatched_request_default_response:
  assumes "\<forall>rid. msg_get (req_headers rq) request_id_header_name = Some rid \<longrightarrow> message_chains d rid = None"
  shows "serve_request d heap ep rq =
     (heap, \<lparr>resp_code = 200, resp_message = ''OK'',
             resp_headers = (case msg_get (req_headers rq) request_id_header_name of
                               None \<Rightarrow> [] | Some rid \<Rightarrow> [(request_id_header_name, rid)]),
             resp_body = []\<rparr>)"
proof (cases "msg_get (req_headers rq) request_id_header_name")
  case None
  with assms show ?thesis by (simp add: serve_request_unmatched echo_request_id_None default_handler_def)
next
  case (Some rid)
  with assms show ?thesis
    by (simp add: serve_request_unmatched echo_request_id_Some default_handler_def dict_set_def)
qed

theorem unmatched_request_default_response_witness:
  "serve_request \<lparr>message_chains = (Map.empty :: string \<rightharpoonup> nat), endpoints = []\<rparr> Map.empty
     (DeproxyEndpoint (''localhost'', 8081))
     \<lparr>req_method = ''GET'', req_path = ''/x'', req_headers = [(''request-id'', ''zzz'')], req_body = []\<rparr> =
   (Map.empty, \<lparr>resp_code = 200, resp_message = ''OK'', resp_headers = [(''Request-ID'', ''zzz'')], resp_body = []\<rparr>)"
proof -
  have "msg_get [(''request-id'', ''zzz'')] request_id_header_name = Some ''zzz''"
    by code_simp
  with unmatched_request_default_response
    [of "\<lparr>req_method = ''GET'', req_path = ''/x'', req_headers = [(''request-id'', ''zzz'')], req_body = []\<rparr>"
        "\<lparr>message_chains = (Map.empty :: string \<rightharpoonup> nat), endpoints = []\<rparr>" Map.empty
        "DeproxyEndpoint (''localhost'', 8081)"]
  show ?thesis by (simp add: request_id_header_name_def)
qed

text \<open>C11. Round trip of the correlation header: whenever the inbound request
  carries a \<open>Request-ID\<close>, the response dict maps \<open>Request-ID\<close> to that same
  value, whatever handler ran and whatever headers it returned.\<close>

theorem response_echoes_request_id:
  assumes "msg_get (req_headers rq) request_id_header_name = Some rid"
  shows "map_of (resp_headers (snd (serve_request d heap ep rq))) request_id_header_name = Some rid"
  using assms by (simp add: serve_request_response echo_request_id_Some dict_set_def)

theorem response_echoes_request_id_witness:
  "map_of (resp_headers (snd (serve_request \<lparr>message_chains = [''abc'' \<mapsto> (1::nat)], endpoints = []\<rparr>
      [1 \<mapsto> new_message_chain handler2] (DeproxyEndpoint (''localhost'', 8081))
      \<lparr>req_method = ''GET'', req_path = ''/abc/123'', req_headers = [(''Request-ID'', ''abc'')], req_body = []\<rparr>)))
    request_id_header_name = Some ''abc''"
  by (rule response_echoes_request_id) (simp add: deproxy_simps)

text \<open>C12. Spec scenario 2: a request matched to a conversation whose handler
  is \<open>handler2\<close> is recorded with handler2's status, message, header and body,
  and the echoed \<open>Request-ID\<close> in addition: line 173 records the response
  after line 168 has added the id, so the recorded response is not exactly
  the handler's.\<close>

theorem handler2_recorded_with_echo:
  assumes "msg_get (req_headers rq) request_id_header_name = Some rid"
    "message_chains d rid = Some r" "heap r = Some (new_message_chain handler2)"
  shows "fst (serve_request d heap ep rq) r =
     Some (add_handling
       \<lparr>h_endpoint = ep, h_request = rq,
        h_response = \<lparr>resp_code = 601, resp_message = ''Something'',
                      resp_headers = [(''X-Header'', ''Value''), (''Request-ID'', rid)],
                      resp_body = ''this is the body''\<rparr>\<rparr>
       (new_message_chain handler2))"
  using assms by (simp add: serve_request_found handler2_def dict_set_def request_id_header_name_def Let_def)

theorem handler2_recorded_with_echo_witness:
  "fst (serve_request \<lparr>message_chains = [''abc'' \<mapsto> (1::nat)], endpoints = []\<rparr>
      [1 \<mapsto> new_message_chain handler2] (DeproxyEndpoint (''localhost'', 8081))
      \<lparr>req_method = ''GET'', req_path = ''/abc/123'', req_headers = [(''Request-ID'', ''abc'')], req_body = []\<rparr>) 1 =
   Some (add_handling
       \<lparr>h_endpoint = DeproxyEndpoint (''localhost'', 8081),
        h_request = \<lparr>req_method = ''GET'', req_path = ''/abc/123'', req_headers = [(''Request-ID'', ''abc'')], req_body = []\<rparr>,
        h_response = \<lparr>resp_code = 601, resp_message = ''Something'',
                      resp_headers = [(''X-Header'', ''Value''), (''Request-ID'', ''abc'')],
                      resp_body = ''this is the body''\<rparr>\<rparr>
       (new_message_chain handler2))"
  by (rule handler2_recorded_with_echo) (simp_all add: deproxy_simps)

subsection \<open>The connection loop\<close>

lemma handle_one_request_closes:
  "cr_close (handle_one_request d heap ep date eof input) = Some True"
  by (auto simp: handle_one_request_def split: sum.split prod.split parsed.split)

text \<open>So \<open>instantiate\<close> and \<open>handle\<close> return after one \<open>handle_one_request\<close>;
  this rests on the handler keeping the default \<open>protocol_version\<close>, which
  the model does not parse (see above).\<close>

lemma instantiate_serves_one_request:
  "deproxy_handle d heap ep date eof input = Some (handle_one_request d heap ep date eof input) \<and>
   instantiate d heap ep date eof input = Some (handle_one_request d heap ep date eof input)"
  by (simp add: instantiate_def deproxy_handle_def close_after_def Let_def handle_one_request_closes)



end
