(* ===== verification/System.thy ===== *)
theory System
  imports RequestHandler
begin

text \<open>
  The concurrent system: one Deproxy object, the threads that run
  \<open>Deproxy.make_request\<close> (deproxy.py lines 53--71), the threads that
  BaseHTTPServer's ThreadingMixIn starts for each accepted connection (lines
  113--119), each running \<open>handle_one_request\<close> (lines 131--187), and the
  shared mutable objects they touch:
  \<^item> the registry \<open>_message_chains\<close> and \<open>_endpoints\<close> (the Deproxy record);
  \<^item> the heap of \<open>MessageChain\<close> objects, by reference;
  \<^item> the heap of header dicts: \<open>make_request\<close> writes the id into the dict it
    was given, and the default argument \<open>headers={}\<close> is one dict object,
    created when the \<open>def\<close> ran and shared by every call that omits the
    argument: location 0 of the heap;
  \<^item> the socket table of bound addresses.
  Each thread is a program counter.  A step is one atomic action of one thread,
  cut where the code takes a lock or does I/O: \<open>add_message_chain\<close>,
  \<open>get_message_chain\<close>, \<open>del_message_chain\<close> and \<open>add_handling\<close> are atomic
  under their locks; between them other threads may run.  Which thread moves is
  not determined, so the steps form an inductive relation.  The network is
  reliable: a sent request arrives as the parsed \<open>request\<close> at the endpoint
  bound to the URL's address (the request bytes are theory RequestHandler);
  the response is written as bytes (\<open>write_response\<close>) and the client
  receives what it reads back from them (\<open>read_wire\<close>).
\<close>

record url =
  url_addr :: addr
  url_path :: string

text \<open>The arguments of one \<open>make_request\<close> call; \<open>c_hloc\<close> is the header dict
  object passed as \<open>headers\<close>.\<close>

record call =
  c_url :: url
  c_method :: string
  c_hloc :: nat
  c_body :: string
  c_handler :: handler

text \<open>Where a \<open>make_request\<close> thread is: before line 56; after 57 (id written
  into the dict); after 60 (chain registered); after 63 (request sent, served by
  a connection); after 66 (registry entry removed, response in hand); after 71
  (returned); or left by an exception.\<close>

datatype cpc =
    Calling
  | IdSet string
  | Registered string nat
  | Waiting string nat request nat
  | Received string nat request response
  | Returned string nat request response
  | Raised string nat py_error

record client =
  cl_call :: call
  cl_pc :: cpc

text \<open>Where a connection thread is: request parsed (line 155); handler chosen and
  run, id echoed (lines 157--170); handling recorded (172--173); response
  written (175--181).\<close>

datatype spc =
    Accepted request
  | Selected request "nat option" response
  | Recorded request response
  | Written request "wire list"

record conn =
  cn_origin :: "nat option"
  cn_ep :: endpoint
  cn_pc :: spc

record world = "nat deproxy" +
  heap :: "nat \<rightharpoonup> message_chain"
  hdicts :: "nat \<rightharpoonup> headers"
  bound :: "addr list"
  clients :: "nat \<rightharpoonup> client"
  conns :: "nat \<rightharpoonup> conn"
  used_ids :: "string set"

text \<open>The request ids generated so far (\<open>used_ids\<close>) are bookkeeping of the
  model: \<open>str(uuid.uuid4())\<close> is taken to be fresh, as the spec demands.\<close>

definition init_world :: world where
  "init_world =
     \<lparr>message_chains = Map.empty, endpoints = [], heap = Map.empty, hdicts = [0 \<mapsto> []],
      bound = [], clients = Map.empty, conns = Map.empty, used_ids = {}\<rparr>"

definition set_pc :: "world \<Rightarrow> nat \<Rightarrow> cpc \<Rightarrow> world" where
  "set_pc w t pc = w\<lparr>clients := (clients w)(t := map_option (\<lambda>cl. cl\<lparr>cl_pc := pc\<rparr>) (clients w t))\<rparr>"

definition set_conn :: "world \<Rightarrow> nat \<Rightarrow> conn \<Rightarrow> spc \<Rightarrow> world" where
  "set_conn w cid cn pc = w\<lparr>conns := (conns w)(cid \<mapsto> cn\<lparr>cn_pc := pc\<rparr>)\<rparr>"

subsection \<open>The steps of make_request\<close>

text \<open>Line 53: a thread calls \<open>make_request\<close>.\<close>

definition mr_call :: "world \<Rightarrow> nat \<Rightarrow> call \<Rightarrow> world" where
  "mr_call w t c = w\<lparr>clients := (clients w)(t \<mapsto> \<lparr>cl_call = c, cl_pc = Calling\<rparr>)\<rparr>"

text \<open>Lines 56--57: \<open>headers[request_id_header_name] = request_id\<close>.\<close>

definition mr_inject_id :: "world \<Rightarrow> nat \<Rightarrow> nat \<Rightarrow> string \<Rightarrow> world" where
  "mr_inject_id w t loc request_id =
     set_pc (w\<lparr>hdicts := (hdicts w)(loc \<mapsto> dict_set (the (hdicts w loc)) request_id_header_name request_id),
              used_ids := insert request_id (used_ids w)\<rparr>) t (IdSet request_id)"

text \<open>Lines 59--60: a new \<open>MessageChain\<close> at a fresh reference, registered.\<close>

definition mr_register :: "world \<Rightarrow> nat \<Rightarrow> string \<Rightarrow> nat \<Rightarrow> handler \<Rightarrow> world" where
  "mr_register w t request_id r f =
     set_pc (add_message_chain (w\<lparr>heap := (heap w)(r \<mapsto> new_message_chain f)\<rparr>) request_id r) t
       (Registered request_id r)"

text \<open>Lines 62--63: the requests library builds the request from the dict as it is
  now and sends it; an endpoint accepts it as connection \<open>cid\<close>.\<close>

definition build_request :: "call \<Rightarrow> headers \<Rightarrow> request" where
  "build_request c hs =
     \<lparr>req_method = c_method c, req_path = url_path (c_url c), req_headers = hs, req_body = c_body c\<rparr>"

definition mr_send :: "world \<Rightarrow> nat \<Rightarrow> string \<Rightarrow> nat \<Rightarrow> call \<Rightarrow> nat \<Rightarrow> endpoint \<Rightarrow> world" where
  "mr_send w t request_id r c cid ep =
     (let req = build_request c (the (hdicts w (c_hloc c)))
      in set_pc (w\<lparr>conns := (conns w)(cid \<mapsto> \<lparr>cn_origin = Some t, cn_ep = ep, cn_pc = Accepted req\<rparr>)\<rparr>) t
           (Waiting request_id r req cid))"

text \<open>Lines 62--63 when no endpoint listens at the URL: the connection error
  propagates out of \<open>make_request\<close>; nothing unregisters the id.\<close>

definition mr_send_failed :: "world \<Rightarrow> nat \<Rightarrow> string \<Rightarrow> nat \<Rightarrow> world" where
  "mr_send_failed w t request_id r = set_pc w t (Raised request_id r ConnectionError)"

text \<open>Lines 64--66: the response arrives; \<open>del_message_chain\<close>, whose
  \<open>KeyError\<close> would leave \<open>make_request\<close>.\<close>

definition mr_receive :: "world \<Rightarrow> nat \<Rightarrow> string \<Rightarrow> nat \<Rightarrow> request \<Rightarrow> response \<Rightarrow> world" where
  "mr_receive w t request_id r req resp =
     (case del_message_chain w request_id of
        Inl e \<Rightarrow> set_pc w t (Raised request_id r e)
      | Inr w' \<Rightarrow> set_pc w' t (Received request_id r req resp))"

text \<open>Lines 68--71: the chain is finalised and returned.\<close>

definition mr_finish :: "world \<Rightarrow> nat \<Rightarrow> string \<Rightarrow> nat \<Rightarrow> request \<Rightarrow> response \<Rightarrow> world" where
  "mr_finish w t request_id r req resp =
     set_pc (w\<lparr>heap := (heap w)(r := map_option (finish_message_chain req resp) (heap w r))\<rparr>) t
       (Returned request_id r req resp)"

subsection \<open>The steps of a connection thread\<close>

text \<open>A request from anywhere (another client, a retry, a redirect) accepted by
  an endpoint: ThreadingMixIn.process_request starts the thread.\<close>

definition accept_request :: "world \<Rightarrow> nat \<Rightarrow> endpoint \<Rightarrow> request \<Rightarrow> world" where
  "accept_request w cid ep req =
     w\<lparr>conns := (conns w)(cid \<mapsto> \<lparr>cn_origin = None, cn_ep = ep, cn_pc = Accepted req\<rparr>)\<rparr>"

text \<open>Lines 157--170: lookup under the registry lock, then the handler and the
  echo (a pure computation of this thread).\<close>

definition conn_select :: "world \<Rightarrow> nat \<Rightarrow> conn \<Rightarrow> request \<Rightarrow> world" where
  "conn_select w cid cn req =
     (let (handler_fn, message_chain) = select_handler w (heap w) (req_headers req);
          resp = echo_request_id (req_headers req) (handler_fn req)
      in set_conn w cid cn (Selected req message_chain resp))"

text \<open>Lines 172--173: \<open>add_handling\<close> under the chain's lock.\<close>

definition conn_record :: "world \<Rightarrow> nat \<Rightarrow> conn \<Rightarrow> request \<Rightarrow> nat option \<Rightarrow> response \<Rightarrow> world" where
  "conn_record w cid cn req mc resp =
     set_conn (w\<lparr>heap := record_handling (heap w) mc
                          \<lparr>h_endpoint = cn_ep cn, h_request = req, h_response = resp\<rparr>\<rparr>)
       cid cn (Recorded req resp)"

text \<open>Lines 175--181: the bytes written, \<open>date\<close> being the clock reading
  of \<open>send_response\<close>.\<close>

definition conn_write :: "world \<Rightarrow> nat \<Rightarrow> conn \<Rightarrow> request \<Rightarrow> response \<Rightarrow> string \<Rightarrow> world" where
  "conn_write w cid cn req resp date = set_conn w cid cn (Written req (write_response date resp))"

text \<open>\<open>add_endpoint\<close> called while the system runs.\<close>

definition sys_add_endpoint :: "world \<Rightarrow> world \<times> addr list \<times> endpoint \<Rightarrow> world" where
  "sys_add_endpoint w r = (case r of (w', b, ep) \<Rightarrow> w'\<lparr>bound := b\<rparr>)"

lemmas system_defs [deproxy_simps] =
  init_world_def set_pc_def set_conn_def mr_call_def mr_inject_id_def mr_register_def
  build_request_def mr_send_def mr_send_failed_def mr_receive_def mr_finish_def
  accept_request_def conn_select_def conn_record_def conn_write_def sys_add_endpoint_def

subsection \<open>The step relation and the reachable states\<close>

definition has_endpoint :: "world \<Rightarrow> addr \<Rightarrow> endpoint option" where
  "has_endpoint w a = find (\<lambda>ep. ep_addr ep = a) (endpoints w)"

inductive dstep :: "world \<Rightarrow> world \<Rightarrow> bool" where
  call_default:
    "clients w t = None \<Longrightarrow> c_hloc c = 0 \<Longrightarrow> dstep w (mr_call w t c)"
| call_own:
    "clients w t = None \<Longrightarrow> hdicts w loc = None \<Longrightarrow> distinct (map fst hs) \<Longrightarrow> c_hloc c = loc \<Longrightarrow>
     dstep w (mr_call (w\<lparr>hdicts := (hdicts w)(loc \<mapsto> hs)\<rparr>) t c)"
| inject_id:
    "clients w t = Some cl \<Longrightarrow> cl_pc cl = Calling \<Longrightarrow> rid \<notin> used_ids w \<Longrightarrow>
     dstep w (mr_inject_id w t (c_hloc (cl_call cl)) rid)"
| register:
    "clients w t = Some cl \<Longrightarrow> cl_pc cl = IdSet rid \<Longrightarrow> heap w r = None \<Longrightarrow>
     dstep w (mr_register w t rid r (c_handler (cl_call cl)))"
| send:
    "clients w t = Some cl \<Longrightarrow> cl_pc cl = Registered rid r \<Longrightarrow>
     has_endpoint w (url_addr (c_url (cl_call cl))) = Some ep \<Longrightarrow> conns w cid = None \<Longrightarrow>
     dstep w (mr_send w t rid r (cl_call cl) cid ep)"
| send_failed:
    "clients w t = Some cl \<Longrightarrow> cl_pc cl = Registered rid r \<Longrightarrow>
     has_endpoint w (url_addr (c_url (cl_call cl))) = None \<Longrightarrow>
     dstep w (mr_send_failed w t rid r)"
| receive:
    "clients w t = Some cl \<Longrightarrow> cl_pc cl = Waiting rid r req cid \<Longrightarrow>
     conns w cid = Some cn \<Longrightarrow> cn_pc cn = Written req' out \<Longrightarrow> read_wire out = Some resp \<Longrightarrow>
     dstep w (mr_receive w t rid r req resp)"
| finish:
    "clients w t = Some cl \<Longrightarrow> cl_pc cl = Received rid r req resp \<Longrightarrow>
     dstep w (mr_finish w t rid r req resp)"
| conn_accept:
    "conns w cid = None \<Longrightarrow> ep \<in> set (endpoints w) \<Longrightarrow> dstep w (accept_request w cid ep req)"
| conn_sel:
    "conns w cid = Some cn \<Longrightarrow> cn_pc cn = Accepted req \<Longrightarrow> dstep w (conn_select w cid cn req)"
| conn_rec:
    "conns w cid = Some cn \<Longrightarrow> cn_pc cn = Selected req mc resp \<Longrightarrow>
     dstep w (conn_record w cid cn req mc resp)"
| conn_wr:
    "conns w cid = Some cn \<Longrightarrow> cn_pc cn = Recorded req resp \<Longrightarrow>
     dstep w (conn_write w cid cn req resp date)"
| add_ep:
    "add_endpoint w (bound w) a = Inr res \<Longrightarrow> dstep w (sys_add_endpoint w res)"

inductive reach :: "world \<Rightarrow> bool" where
  init: "reach init_world"
| step: "reach w \<Longrightarrow> dstep w w' \<Longrightarrow> reach w'"

end
