(* ===== verification/SystemInv.thy ===== *)
theory SystemInv
  imports System
begin

text \<open>
  Invariants of the concurrent system of theory System.  Each client thread is
  seen through three derived maps: the request id it generated
  (\<open>client_rid\<close>), the reference of the \<open>MessageChain\<close> it created
  (\<open>client_ref\<close>), and whether it is in a state in which its id is still
  meant to be registered (\<open>client_holds\<close>: after line 60 and before line 66, or
  left by the connection error of line 62).  Most steps leave these maps alone,
  which keeps each preservation proof to the state the step changes.
  \<open>core_inv\<close> says: ids are fresh and distinct, references are allocated and
  distinct, the registry holds exactly the ids of the threads that hold one,
  mapped to their own chain, and no thread has left by \<open>KeyError\<close>.
\<close>

fun pc_rid :: "cpc \<Rightarrow> string option" where
  "pc_rid Calling = None"
| "pc_rid (IdSet rid) = Some rid"
| "pc_rid (Registered rid r) = Some rid"
| "pc_rid (Waiting rid r q c) = Some rid"
| "pc_rid (Received rid r q p) = Some rid"
| "pc_rid (Returned rid r q p) = Some rid"
| "pc_rid (Raised rid r e) = Some rid"

fun pc_ref :: "cpc \<Rightarrow> nat option" where
  "pc_ref Calling = None"
| "pc_ref (IdSet rid) = None"
| "pc_ref (Registered rid r) = Some r"
| "pc_ref (Waiting rid r q c) = Some r"
| "pc_ref (Received rid r q p) = Some r"
| "pc_ref (Returned rid r q p) = Some r"
| "pc_ref (Raised rid r e) = Some r"

fun holds_reg :: "cpc \<Rightarrow> bool" where
  "holds_reg (Registered rid r) = True"
| "holds_reg (Waiting rid r q c) = True"
| "holds_reg (Raised rid r e) = (e = ConnectionError)"
| "holds_reg _ = False"

definition client_rid :: "world \<Rightarrow> nat \<rightharpoonup> string" where
  "client_rid w t = Option.bind (clients w t) (\<lambda>cl. pc_rid (cl_pc cl))"

definition client_ref :: "world \<Rightarrow> nat \<rightharpoonup> nat" where
  "client_ref w t = Option.bind (clients w t) (\<lambda>cl. pc_ref (cl_pc cl))"

definition client_holds :: "world \<Rightarrow> nat \<Rightarrow> bool" where
  "client_holds w t = (case clients w t of None \<Rightarrow> False | Some cl \<Rightarrow> holds_reg (cl_pc cl))"

lemma set_pc_fields [simp]:
  "message_chains (set_pc w t pc) = message_chains w" "endpoints (set_pc w t pc) = endpoints w"
  "heap (set_pc w t pc) = heap w" "hdicts (set_pc w t pc) = hdicts w" "bound (set_pc w t pc) = bound w"
  "conns (set_pc w t pc) = conns w" "used_ids (set_pc w t pc) = used_ids w"
  by (simp_all add: set_pc_def)

lemma set_conn_fields [simp]:
  "message_chains (set_conn w cid cn pc) = message_chains w" "endpoints (set_conn w cid cn pc) = endpoints w"
  "heap (set_conn w cid cn pc) = heap w" "hdicts (set_conn w cid cn pc) = hdicts w"
  "bound (set_conn w cid cn pc) = bound w" "clients (set_conn w cid cn pc) = clients w"
  "used_ids (set_conn w cid cn pc) = used_ids w" "conns (set_conn w cid cn pc) = (conns w)(cid \<mapsto> cn\<lparr>cn_pc := pc\<rparr>)"
  by (simp_all add: set_conn_def)

lemma clients_set_pc:
  "clients w t = Some cl \<Longrightarrow> clients (set_pc w t pc) = (clients w)(t \<mapsto> cl\<lparr>cl_pc := pc\<rparr>)"
  by (simp add: set_pc_def)

lemma client_maps_set_pc [simp]:
  "client_rid (set_pc w t pc) = (if clients w t = None then client_rid w else (client_rid w)(t := pc_rid pc))"
  "client_ref (set_pc w t pc) = (if clients w t = None then client_ref w else (client_ref w)(t := pc_ref pc))"
  "client_holds (set_pc w t pc) =
     (if clients w t = None then client_holds w else (client_holds w)(t := holds_reg pc))"
  by (auto simp: client_rid_def client_ref_def client_holds_def set_pc_def fun_eq_iff)

lemma client_maps_same_clients:
  assumes "clients w' = clients w"
  shows "client_rid w' = client_rid w" "client_ref w' = client_ref w" "client_holds w' = client_holds w"
  using assms by (auto simp: client_rid_def client_ref_def client_holds_def fun_eq_iff)

lemma client_maps_upd [simp]:
  "client_rid (w\<lparr>hdicts := a\<rparr>) = client_rid w" "client_ref (w\<lparr>hdicts := a\<rparr>) = client_ref w"
  "client_holds (w\<lparr>hdicts := a\<rparr>) = client_holds w"
  "client_rid (w\<lparr>used_ids := b\<rparr>) = client_rid w" "client_ref (w\<lparr>used_ids := b\<rparr>) = client_ref w"
  "client_holds (w\<lparr>used_ids := b\<rparr>) = client_holds w"
  "client_rid (w\<lparr>heap := c\<rparr>) = client_rid w" "client_ref (w\<lparr>heap := c\<rparr>) = client_ref w"
  "client_holds (w\<lparr>heap := c\<rparr>) = client_holds w"
  "client_rid (w\<lparr>conns := d\<rparr>) = client_rid w" "client_ref (w\<lparr>conns := d\<rparr>) = client_ref w"
  "client_holds (w\<lparr>conns := d\<rparr>) = client_holds w"
  "client_rid (w\<lparr>message_chains := e\<rparr>) = client_rid w" "client_ref (w\<lparr>message_chains := e\<rparr>) = client_ref w"
  "client_holds (w\<lparr>message_chains := e\<rparr>) = client_holds w"
  "client_rid (w\<lparr>bound := f\<rparr>) = client_rid w" "client_ref (w\<lparr>bound := f\<rparr>) = client_ref w"
  "client_holds (w\<lparr>bound := f\<rparr>) = client_holds w"
  "client_rid (w\<lparr>endpoints := g\<rparr>) = client_rid w" "client_ref (w\<lparr>endpoints := g\<rparr>) = client_ref w"
  "client_holds (w\<lparr>endpoints := g\<rparr>) = client_holds w"
  by (simp add: fun_eq_iff client_rid_def client_ref_def client_holds_def)+

lemma client_maps_mr_call:
  "clients w t = None \<Longrightarrow> client_rid (mr_call w t c) = client_rid w"
  "clients w t = None \<Longrightarrow> client_ref (mr_call w t c) = client_ref w"
  "clients w t = None \<Longrightarrow> client_holds (mr_call w t c) = client_holds w"
  by (auto simp: client_rid_def client_ref_def client_holds_def mr_call_def fun_eq_iff)

lemma client_pc_maps:
  "clients w t = Some cl \<Longrightarrow> client_rid w t = pc_rid (cl_pc cl)"
  "clients w t = Some cl \<Longrightarrow> client_ref w t = pc_ref (cl_pc cl)"
  "clients w t = Some cl \<Longrightarrow> client_holds w t = holds_reg (cl_pc cl)"
  by (simp_all add: fun_eq_iff client_rid_def client_ref_def client_holds_def)

lemma holds_reg_ids: "holds_reg pc \<Longrightarrow> pc_rid pc \<noteq> None \<and> pc_ref pc \<noteq> None"
  by (cases pc) auto

definition core_inv :: "world \<Rightarrow> bool" where
  "core_inv w \<longleftrightarrow>
     ran (client_rid w) \<subseteq> used_ids w \<and> unique_vals (client_rid w) \<and>
     ran (client_ref w) \<subseteq> dom (heap w) \<and> unique_vals (client_ref w) \<and>
     (\<forall>rid r. message_chains w rid = Some r \<longleftrightarrow>
        (\<exists>t. client_rid w t = Some rid \<and> client_ref w t = Some r \<and> client_holds w t)) \<and>
     (\<forall>t cl rid r. clients w t = Some cl \<longrightarrow> cl_pc cl \<noteq> Raised rid r KeyError)"

lemma client_maps_init:
  "client_rid init_world = Map.empty" "client_ref init_world = Map.empty" "client_holds init_world = (\<lambda>t. False)"
  by (simp_all add: init_world_def client_rid_def client_ref_def client_holds_def fun_eq_iff)

lemma core_inv_init: "core_inv init_world"
  by (simp add: core_inv_def client_maps_init unique_vals_def) (simp add: init_world_def)

lemma core_inv_call_default:
  "clients w t = None \<Longrightarrow> core_inv w \<Longrightarrow> core_inv (mr_call w t c)"
  by (simp add: core_inv_def client_maps_mr_call) (simp add: mr_call_def)

lemma core_inv_hdicts [simp]: "core_inv (w\<lparr>hdicts := h\<rparr>) = core_inv w"
  by (simp add: core_inv_def)

lemma core_inv_inject_id:
  assumes "clients w t = Some cl" "cl_pc cl = Calling" "rid \<notin> used_ids w" "core_inv w"
  shows "core_inv (mr_inject_id w t loc rid)"
proof -
  have m: "client_ref w t = None" "client_holds w t = False" "client_rid w t = None"
    using assms(1,2) by (simp_all add: client_pc_maps)
  then have m': "(client_ref w)(t := None) = client_ref w" "(client_holds w)(t := False) = client_holds w"
    by (auto simp: fun_eq_iff)
  have "rid \<notin> ran (client_rid w)" using assms(3,4) by (auto simp: core_inv_def)
  with assms(4) have "unique_vals ((client_rid w)(t \<mapsto> rid))"
    by (simp add: core_inv_def unique_vals_upd_fresh)
  moreover have "ran ((client_rid w)(t \<mapsto> rid)) \<subseteq> insert rid (used_ids w)"
    using assms(4) ran_upd_subset [of "client_rid w" t rid] by (auto simp: core_inv_def)
  moreover have "\<forall>rid' r. message_chains w rid' = Some r \<longleftrightarrow>
        (\<exists>t'. ((client_rid w)(t \<mapsto> rid)) t' = Some rid' \<and> client_ref w t' = Some r \<and> client_holds w t')"
    using assms(4) m by (auto simp: core_inv_def)
  ultimately show ?thesis
    using assms m' unfolding core_inv_def mr_inject_id_def by (simp add: clients_set_pc)
qed

lemma core_inv_frame:
  assumes "core_inv w" "clients w' = clients w" "message_chains w' = message_chains w"
    "used_ids w' = used_ids w" "dom (heap w') = dom (heap w)"
  shows "core_inv w'"
proof -
  from assms(2) have "client_rid w' = client_rid w" "client_ref w' = client_ref w" "client_holds w' = client_holds w"
    by (rule client_maps_same_clients)+
  with assms show ?thesis by (simp add: core_inv_def)
qed

lemma core_inv_register:
  assumes "clients w t = Some cl" "cl_pc cl = IdSet rid" "heap w r = None" "core_inv w"
  shows "core_inv (mr_register w t rid r f)"
proof -
  have m: "client_rid w t = Some rid" "client_ref w t = None" "client_holds w t = False"
    using assms(1,2) by (simp_all add: client_pc_maps)
  have inv: "ran (client_rid w) \<subseteq> used_ids w" "unique_vals (client_rid w)"
      "ran (client_ref w) \<subseteq> dom (heap w)" "unique_vals (client_ref w)"
      "\<And>rid r. message_chains w rid = Some r \<longleftrightarrow>
         (\<exists>t. client_rid w t = Some rid \<and> client_ref w t = Some r \<and> client_holds w t)"
    using assms(4) by (simp_all add: core_inv_def)
  have "r \<notin> ran (client_ref w)" using inv(3) assms(3) by auto
  then have u: "unique_vals ((client_ref w)(t \<mapsto> r))" using inv(4) by (simp add: unique_vals_upd_fresh)
  have rr: "ran ((client_ref w)(t \<mapsto> r)) \<subseteq> insert r (dom (heap w))"
    using inv(3) ran_upd_subset [of "client_ref w" t r] by auto
  have rid_t: "client_rid w t' = Some rid \<longleftrightarrow> t' = t" for t'
    using m(1) inv(2) by (auto dest: unique_valsD)
  have reg: "((message_chains w)(rid \<mapsto> r)) rid' = Some r' \<longleftrightarrow>
      (\<exists>t'. client_rid w t' = Some rid' \<and> ((client_ref w)(t \<mapsto> r)) t' = Some r' \<and>
            ((client_holds w)(t := True)) t')" for rid' r'
  proof (cases "rid' = rid")
    case True
    then show ?thesis using rid_t m by auto
  next
    case False
    then have "t' \<noteq> t" if "client_rid w t' = Some rid'" for t' using that m(1) by auto
    with False show ?thesis using inv(5) [of rid' r'] by auto
  qed
  have "(client_rid w)(t := Some rid) = client_rid w" using m(1) by auto
  with assms(1,4) u rr reg show ?thesis
    unfolding core_inv_def mr_register_def add_message_chain_def
    by (auto simp: clients_set_pc)
qed

lemma core_inv_set_pc_same:
  assumes "clients w t = Some cl" "pc_rid pc = pc_rid (cl_pc cl)" "pc_ref pc = pc_ref (cl_pc cl)"
    "holds_reg pc = holds_reg (cl_pc cl)" "\<forall>rid r. pc \<noteq> Raised rid r KeyError" "core_inv w"
  shows "core_inv (set_pc w t pc)"
proof -
  have "(client_rid w)(t := pc_rid pc) = client_rid w" "(client_ref w)(t := pc_ref pc) = client_ref w"
    "(client_holds w)(t := holds_reg pc) = client_holds w"
    using assms(1-4) by (auto simp: fun_eq_iff client_pc_maps)
  with assms show ?thesis by (auto simp: core_inv_def clients_set_pc)
qed

lemma core_inv_upd [simp]:
  "core_inv (w\<lparr>conns := c\<rparr>) = core_inv w" "core_inv (w\<lparr>bound := b\<rparr>) = core_inv w"
  "core_inv (w\<lparr>endpoints := e\<rparr>) = core_inv w"
  by (simp_all add: core_inv_def)

lemma core_inv_heap_dom: "dom h = dom (heap w) \<Longrightarrow> core_inv (w\<lparr>heap := h\<rparr>) = core_inv w"
  by (simp add: core_inv_def)

lemma core_inv_receive:
  assumes "clients w t = Some cl" "cl_pc cl = Waiting rid r req cid" "core_inv w"
  shows "core_inv (mr_receive w t rid r req resp)"
proof -
  have m: "client_rid w t = Some rid" "client_ref w t = Some r" "client_holds w t"
    using assms(1,2) by (simp_all add: client_pc_maps)
  have inv: "ran (client_rid w) \<subseteq> used_ids w" "unique_vals (client_rid w)"
      "ran (client_ref w) \<subseteq> dom (heap w)" "unique_vals (client_ref w)"
      "\<And>rid r. message_chains w rid = Some r \<longleftrightarrow>
         (\<exists>t. client_rid w t = Some rid \<and> client_ref w t = Some r \<and> client_holds w t)"
    using assms(3) by (simp_all add: core_inv_def)
  have reg: "message_chains w rid = Some r" using inv(5) m by blast
  have rid_t: "client_rid w t' = Some rid \<longleftrightarrow> t' = t" for t'
    using m(1) inv(2) by (auto dest: unique_valsD)
  have reg': "((message_chains w)(rid := None)) rid' = Some r' \<longleftrightarrow>
      (\<exists>t'. client_rid w t' = Some rid' \<and> client_ref w t' = Some r' \<and> ((client_holds w)(t := False)) t')"
    for rid' r'
  proof (cases "rid' = rid")
    case True
    then show ?thesis using rid_t by auto
  next
    case False
    then have "t' \<noteq> t" if "client_rid w t' = Some rid'" for t' using that m(1) by auto
    with False show ?thesis using inv(5) [of rid' r'] by auto
  qed
  let ?w1 = "w\<lparr>message_chains := (message_chains w)(rid := None)\<rparr>"
  have eq: "mr_receive w t rid r req resp = set_pc ?w1 t (Received rid r req resp)"
    using reg by (simp add: mr_receive_def del_message_chain_def domI)
  have c1: "clients ?w1 t = Some cl" using assms(1) by simp
  have maps: "client_rid (mr_receive w t rid r req resp) = client_rid w"
      "client_ref (mr_receive w t rid r req resp) = client_ref w"
      "client_holds (mr_receive w t rid r req resp) = (client_holds w)(t := False)"
    using m c1 by (auto simp: eq fun_eq_iff)
  have "message_chains (mr_receive w t rid r req resp) = (message_chains w)(rid := None)"
    "used_ids (mr_receive w t rid r req resp) = used_ids w" "heap (mr_receive w t rid r req resp) = heap w"
    by (simp_all add: eq)
  moreover have "\<forall>t' cl' rid' r'. clients (mr_receive w t rid r req resp) t' = Some cl' \<longrightarrow>
      cl_pc cl' \<noteq> Raised rid' r' KeyError"
    using assms(3) c1 by (auto simp: eq clients_set_pc core_inv_def)
  ultimately show ?thesis using inv reg' unfolding core_inv_def maps by simp
qed

lemma core_inv_step: "dstep w w' \<Longrightarrow> core_inv w \<Longrightarrow> core_inv w'"
proof (induction rule: dstep.induct)
  case (call_default w t c)
  then show ?case by (blast intro: core_inv_call_default)
next
  case (call_own w t loc hs c)
  then show ?case using core_inv_call_default [of "w\<lparr>hdicts := (hdicts w)(loc \<mapsto> hs)\<rparr>" t c] by simp
next
  case (inject_id w t cl rid)
  then show ?case by (rule core_inv_inject_id)
next
  case (register w t cl rid r)
  then show ?case by (rule core_inv_register)
next
  case (send w t cl rid r ep cid)
  then show ?case unfolding mr_send_def Let_def
    by (intro core_inv_set_pc_same [of _ t cl]) auto
next
  case (send_failed w t cl rid r)
  then show ?case unfolding mr_send_failed_def
    by (intro core_inv_set_pc_same [of _ t cl]) auto
next
  case (receive w t cl rid r req cid cn req' out resp)
  then show ?case by (blast intro: core_inv_receive)
next
  case (finish w t cl rid r req resp)
  then show ?case unfolding mr_finish_def
    using core_inv_heap_dom [OF dom_map_option_upd [of "heap w" r "finish_message_chain req resp"]]
    by (intro core_inv_set_pc_same [of _ t cl]) auto
next
  case (conn_accept w cid ep req)
  then show ?case by (simp add: accept_request_def)
next
  case (conn_sel w cid cn req)
  then show ?case by (simp add: conn_select_def set_conn_def split: prod.split)
next
  case (conn_rec w cid cn req mc resp)
  have "dom (record_handling (heap w) mc h) = dom (heap w)" for h
    by (cases mc) auto
  with conn_rec show ?case by (simp add: conn_record_def set_conn_def core_inv_heap_dom)
next
  case (conn_wr w cid cn req resp date)
  then show ?case by (simp add: conn_write_def set_conn_def)
next
  case (add_ep w a res)
  then show ?case
    by (cases res) (auto simp: sys_add_endpoint_def add_endpoint_Inr)
qed

lemma reach_core_inv: "reach w \<Longrightarrow> core_inv w"
  by (induction rule: reach.induct) (auto intro: core_inv_init core_inv_step)

lemma core_inv_registry:
  "core_inv w \<Longrightarrow> message_chains w rid = Some r \<longleftrightarrow>
     (\<exists>t. client_rid w t = Some rid \<and> client_ref w t = Some r \<and> client_holds w t)"
  by (simp add: core_inv_def)

lemma core_inv_rid_unique: "core_inv w \<Longrightarrow> client_rid w t = Some rid \<Longrightarrow> client_rid w t' = Some rid \<Longrightarrow> t = t'"
  by (auto simp: core_inv_def dest: unique_valsD)

lemma core_inv_ref_unique: "core_inv w \<Longrightarrow> client_ref w t = Some r \<Longrightarrow> client_ref w t' = Some r \<Longrightarrow> t = t'"
  by (auto simp: core_inv_def dest: unique_valsD)

lemma core_inv_ref_alloc: "core_inv w \<Longrightarrow> client_ref w t = Some r \<Longrightarrow> heap w r \<noteq> None"
  by (auto simp: core_inv_def ran_def)

lemma core_inv_no_keyerror: "core_inv w \<Longrightarrow> clients w t = Some cl \<Longrightarrow> cl_pc cl \<noteq> Raised rid r KeyError"
  by (simp add: core_inv_def)

subsection \<open>Consequences used by the system theorems\<close>

text \<open>A thread that left \<open>make_request\<close> by an exception stays so: no
  step moves it again.\<close>

lemma dstep_keeps_raised:
  assumes "dstep w w'" "clients w t = Some cl" "cl_pc cl = Raised rid r e"
  shows "clients w' t = Some cl"
  using assms
proof (induction rule: dstep.induct)
  case (receive w t' cl' rid' r' req cid cn req' out resp)
  then have "t' \<noteq> t" by auto
  with receive show ?case
    by (simp add: mr_receive_def set_pc_def del_message_chain_def)
qed (auto simp: mr_call_def mr_inject_id_def mr_register_def mr_send_def mr_send_failed_def
        mr_finish_def set_pc_def accept_request_def conn_select_def set_conn_def conn_record_def
        conn_write_def sys_add_endpoint_def add_message_chain_def add_endpoint_Inr Let_def split: prod.split)

lemma reach_steps: "dstep\<^sup>*\<^sup>* w w' \<Longrightarrow> reach w \<Longrightarrow> reach w'"
  by (induction rule: rtranclp_induct) (auto intro: reach.step)

lemma steps_keep_raised:
  "dstep\<^sup>*\<^sup>* w w' \<Longrightarrow> clients w t = Some cl \<Longrightarrow> cl_pc cl = Raised rid r e \<Longrightarrow> clients w' t = Some cl"
  by (induction rule: rtranclp_induct) (auto dest: dstep_keeps_raised)

lemma holds_registered:
  assumes "reach w" "clients w t = Some cl" "holds_reg (cl_pc cl)"
    "pc_rid (cl_pc cl) = Some rid" "pc_ref (cl_pc cl) = Some r"
  shows "message_chains w rid = Some r"
proof -
  have "client_rid w t = Some rid" "client_ref w t = Some r" "client_holds w t"
    using assms(2-5) by (simp_all add: client_pc_maps)
  then show ?thesis using core_inv_registry [OF reach_core_inv [OF assms(1)]] by blast
qed

text \<open>Only \<open>add_endpoint\<close> changes the endpoint list and the socket table.\<close>

lemma dstep_endpoints:
  assumes "dstep w w'"
  shows "(endpoints w' = endpoints w \<and> bound w' = bound w) \<or>
         (\<exists>a. a \<notin> set (bound w) \<and> endpoints w' = endpoints w @ [DeproxyEndpoint a] \<and> bound w' = a # bound w)"
  using assms
proof (induction rule: dstep.induct)
  case (receive w t cl rid r req cid cn req' out resp)
  then show ?case by (simp add: mr_receive_def del_message_chain_def)
next
  case (add_ep w a res)
  then show ?case by (cases res) (auto simp: sys_add_endpoint_def add_endpoint_Inr simp del: split_paired_Ex)
qed (simp_all add: mr_call_def mr_inject_id_def mr_register_def mr_send_def mr_send_failed_def
        mr_finish_def accept_request_def conn_select_def conn_record_def conn_write_def
        add_message_chain_def Let_def split: prod.split)

end
