(* ===== verification/SystemTag.thy ===== *)
theory SystemTag
  imports SystemInv
begin

text \<open>
  The correlation property of the concurrent system.  \<open>tag_inv\<close> says that
  every handling in the chain a \<open>make_request\<close> thread created carries, in its
  inbound \<open>Request-ID\<close> header, the id that thread generated; and that a
  connection which has looked up a chain (lines 157--163) and not yet appended
  to it (lines 172--173) holds a request carrying the id of that chain's
  thread.  It rests on \<open>core_inv\<close>: the registry maps an id only to the chain
  of the thread that generated it.
\<close>

definition tag_inv :: "world \<Rightarrow> bool" where
  "tag_inv w \<longleftrightarrow>
     (\<forall>t r mc h. client_ref w t = Some r \<longrightarrow> heap w r = Some mc \<longrightarrow> h \<in> set (handlings mc) \<longrightarrow>
        msg_get (req_headers (h_request h)) request_id_header_name = client_rid w t) \<and>
     (\<forall>cid cn req r resp t. conns w cid = Some cn \<longrightarrow> cn_pc cn = Selected req (Some r) resp \<longrightarrow>
        client_ref w t = Some r \<longrightarrow> msg_get (req_headers req) request_id_header_name = client_rid w t) \<and>
     (\<forall>cid cn req r resp. conns w cid = Some cn \<longrightarrow> cn_pc cn = Selected req (Some r) resp \<longrightarrow>
        heap w r \<noteq> None)"

lemma client_maps_set_conn [simp]:
  "client_rid (set_conn w cid cn pc) = client_rid w" "client_ref (set_conn w cid cn pc) = client_ref w"
  "client_holds (set_conn w cid cn pc) = client_holds w"
  by (simp_all add: set_conn_def)

lemma tag_inv_init: "tag_inv init_world"
  by (simp add: tag_inv_def init_world_def)

text \<open>Steps that change no client's id or reference, keep every chain's
  handlings, and create no selected connection.\<close>

lemma tag_inv_frame:
  assumes "tag_inv w" "\<And>t. client_ref w t \<noteq> None \<Longrightarrow> client_rid w' t = client_rid w t"
    "client_ref w' = client_ref w"
    "\<And>r mc'. heap w' r = Some mc' \<Longrightarrow> \<exists>mc. heap w r = Some mc \<and> handlings mc' = handlings mc"
    "dom (heap w) \<subseteq> dom (heap w')"
    "\<And>cid cn' req r resp. conns w' cid = Some cn' \<Longrightarrow> cn_pc cn' = Selected req (Some r) resp \<Longrightarrow>
       \<exists>cn. conns w cid = Some cn \<and> cn_pc cn = Selected req (Some r) resp"
  shows "tag_inv w'"
  unfolding tag_inv_def
proof (intro conjI allI impI)
  fix t r mc' h
  assume "client_ref w' t = Some r" "heap w' r = Some mc'" "h \<in> set (handlings mc')"
  with assms(1-4) show "msg_get (req_headers (h_request h)) request_id_header_name = client_rid w' t"
    unfolding tag_inv_def by fastforce
next
  fix cid cn' req r resp t
  assume "conns w' cid = Some cn'" "cn_pc cn' = Selected req (Some r) resp" "client_ref w' t = Some r"
  with assms(1,2,3,6) show "msg_get (req_headers req) request_id_header_name = client_rid w' t"
    unfolding tag_inv_def by fastforce
next
  fix cid cn' req r resp
  assume "conns w' cid = Some cn'" "cn_pc cn' = Selected req (Some r) resp"
  with assms(6) obtain cn where "conns w cid = Some cn" "cn_pc cn = Selected req (Some r) resp" by blast
  with assms(1) have "r \<in> dom (heap w)" unfolding tag_inv_def by blast
  with assms(5) show "heap w' r \<noteq> None" by blast
qed

lemma tag_inv_register:
  assumes "clients w t = Some cl" "cl_pc cl = IdSet rid" "heap w r = None" "tag_inv w"
  shows "tag_inv (mr_register w t rid r f)"
proof -
  let ?w' = "mr_register w t rid r f"
  have maps: "client_rid ?w' = client_rid w" "client_ref ?w' = (client_ref w)(t \<mapsto> r)"
    using assms(1,2) by (auto simp: mr_register_def add_message_chain_def client_pc_maps fun_eq_iff)
  have h: "heap ?w' = (heap w)(r \<mapsto> new_message_chain f)" "conns ?w' = conns w"
    by (simp_all add: mr_register_def add_message_chain_def)
  have sel_r: False if "conns w cid = Some cn" "cn_pc cn = Selected req (Some r) resp" for cid cn req resp
  proof -
    from assms(4) that have "heap w r \<noteq> None" unfolding tag_inv_def by blast
    with assms(3) show False by simp
  qed
  show ?thesis
    unfolding tag_inv_def maps h
  proof (intro conjI allI impI)
    fix t' r' mc h
    assume a: "((client_ref w)(t \<mapsto> r)) t' = Some r'" "((heap w)(r \<mapsto> new_message_chain f)) r' = Some mc"
      "h \<in> set (handlings mc)"
    show "msg_get (req_headers (h_request h)) request_id_header_name = client_rid w t'"
    proof (cases "r' = r")
      case True
      with a(2) have "mc = new_message_chain f" by simp
      with a(3) show ?thesis by simp
    next
      case False
      with a assms(4) show ?thesis by (auto simp: tag_inv_def split: if_splits)
    qed
  next
    fix cid cn req r' resp t'
    assume a: "conns w cid = Some cn" "cn_pc cn = Selected req (Some r') resp" "((client_ref w)(t \<mapsto> r)) t' = Some r'"
    then show "msg_get (req_headers req) request_id_header_name = client_rid w t'"
      using assms(4) sel_r by (auto simp: tag_inv_def split: if_splits)
  next
    fix cid cn req r' resp
    assume "conns w cid = Some cn" "cn_pc cn = Selected req (Some r') resp"
    then show "((heap w)(r \<mapsto> new_message_chain f)) r' \<noteq> None"
      using assms(4) by (auto simp: tag_inv_def)
  qed
qed

lemma tag_inv_select:
  assumes "conns w cid = Some cn" "core_inv w" "tag_inv w"
  shows "tag_inv (conn_select w cid cn req)"
proof -
  obtain f mc where sel: "select_handler w (heap w) (req_headers req) = (f, mc)"
    by (cases "select_handler w (heap w) (req_headers req)")
  let ?resp = "echo_request_id (req_headers req) (f req)"
  have eq: "conn_select w cid cn req = set_conn w cid cn (Selected req mc ?resp)"
    using sel by (simp add: conn_select_def)
  have new: "client_ref w t = Some r \<Longrightarrow> msg_get (req_headers req) request_id_header_name = client_rid w t"
    and alloc: "heap w r \<noteq> None" if "mc = Some r" for t r
  proof -
    from sel that obtain rid where rid: "msg_get (req_headers req) request_id_header_name = Some rid"
      "message_chains w rid = Some r"
      by (auto dest: select_handler_Some)
    with assms(2) obtain t0 where t0: "client_rid w t0 = Some rid" "client_ref w t0 = Some r"
      by (auto simp: core_inv_registry)
    show "client_ref w t = Some r \<Longrightarrow> msg_get (req_headers req) request_id_header_name = client_rid w t"
    proof -
      assume a: "client_ref w t = Some r"
      have "t = t0" using core_inv_ref_unique [OF assms(2) a t0(2)] .
      with t0(1) rid(1) show "msg_get (req_headers req) request_id_header_name = client_rid w t" by simp
    qed
    show "heap w r \<noteq> None" by (rule core_inv_ref_alloc [OF assms(2) t0(2)])
  qed
  show ?thesis
    unfolding eq tag_inv_def set_conn_fields client_maps_same_clients [OF set_conn_fields(6)]
  proof (intro conjI allI impI)
    fix t r mc' h
    assume "client_ref w t = Some r" "heap w r = Some mc'" "h \<in> set (handlings mc')"
    with assms(3) show "msg_get (req_headers (h_request h)) request_id_header_name = client_rid w t"
      unfolding tag_inv_def by blast
  next
    fix cid' cn' req' r resp' t
    assume a: "((conns w)(cid \<mapsto> cn\<lparr>cn_pc := Selected req mc ?resp\<rparr>)) cid' = Some cn'"
      "cn_pc cn' = Selected req' (Some r) resp'" "client_ref w t = Some r"
    show "msg_get (req_headers req') request_id_header_name = client_rid w t"
    proof (cases "cid' = cid")
      case True
      with a new show ?thesis by auto
    next
      case False
      with a assms(3) show ?thesis unfolding tag_inv_def by auto
    qed
  next
    fix cid' cn' req' r resp'
    assume a: "((conns w)(cid \<mapsto> cn\<lparr>cn_pc := Selected req mc ?resp\<rparr>)) cid' = Some cn'"
      "cn_pc cn' = Selected req' (Some r) resp'"
    show "heap w r \<noteq> None"
    proof (cases "cid' = cid")
      case True
      with a alloc show ?thesis by auto
    next
      case False
      with a assms(3) show ?thesis unfolding tag_inv_def by auto
    qed
  qed
qed

lemma tag_inv_record:
  assumes "conns w cid = Some cn" "cn_pc cn = Selected req mc resp" "tag_inv w"
  shows "tag_inv (conn_record w cid cn req mc resp)"
proof (cases mc)
  case None
  show ?thesis
    by (rule tag_inv_frame [OF assms(3)])
       (use None in \<open>auto simp: conn_record_def split: if_splits\<close>)
next
  case (Some r0)
  let ?h = "\<lparr>h_endpoint = cn_ep cn, h_request = req, h_response = resp\<rparr>"
  have tag_req: "client_ref w t = Some r0 \<Longrightarrow> msg_get (req_headers req) request_id_header_name = client_rid w t" for t
    using assms Some unfolding tag_inv_def by blast
  have maps: "client_rid (conn_record w cid cn req mc resp) = client_rid w"
      "client_ref (conn_record w cid cn req mc resp) = client_ref w"
    by (simp_all add: conn_record_def)
  have hp: "heap (conn_record w cid cn req mc resp) = (heap w)(r0 := map_option (add_handling ?h) (heap w r0))"
    using Some by (simp add: conn_record_def)
  have cs: "conns (conn_record w cid cn req mc resp) = (conns w)(cid \<mapsto> cn\<lparr>cn_pc := Recorded req resp\<rparr>)"
    by (simp add: conn_record_def)
  show ?thesis
    unfolding tag_inv_def maps hp cs
  proof (intro conjI allI impI)
    fix t r mc' h
    assume a: "client_ref w t = Some r" "((heap w)(r0 := map_option (add_handling ?h) (heap w r0))) r = Some mc'"
      "h \<in> set (handlings mc')"
    show "msg_get (req_headers (h_request h)) request_id_header_name = client_rid w t"
    proof (cases "r = r0")
      case True
      with a(2) obtain mc0 where "heap w r0 = Some mc0" "mc' = add_handling ?h mc0" by auto
      with a True assms(3) tag_req show ?thesis unfolding tag_inv_def by auto
    next
      case False
      with a assms(3) show ?thesis unfolding tag_inv_def by auto
    qed
  next
    fix cid' cn' req' r resp' t
    assume "((conns w)(cid \<mapsto> cn\<lparr>cn_pc := Recorded req resp\<rparr>)) cid' = Some cn'"
      "cn_pc cn' = Selected req' (Some r) resp'" "client_ref w t = Some r"
    with assms(3) show "msg_get (req_headers req') request_id_header_name = client_rid w t"
      unfolding tag_inv_def by (auto split: if_splits)
  next
    fix cid' cn' req' r resp'
    assume "((conns w)(cid \<mapsto> cn\<lparr>cn_pc := Recorded req resp\<rparr>)) cid' = Some cn'"
      "cn_pc cn' = Selected req' (Some r) resp'"
    with assms(3) show "((heap w)(r0 := map_option (add_handling ?h) (heap w r0))) r \<noteq> None"
      unfolding tag_inv_def by (auto split: if_splits)
  qed
qed

lemma tag_inv_frame_eq:
  assumes "tag_inv w" "client_rid w' = client_rid w" "client_ref w' = client_ref w" "heap w' = heap w"
    "\<And>cid cn' req r resp. conns w' cid = Some cn' \<Longrightarrow> cn_pc cn' = Selected req (Some r) resp \<Longrightarrow>
       conns w cid = Some cn'"
  shows "tag_inv w'"
  by (rule tag_inv_frame [OF assms(1)]) (use assms(2-5) in auto)

lemma tag_inv_set_pc_same:
  assumes "tag_inv w" "clients w t = Some cl" "pc_rid pc = pc_rid (cl_pc cl)" "pc_ref pc = pc_ref (cl_pc cl)"
  shows "tag_inv (set_pc w t pc)"
proof (rule tag_inv_frame_eq [OF assms(1)])
  show "client_rid (set_pc w t pc) = client_rid w" "client_ref (set_pc w t pc) = client_ref w"
    using assms(2-4) by (auto simp: client_pc_maps fun_eq_iff)
qed simp_all

lemma tag_inv_step: "dstep w w' \<Longrightarrow> core_inv w \<Longrightarrow> tag_inv w \<Longrightarrow> tag_inv w'"
proof (induction rule: dstep.induct)
  case (call_default w t c)
  show ?case
    by (rule tag_inv_frame_eq [OF call_default.prems(2)])
       (simp_all add: client_maps_mr_call [OF call_default.hyps(1)], simp_all add: mr_call_def)
next
  case (call_own w t loc hs c)
  show ?case
    by (rule tag_inv_frame_eq [OF call_own.prems(2)])
       (simp_all add: client_maps_mr_call call_own.hyps(1), simp_all add: mr_call_def)
next
  case (inject_id w t cl rid)
  have "client_rid (mr_inject_id w t (c_hloc (cl_call cl)) rid) t' = client_rid w t'"
    if "client_ref w t' \<noteq> None" for t'
    using that inject_id.hyps(1,2) by (auto simp: mr_inject_id_def client_pc_maps)
  moreover have "client_ref (mr_inject_id w t (c_hloc (cl_call cl)) rid) = client_ref w"
    using inject_id.hyps(1,2) by (auto simp: mr_inject_id_def client_pc_maps fun_eq_iff)
  ultimately show ?case
    by (intro tag_inv_frame [OF inject_id.prems(2)]) (simp_all add: mr_inject_id_def)
next
  case (register w t cl rid r)
  then show ?case by (blast intro: tag_inv_register)
next
  case (send w t cl rid r ep cid)
  let ?c = "\<lparr>cn_origin = Some t, cn_ep = ep,
          cn_pc = Accepted (build_request (cl_call cl) (the (hdicts w (c_hloc (cl_call cl)))))\<rparr>"
  have "tag_inv (w\<lparr>conns := (conns w)(cid \<mapsto> ?c)\<rparr>)"
    by (rule tag_inv_frame_eq [OF send.prems(2)]) (auto split: if_splits)
  then show ?case unfolding mr_send_def Let_def
    by (rule tag_inv_set_pc_same [where t = t and cl = cl]) (simp_all add: send.hyps(1,2))
next
  case (send_failed w t cl rid r)
  show ?case unfolding mr_send_failed_def
    by (rule tag_inv_set_pc_same [OF send_failed.prems(2) send_failed.hyps(1)]) (simp_all add: send_failed.hyps(2))
next
  case (receive w t cl rid r req cid cn req' out resp)
  have t1: "tag_inv (w\<lparr>message_chains := m\<rparr>)" for m
    by (rule tag_inv_frame_eq [OF receive.prems(2)]) simp_all
  show ?case
  proof (cases "del_message_chain w rid")
    case (Inl e)
    then show ?thesis unfolding mr_receive_def
      by (simp add: tag_inv_set_pc_same [OF receive.prems(2) receive.hyps(1)] receive.hyps(2))
  next
    case (Inr w1)
    then have "w1 = w\<lparr>message_chains := (message_chains w)(rid := None)\<rparr>"
      by (simp add: del_message_chain_Inr)
    with Inr show ?thesis unfolding mr_receive_def
      using tag_inv_set_pc_same [OF t1, where t = t and cl = cl] receive.hyps(1,2) by simp
  qed
next
  case (finish w t cl rid r req resp)
  have "tag_inv (w\<lparr>heap := (heap w)(r := map_option (finish_message_chain req resp) (heap w r))\<rparr>)"
    by (rule tag_inv_frame [OF finish.prems(2)]) (auto split: if_splits)
  then show ?case unfolding mr_finish_def
    by (rule tag_inv_set_pc_same [where t = t and cl = cl]) (simp_all add: finish.hyps(1,2))
next
  case (conn_accept w cid ep req)
  show ?case unfolding accept_request_def
    by (rule tag_inv_frame_eq [OF conn_accept.prems(2)]) (auto split: if_splits)
next
  case (conn_sel w cid cn req)
  then show ?case by (blast intro: tag_inv_select)
next
  case (conn_rec w cid cn req mc resp)
  then show ?case by (blast intro: tag_inv_record)
next
  case (conn_wr w cid cn req resp date)
  show ?case unfolding conn_write_def
    by (rule tag_inv_frame_eq [OF conn_wr.prems(2)]) (auto simp: set_conn_def split: if_splits)
next
  case (add_ep w a res)
  obtain w1 b ep where res: "res = (w1, b, ep)" by (cases res)
  with add_ep.hyps have w1: "w1 = w\<lparr>endpoints := endpoints w @ [ep]\<rparr>"
    by (simp add: add_endpoint_Inr)
  show ?case unfolding res sys_add_endpoint_def w1
    by (rule tag_inv_frame_eq [OF add_ep.prems(2)]) simp_all
qed

lemma reach_tag_inv: "reach w \<Longrightarrow> tag_inv w"
proof (induction rule: reach.induct)
  case init
  show ?case by (rule tag_inv_init)
next
  case (step w w')
  then show ?case using reach_core_inv tag_inv_step by blast
qed

end
