(* ===== verification/SystemDict.thy ===== *)
theory SystemDict
  imports SystemInv
begin

text \<open>
  The header dicts of the concurrent system.  \<open>make_request\<close> writes its id
  into the dict it was given (line 57) and the requests library sends that
  dict (line 62).  A caller that passes its own dict (location \<open>\<noteq> 0\<close>, created
  by the caller and given to one call) owns it: \<open>dict_inv\<close> says that such a
  dict belongs to one thread, keeps distinct keys, maps \<open>Request-ID\<close> to the
  thread's id once the id is written, and is exactly the header list of the
  request the thread sent.  The shared default dict (location 0) has no such
  invariant; the scenario of theory Scenarios shows what happens to it.
\<close>

fun pc_req :: "cpc \<Rightarrow> request option" where
  "pc_req (Waiting rid r q c) = Some q"
| "pc_req (Received rid r q p) = Some q"
| "pc_req (Returned rid r q p) = Some q"
| "pc_req _ = None"

definition own_dict_ok :: "headers \<Rightarrow> cpc \<Rightarrow> bool" where
  "own_dict_ok hs pc \<longleftrightarrow>
     distinct (map fst hs) \<and>
     (\<forall>rid. pc_rid pc = Some rid \<longrightarrow> map_of hs request_id_header_name = Some rid) \<and>
     (\<forall>q. pc_req pc = Some q \<longrightarrow> req_headers q = hs)"

definition dict_inv :: "world \<Rightarrow> bool" where
  "dict_inv w \<longleftrightarrow>
     hdicts w 0 \<noteq> None \<and>
     (\<forall>t cl. clients w t = Some cl \<longrightarrow> c_hloc (cl_call cl) \<in> dom (hdicts w)) \<and>
     (\<forall>t cl t' cl'. clients w t = Some cl \<longrightarrow> clients w t' = Some cl' \<longrightarrow>
        c_hloc (cl_call cl') = c_hloc (cl_call cl) \<longrightarrow> c_hloc (cl_call cl) \<noteq> 0 \<longrightarrow> t' = t) \<and>
     (\<forall>t cl hs. clients w t = Some cl \<longrightarrow> c_hloc (cl_call cl) \<noteq> 0 \<longrightarrow>
        hdicts w (c_hloc (cl_call cl)) = Some hs \<longrightarrow> own_dict_ok hs (cl_pc cl))"

text \<open>No other header with a case variant of \<open>Request-ID\<close>: the header the
  server reads (case-insensitively, last occurrence) is then the one the dict
  maps \<open>Request-ID\<close> to.\<close>

definition rid_clean :: "headers \<Rightarrow> bool" where
  "rid_clean hs \<longleftrightarrow> (\<forall>k \<in> fst ` set hs. lower k = lower request_id_header_name \<longrightarrow> k = request_id_header_name)"

lemma filter_key_distinct:
  "distinct (map fst hs) \<Longrightarrow>
   filter (\<lambda>(k, v). k = n) hs = (case map_of hs n of None \<Rightarrow> [] | Some v \<Rightarrow> [(n, v)])"
proof (induction hs)
  case (Cons p hs)
  then show ?case
    by (cases p) (auto simp: filter_empty_conv split: option.split dest: map_of_SomeD intro: rev_image_eqI)
qed simp

lemma msg_get_clean:
  assumes "distinct (map fst hs)" "rid_clean hs"
  shows "msg_get hs request_id_header_name = map_of hs request_id_header_name"
proof -
  have "filter (\<lambda>(k, v). lower k = lower request_id_header_name) hs =
        filter (\<lambda>(k, v). k = request_id_header_name) hs"
    using assms(2) by (auto simp: rid_clean_def intro!: filter_cong)
  then show ?thesis
    using filter_key_distinct [OF assms(1), of request_id_header_name]
    by (simp add: msg_get_def split: option.split)
qed

subsection \<open>Preservation\<close>

lemma dict_invI:
  assumes "hdicts w 0 \<noteq> None"
    "\<And>t cl. clients w t = Some cl \<Longrightarrow> c_hloc (cl_call cl) \<in> dom (hdicts w)"
    "\<And>t cl t' cl'. clients w t = Some cl \<Longrightarrow> clients w t' = Some cl' \<Longrightarrow>
       c_hloc (cl_call cl') = c_hloc (cl_call cl) \<Longrightarrow> c_hloc (cl_call cl) \<noteq> 0 \<Longrightarrow> t' = t"
    "\<And>t cl hs. clients w t = Some cl \<Longrightarrow> c_hloc (cl_call cl) \<noteq> 0 \<Longrightarrow>
       hdicts w (c_hloc (cl_call cl)) = Some hs \<Longrightarrow> own_dict_ok hs (cl_pc cl)"
  shows "dict_inv w"
  using assms unfolding dict_inv_def by blast

lemma dict_invD:
  assumes "dict_inv w"
  shows "hdicts w 0 \<noteq> None"
    and "clients w t = Some cl \<Longrightarrow> c_hloc (cl_call cl) \<in> dom (hdicts w)"
    and "clients w t = Some cl \<Longrightarrow> clients w t' = Some cl' \<Longrightarrow>
       c_hloc (cl_call cl') = c_hloc (cl_call cl) \<Longrightarrow> c_hloc (cl_call cl) \<noteq> 0 \<Longrightarrow> t' = t"
    and "clients w t = Some cl \<Longrightarrow> c_hloc (cl_call cl) \<noteq> 0 \<Longrightarrow>
       hdicts w (c_hloc (cl_call cl)) = Some hs \<Longrightarrow> own_dict_ok hs (cl_pc cl)"
  using assms unfolding dict_inv_def by blast+

lemma dict_inv_cong: "clients w' = clients w \<Longrightarrow> hdicts w' = hdicts w \<Longrightarrow> dict_inv w' = dict_inv w"
  by (simp add: dict_inv_def)

lemma dict_inv_upd [simp]:
  "dict_inv (w\<lparr>used_ids := u\<rparr>) = dict_inv w" "dict_inv (w\<lparr>heap := h\<rparr>) = dict_inv w"
  "dict_inv (w\<lparr>message_chains := m\<rparr>) = dict_inv w" "dict_inv (w\<lparr>conns := c\<rparr>) = dict_inv w"
  "dict_inv (w\<lparr>endpoints := e\<rparr>) = dict_inv w" "dict_inv (w\<lparr>bound := b\<rparr>) = dict_inv w"
  by (simp_all add: dict_inv_def)

lemma dict_inv_init: "dict_inv init_world"
  by (simp add: dict_inv_def init_world_def)

lemma own_dict_ok_step:
  "own_dict_ok hs pc \<Longrightarrow> pc_rid pc' = pc_rid pc \<Longrightarrow> (\<forall>q. pc_req pc' = Some q \<longrightarrow> req_headers q = hs) \<Longrightarrow>
   own_dict_ok hs pc'"
  by (simp add: own_dict_ok_def)

text \<open>A thread's own move, with the dicts unchanged.\<close>

lemma dict_inv_set_pc:
  assumes inv: "dict_inv w" and cl: "clients w t = Some cl"
    and ok: "\<And>hs. c_hloc (cl_call cl) \<noteq> 0 \<Longrightarrow> hdicts w (c_hloc (cl_call cl)) = Some hs \<Longrightarrow>
       own_dict_ok hs (cl_pc cl) \<Longrightarrow> own_dict_ok hs pc"
  shows "dict_inv (set_pc w t pc)"
proof (rule dict_invI)
  have c: "clients (set_pc w t pc) = (clients w)(t \<mapsto> cl\<lparr>cl_pc := pc\<rparr>)" by (rule clients_set_pc [OF cl])
  show "hdicts (set_pc w t pc) 0 \<noteq> None" using dict_invD(1) [OF inv] by simp
  show "c_hloc (cl_call cl') \<in> dom (hdicts (set_pc w t pc))" if "clients (set_pc w t pc) t' = Some cl'" for t' cl'
    using that dict_invD(2) [OF inv cl] dict_invD(2) [OF inv] by (auto simp: c split: if_splits)
  show "t2 = t1" if "clients (set_pc w t pc) t1 = Some cl1" "clients (set_pc w t pc) t2 = Some cl2"
    "c_hloc (cl_call cl2) = c_hloc (cl_call cl1)" "c_hloc (cl_call cl1) \<noteq> 0" for t1 cl1 t2 cl2
    using that cl dict_invD(3) [OF inv] by (auto simp: c split: if_splits)
  show "own_dict_ok hs (cl_pc cl')" if "clients (set_pc w t pc) t' = Some cl'" "c_hloc (cl_call cl') \<noteq> 0"
    "hdicts (set_pc w t pc) (c_hloc (cl_call cl')) = Some hs" for t' cl' hs
  proof (cases "t' = t")
    case True
    with that have "cl' = cl\<lparr>cl_pc := pc\<rparr>" by (simp add: c)
    with that cl dict_invD(4) [OF inv cl] ok show ?thesis by simp
  next
    case False
    with that dict_invD(4) [OF inv] show ?thesis by (simp add: c)
  qed
qed

lemma dict_inv_set_pc_keep:
  assumes "dict_inv w" "clients w t = Some cl" "pc_rid pc = pc_rid (cl_pc cl)"
    "\<And>q. pc_req pc = Some q \<Longrightarrow> pc_req (cl_pc cl) = Some q"
  shows "dict_inv (set_pc w t pc)"
  by (rule dict_inv_set_pc [OF assms(1,2)]) (use assms(3,4) in \<open>auto simp: own_dict_ok_def\<close>)

lemma dict_inv_call_default:
  assumes inv: "dict_inv w" and "clients w t = None" "c_hloc c = 0"
  shows "dict_inv (mr_call w t c)"
proof (rule dict_invI)
  have c: "clients (mr_call w t c) = (clients w)(t \<mapsto> \<lparr>cl_call = c, cl_pc = Calling\<rparr>)" by (simp add: mr_call_def)
  show "hdicts (mr_call w t c) 0 \<noteq> None" using dict_invD(1) [OF inv] by (simp add: mr_call_def)
  show "c_hloc (cl_call cl') \<in> dom (hdicts (mr_call w t c))" if "clients (mr_call w t c) t' = Some cl'" for t' cl'
    using that assms dict_invD(1,2) [OF inv] by (auto simp: c mr_call_def split: if_splits)
  show "t2 = t1" if "clients (mr_call w t c) t1 = Some cl1" "clients (mr_call w t c) t2 = Some cl2"
    "c_hloc (cl_call cl2) = c_hloc (cl_call cl1)" "c_hloc (cl_call cl1) \<noteq> 0" for t1 cl1 t2 cl2
    using that assms dict_invD(3) [OF inv] by (auto simp: c split: if_splits)
  show "own_dict_ok hs (cl_pc cl')" if "clients (mr_call w t c) t' = Some cl'" "c_hloc (cl_call cl') \<noteq> 0"
    "hdicts (mr_call w t c) (c_hloc (cl_call cl')) = Some hs" for t' cl' hs
    using that assms dict_invD(4) [OF inv] by (auto simp: c mr_call_def split: if_splits)
qed

lemma dict_inv_call_own:
  assumes inv: "dict_inv w" and "clients w t = None" "hdicts w loc = None" "distinct (map fst hs)" "c_hloc c = loc"
  shows "dict_inv (mr_call (w\<lparr>hdicts := (hdicts w)(loc \<mapsto> hs)\<rparr>) t c)" (is "dict_inv ?w")
proof (rule dict_invI)
  have c: "clients ?w = (clients w)(t \<mapsto> \<lparr>cl_call = c, cl_pc = Calling\<rparr>)" by (simp add: mr_call_def)
  have d: "hdicts ?w = (hdicts w)(loc \<mapsto> hs)" by (simp add: mr_call_def)
  have loc0: "loc \<noteq> 0" using dict_invD(1) [OF inv] assms(3) by metis
  have fresh: "c_hloc (cl_call cl') \<noteq> loc" if "clients w t' = Some cl'" for t' cl'
    using dict_invD(2) [OF inv that] assms(3) by auto
  show "hdicts ?w 0 \<noteq> None" using dict_invD(1) [OF inv] by (simp add: d)
  show "c_hloc (cl_call cl') \<in> dom (hdicts ?w)" if "clients ?w t' = Some cl'" for t' cl'
    using that assms dict_invD(2) [OF inv] by (auto simp: c d split: if_splits)
  show "t2 = t1" if a: "clients ?w t1 = Some cl1" "clients ?w t2 = Some cl2"
    "c_hloc (cl_call cl2) = c_hloc (cl_call cl1)" "c_hloc (cl_call cl1) \<noteq> 0" for t1 cl1 t2 cl2
  proof (cases "t1 = t \<or> t2 = t")
    case True
    then show ?thesis
    proof
      assume t1: "t1 = t"
      show ?thesis
      proof (rule ccontr)
        assume "t2 \<noteq> t1"
        moreover have "cl1 = \<lparr>cl_call = c, cl_pc = Calling\<rparr>" using a(1) t1 by (simp add: c)
        ultimately have "clients w t2 = Some cl2" "c_hloc (cl_call cl2) = loc"
          using a t1 by (simp_all add: c assms(5))
        with fresh show False by blast
      qed
    next
      assume t2: "t2 = t"
      show ?thesis
      proof (rule ccontr)
        assume "t2 \<noteq> t1"
        moreover have "cl2 = \<lparr>cl_call = c, cl_pc = Calling\<rparr>" using a(2) t2 by (simp add: c)
        ultimately have "clients w t1 = Some cl1" "c_hloc (cl_call cl1) = loc"
          using a t2 by (simp_all add: c assms(5))
        with fresh show False by blast
      qed
    qed
  next
    case False
    with a dict_invD(3) [OF inv] show ?thesis by (simp add: c)
  qed
  show "own_dict_ok hs' (cl_pc cl')" if "clients ?w t' = Some cl'" "c_hloc (cl_call cl') \<noteq> 0"
    "hdicts ?w (c_hloc (cl_call cl')) = Some hs'" for t' cl' hs'
    using that assms fresh dict_invD(4) [OF inv] by (auto simp: c d own_dict_ok_def split: if_splits)
qed

text \<open>Line 57 on the dict of a thread that has not written its id yet.\<close>

lemma dict_inv_write_dict:
  assumes inv: "dict_inv w" and cl: "clients w t = Some cl" "cl_pc cl = Calling"
    and hs: "hdicts w (c_hloc (cl_call cl)) = Some hs" and dist: "distinct (map fst hs) \<Longrightarrow> distinct (map fst hs')"
  shows "dict_inv (w\<lparr>hdicts := (hdicts w)(c_hloc (cl_call cl) \<mapsto> hs')\<rparr>)" (is "dict_inv ?w")
proof (rule dict_invI)
  let ?loc = "c_hloc (cl_call cl)"
  show "hdicts ?w 0 \<noteq> None" using dict_invD(1) [OF inv] by simp
  show "c_hloc (cl_call cl') \<in> dom (hdicts ?w)" if "clients ?w t' = Some cl'" for t' cl'
    using that dict_invD(2) [OF inv] by auto
  show "t2 = t1" if "clients ?w t1 = Some cl1" "clients ?w t2 = Some cl2"
    "c_hloc (cl_call cl2) = c_hloc (cl_call cl1)" "c_hloc (cl_call cl1) \<noteq> 0" for t1 cl1 t2 cl2
    using that dict_invD(3) [OF inv] by simp
  show "own_dict_ok hs'' (cl_pc cl')" if a: "clients ?w t' = Some cl'" "c_hloc (cl_call cl') \<noteq> 0"
    "hdicts ?w (c_hloc (cl_call cl')) = Some hs''" for t' cl' hs''
  proof (cases "c_hloc (cl_call cl') = ?loc")
    case True
    with a dict_invD(3) [OF inv cl(1)] have "t' = t" by simp
    with a cl(1) have "cl' = cl" by simp
    moreover have "own_dict_ok hs Calling" using dict_invD(4) [OF inv cl(1)] a(2) True hs cl(2) by simp
    ultimately show ?thesis using True a(3) cl(2) dist by (simp add: own_dict_ok_def)
  next
    case False
    with a dict_invD(4) [OF inv] show ?thesis by simp
  qed
qed

lemma dict_inv_inject_id:
  assumes inv: "dict_inv w" and cl: "clients w t = Some cl" "cl_pc cl = Calling"
  shows "dict_inv (mr_inject_id w t (c_hloc (cl_call cl)) rid)"
proof -
  let ?loc = "c_hloc (cl_call cl)"
  obtain hs where hs: "hdicts w ?loc = Some hs" using dict_invD(2) [OF inv cl(1)] by blast
  let ?hs' = "dict_set hs request_id_header_name rid"
  let ?w1 = "w\<lparr>hdicts := (hdicts w)(?loc \<mapsto> ?hs')\<rparr>"
  have "dict_inv ?w1"
    by (rule dict_inv_write_dict [OF inv cl hs]) (simp add: dict_set_def distinct_update)
  then have "dict_inv (?w1\<lparr>used_ids := insert rid (used_ids w)\<rparr>)" by simp
  moreover have "clients (?w1\<lparr>used_ids := insert rid (used_ids w)\<rparr>) t = Some cl" using cl by simp
  ultimately have "dict_inv (set_pc (?w1\<lparr>used_ids := insert rid (used_ids w)\<rparr>) t (IdSet rid))"
    by (rule dict_inv_set_pc) (auto simp: own_dict_ok_def dict_set_def cl(2))
  then show ?thesis by (simp add: mr_inject_id_def hs)
qed

lemma dict_inv_step: "dstep w w' \<Longrightarrow> dict_inv w \<Longrightarrow> dict_inv w'"
proof (induction rule: dstep.induct)
  case (call_default w t c)
  then show ?case by (intro dict_inv_call_default)
next
  case (call_own w t loc hs c)
  then show ?case by (intro dict_inv_call_own)
next
  case (inject_id w t cl rid)
  then show ?case by (intro dict_inv_inject_id)
next
  case (register w t cl rid r)
  have "dict_inv (add_message_chain (w\<lparr>heap := (heap w)(r \<mapsto> new_message_chain (c_handler (cl_call cl)))\<rparr>) rid r)"
    using register.prems by (simp add: add_message_chain_def)
  then show ?case unfolding mr_register_def
    by (rule dict_inv_set_pc_keep [where cl = cl]) (simp_all add: add_message_chain_def register.hyps)
next
  case (send w t cl rid r ep cid)
  obtain hs where hs: "hdicts w (c_hloc (cl_call cl)) = Some hs"
    using dict_invD(2) [OF send.prems send.hyps(1)] by blast
  have "dict_inv (w\<lparr>conns := (conns w)(cid \<mapsto> \<lparr>cn_origin = Some t, cn_ep = ep,
          cn_pc = Accepted (build_request (cl_call cl) hs)\<rparr>)\<rparr>)" (is "dict_inv ?w1")
    using send.prems by simp
  then have "dict_inv (set_pc ?w1 t (Waiting rid r (build_request (cl_call cl) hs) cid))"
    by (rule dict_inv_set_pc [where cl = cl]) (simp_all add: send.hyps hs own_dict_ok_def build_request_def)
  then show ?case by (simp add: mr_send_def hs Let_def)
next
  case (send_failed w t cl rid r)
  show ?case unfolding mr_send_failed_def
    by (rule dict_inv_set_pc_keep [OF send_failed.prems send_failed.hyps(1)]) (simp_all add: send_failed.hyps(2))
next
  case (receive w t cl rid r req cid cn req' out resp)
  show ?case
  proof (cases "del_message_chain w rid")
    case (Inl e)
    have "dict_inv (set_pc w t (Raised rid r e))"
      by (rule dict_inv_set_pc_keep [OF receive.prems receive.hyps(1)]) (simp_all add: receive.hyps(2))
    with Inl show ?thesis unfolding mr_receive_def by simp
  next
    case (Inr w1)
    then have "w1 = w\<lparr>message_chains := (message_chains w)(rid := None)\<rparr>"
      by (simp add: del_message_chain_Inr)
    moreover have "dict_inv (set_pc (w\<lparr>message_chains := (message_chains w)(rid := None)\<rparr>) t
        (Received rid r req resp))"
      by (rule dict_inv_set_pc_keep [where cl = cl]) (simp_all add: receive.prems receive.hyps(1,2))
    ultimately show ?thesis using Inr unfolding mr_receive_def by simp
  qed
next
  case (finish w t cl rid r req resp)
  have "dict_inv (w\<lparr>heap := (heap w)(r := map_option (finish_message_chain req resp) (heap w r))\<rparr>)"
    using finish.prems by simp
  then show ?case unfolding mr_finish_def
    by (rule dict_inv_set_pc_keep [where cl = cl]) (simp_all add: finish.hyps)
next
  case (conn_accept w cid ep req)
  then show ?case by (simp add: accept_request_def)
next
  case (conn_sel w cid cn req)
  then show ?case by (simp add: conn_select_def set_conn_def Let_def split: prod.split)
next
  case (conn_rec w cid cn req mc resp)
  then show ?case by (simp add: conn_record_def set_conn_def)
next
  case (conn_wr w cid cn req resp date)
  then show ?case by (simp add: conn_write_def set_conn_def)
next
  case (add_ep w a res)
  then show ?case by (cases res) (auto simp: sys_add_endpoint_def add_endpoint_Inr)
qed

lemma reach_dict_inv: "reach w \<Longrightarrow> dict_inv w"
  by (induction rule: reach.induct) (auto intro: dict_inv_init dict_inv_step)

end
