(* ===== verification/SystemChain.thy ===== *)
theory SystemChain
  imports SystemInv
begin

text \<open>
  The conversation records of the concurrent system.  A chain's handlings only
  ever grow at the end (\<open>add_handling\<close> under the chain's lock, lines 40--42,
  called at line 173), and its \<open>sent_request\<close> and \<open>received_response\<close> are
  set by the owning \<open>make_request\<close> only, at its end (lines 68--69):
  \<open>fin_inv\<close> says that every chain has an owner and that the two attributes
  are present exactly when the owner has returned.
\<close>

fun is_returned :: "cpc \<Rightarrow> bool" where
  "is_returned (Returned rid r q p) = True"
| "is_returned _ = False"

definition fin_inv :: "world \<Rightarrow> bool" where
  "fin_inv w \<longleftrightarrow>
     (\<forall>r \<in> dom (heap w). \<exists>t. client_ref w t = Some r) \<and>
     (\<forall>t cl r mc. clients w t = Some cl \<longrightarrow> pc_ref (cl_pc cl) = Some r \<longrightarrow> heap w r = Some mc \<longrightarrow>
        (received_response mc \<noteq> None \<longleftrightarrow> is_returned (cl_pc cl)) \<and>
        (sent_request mc \<noteq> None \<longleftrightarrow> is_returned (cl_pc cl)))"

text \<open>The handlings of a chain after a step extend those before it.\<close>

definition handlings_grow :: "world \<Rightarrow> world \<Rightarrow> bool" where
  "handlings_grow w w' \<longleftrightarrow>
     (\<forall>r mc. heap w r = Some mc \<longrightarrow> (\<exists>mc' xs. heap w' r = Some mc' \<and> handlings mc' = handlings mc @ xs))"

lemma handlings_grow_refl [simp]: "handlings_grow w w"
  by (simp add: handlings_grow_def)

lemma handlings_grow_same_heap: "heap w' = heap w \<Longrightarrow> handlings_grow w w'"
  by (simp add: handlings_grow_def)

lemma handlings_grow_trans: "handlings_grow w1 w2 \<Longrightarrow> handlings_grow w2 w3 \<Longrightarrow> handlings_grow w1 w3"
  unfolding handlings_grow_def by (metis append.assoc)

lemma dstep_handlings_grow: "dstep w w' \<Longrightarrow> handlings_grow w w'"
proof (induction rule: dstep.induct)
  case (register w t cl rid r)
  then show ?case by (auto simp: handlings_grow_def mr_register_def add_message_chain_def set_pc_def)
next
  case (receive w t cl rid r req cid cn req' out resp)
  then show ?case by (simp add: handlings_grow_same_heap mr_receive_def del_message_chain_def)
next
  case (finish w t cl rid r req resp)
  then show ?case by (auto simp: handlings_grow_def mr_finish_def)
next
  case (conn_sel w cid cn req)
  then show ?case by (simp add: handlings_grow_same_heap conn_select_def Let_def split: prod.split)
next
  case (conn_rec w cid cn req mc resp)
  then show ?case by (cases mc) (auto simp: handlings_grow_def conn_record_def)
next
  case (add_ep w a res)
  then show ?case by (cases res) (simp add: handlings_grow_same_heap sys_add_endpoint_def add_endpoint_Inr)
qed (simp_all add: handlings_grow_same_heap mr_call_def mr_inject_id_def mr_send_def Let_def mr_send_failed_def
       accept_request_def conn_write_def)

lemma steps_handlings_grow: "dstep\<^sup>*\<^sup>* w w' \<Longrightarrow> handlings_grow w w'"
  by (induction rule: rtranclp_induct) (auto intro: handlings_grow_trans dstep_handlings_grow)

subsection \<open>Finalisation\<close>

lemma fin_invI:
  assumes "\<And>r. r \<in> dom (heap w) \<Longrightarrow> \<exists>t. client_ref w t = Some r"
    "\<And>t cl r mc. clients w t = Some cl \<Longrightarrow> pc_ref (cl_pc cl) = Some r \<Longrightarrow> heap w r = Some mc \<Longrightarrow>
       (received_response mc \<noteq> None \<longleftrightarrow> is_returned (cl_pc cl)) \<and>
       (sent_request mc \<noteq> None \<longleftrightarrow> is_returned (cl_pc cl))"
  shows "fin_inv w"
  using assms unfolding fin_inv_def by blast

lemma fin_invD:
  assumes "fin_inv w"
  shows "r \<in> dom (heap w) \<Longrightarrow> \<exists>t. client_ref w t = Some r"
    and "clients w t = Some cl \<Longrightarrow> pc_ref (cl_pc cl) = Some r \<Longrightarrow> heap w r = Some mc \<Longrightarrow>
       (received_response mc \<noteq> None \<longleftrightarrow> is_returned (cl_pc cl)) \<and>
       (sent_request mc \<noteq> None \<longleftrightarrow> is_returned (cl_pc cl))"
  using assms unfolding fin_inv_def by blast+

lemma fin_inv_init: "fin_inv init_world"
  by (simp add: fin_inv_def init_world_def)

text \<open>Steps that leave the threads alone and change chains at most in their
  handlings.\<close>

lemma fin_inv_frame:
  assumes "fin_inv w" "clients w' = clients w" "dom (heap w') = dom (heap w)"
    "\<And>r mc'. heap w' r = Some mc' \<Longrightarrow>
       \<exists>mc. heap w r = Some mc \<and> received_response mc' = received_response mc \<and> sent_request mc' = sent_request mc"
  shows "fin_inv w'"
proof (rule fin_invI)
  have m: "client_ref w' = client_ref w" using assms(2) by (rule client_maps_same_clients)
  show "\<exists>t. client_ref w' t = Some r" if "r \<in> dom (heap w')" for r
    using that assms(1,3) fin_invD(1) by (simp add: m)
  show "(received_response mc' \<noteq> None \<longleftrightarrow> is_returned (cl_pc cl)) \<and>
        (sent_request mc' \<noteq> None \<longleftrightarrow> is_returned (cl_pc cl))"
    if "clients w' t = Some cl" "pc_ref (cl_pc cl) = Some r" "heap w' r = Some mc'" for t cl r mc'
    using that assms(2,4) fin_invD(2) [OF assms(1)] by fastforce
qed

text \<open>A thread's move that keeps its chain and whether it has returned.\<close>

lemma fin_inv_set_pc:
  assumes "fin_inv w" "clients w t = Some cl" "pc_ref pc = pc_ref (cl_pc cl)" "is_returned pc = is_returned (cl_pc cl)"
  shows "fin_inv (set_pc w t pc)"
proof (rule fin_invI)
  have c: "clients (set_pc w t pc) = (clients w)(t \<mapsto> cl\<lparr>cl_pc := pc\<rparr>)" by (rule clients_set_pc [OF assms(2)])
  have m: "client_ref (set_pc w t pc) = client_ref w"
    using assms(2,3) by (auto simp: client_pc_maps fun_eq_iff)
  show "\<exists>t'. client_ref (set_pc w t pc) t' = Some r" if "r \<in> dom (heap (set_pc w t pc))" for r
    using that fin_invD(1) [OF assms(1)] unfolding m by simp
  show "(received_response mc \<noteq> None \<longleftrightarrow> is_returned (cl_pc cl')) \<and>
        (sent_request mc \<noteq> None \<longleftrightarrow> is_returned (cl_pc cl'))"
    if "clients (set_pc w t pc) t' = Some cl'" "pc_ref (cl_pc cl') = Some r" "heap (set_pc w t pc) r = Some mc"
    for t' cl' r mc
  proof (cases "t' = t")
    case True
    with that have "cl' = cl\<lparr>cl_pc := pc\<rparr>" by (simp add: c)
    with that assms(3,4) fin_invD(2) [OF assms(1) assms(2)] show ?thesis by simp
  next
    case False
    with that fin_invD(2) [OF assms(1)] show ?thesis by (simp add: c)
  qed
qed

lemma fin_inv_call:
  assumes "fin_inv w" "clients w t = None"
  shows "fin_inv (mr_call w t c)"
proof (rule fin_invI)
  show "\<exists>t'. client_ref (mr_call w t c) t' = Some r" if "r \<in> dom (heap (mr_call w t c))" for r
    using that fin_invD(1) [OF assms(1)] by (simp add: client_maps_mr_call assms(2)) (simp add: mr_call_def)
  show "(received_response mc \<noteq> None \<longleftrightarrow> is_returned (cl_pc cl')) \<and>
        (sent_request mc \<noteq> None \<longleftrightarrow> is_returned (cl_pc cl'))"
    if "clients (mr_call w t c) t' = Some cl'" "pc_ref (cl_pc cl') = Some r" "heap (mr_call w t c) r = Some mc"
    for t' cl' r mc
    using that fin_invD(2) [OF assms(1)] by (auto simp: mr_call_def split: if_splits)
qed

lemma fin_inv_register:
  assumes inv: "fin_inv w" and core: "core_inv w"
    and cl: "clients w t = Some cl" "cl_pc cl = IdSet rid" and fresh: "heap w r = None"
  shows "fin_inv (mr_register w t rid r f)" (is "fin_inv ?w")
proof (rule fin_invI)
  have c: "clients ?w = (clients w)(t \<mapsto> cl\<lparr>cl_pc := Registered rid r\<rparr>)"
    using cl by (simp add: mr_register_def add_message_chain_def set_pc_def)
  have m: "client_ref ?w = (client_ref w)(t \<mapsto> r)"
    using cl by (auto simp: mr_register_def add_message_chain_def client_pc_maps fun_eq_iff)
  have h: "heap ?w = (heap w)(r \<mapsto> new_message_chain f)"
    by (simp add: mr_register_def add_message_chain_def)
  have t_none: "client_ref w t = None" using cl by (simp add: client_pc_maps)
  show "\<exists>t'. client_ref ?w t' = Some r'" if "r' \<in> dom (heap ?w)" for r'
  proof (cases "r' = r")
    case True
    then show ?thesis unfolding m by auto
  next
    case False
    with that h obtain t' where "client_ref w t' = Some r'" using fin_invD(1) [OF inv] by auto
    with t_none have "((client_ref w)(t \<mapsto> r)) t' = Some r'" by auto
    then show ?thesis unfolding m by blast
  qed
  show "(received_response mc \<noteq> None \<longleftrightarrow> is_returned (cl_pc cl')) \<and>
        (sent_request mc \<noteq> None \<longleftrightarrow> is_returned (cl_pc cl'))"
    if a: "clients ?w t' = Some cl'" "pc_ref (cl_pc cl') = Some r'" "heap ?w r' = Some mc" for t' cl' r' mc
  proof (cases "t' = t")
    case True
    with a c h have "cl' = cl\<lparr>cl_pc := Registered rid r\<rparr>" "mc = new_message_chain f" by auto
    then show ?thesis by (simp add: new_message_chain_def)
  next
    case False
    with a c have cl': "clients w t' = Some cl'" by simp
    have "r' \<noteq> r"
    proof
      assume "r' = r"
      with cl' a(2) have "client_ref w t' = Some r" by (simp add: client_pc_maps)
      with core fresh show False by (auto dest: core_inv_ref_alloc)
    qed
    with a(3) h have "heap w r' = Some mc" by simp
    with cl' a(2) fin_invD(2) [OF inv] show ?thesis by blast
  qed
qed

lemma fin_inv_finish:
  assumes inv: "fin_inv w" and core: "core_inv w"
    and cl: "clients w t = Some cl" "cl_pc cl = Received rid r req resp"
  shows "fin_inv (mr_finish w t rid r req resp)" (is "fin_inv ?w")
proof (rule fin_invI)
  let ?h = "(heap w)(r := map_option (finish_message_chain req resp) (heap w r))"
  have c: "clients ?w = (clients w)(t \<mapsto> cl\<lparr>cl_pc := Returned rid r req resp\<rparr>)"
    using cl by (simp add: mr_finish_def set_pc_def)
  have m: "client_ref ?w = client_ref w"
    using cl by (auto simp: mr_finish_def client_pc_maps fun_eq_iff)
  have h: "heap ?w = ?h" by (simp add: mr_finish_def)
  have d: "dom ?h = dom (heap w)" by (rule dom_map_option_upd)
  show "\<exists>t'. client_ref ?w t' = Some r'" if "r' \<in> dom (heap ?w)" for r'
    using that fin_invD(1) [OF inv] unfolding m h d by simp
  show "(received_response mc \<noteq> None \<longleftrightarrow> is_returned (cl_pc cl')) \<and>
        (sent_request mc \<noteq> None \<longleftrightarrow> is_returned (cl_pc cl'))"
    if a: "clients ?w t' = Some cl'" "pc_ref (cl_pc cl') = Some r'" "heap ?w r' = Some mc" for t' cl' r' mc
  proof (cases "t' = t")
    case True
    with a c h cl have "cl' = cl\<lparr>cl_pc := Returned rid r req resp\<rparr>" "r' = r"
      "\<exists>mc0. mc = finish_message_chain req resp mc0" by auto
    then show ?thesis by (auto simp: finish_message_chain_def)
  next
    case False
    with a c have cl': "clients w t' = Some cl'" by simp
    have "r' \<noteq> r"
    proof
      assume "r' = r"
      with cl' a(2) have "client_ref w t' = Some r" by (simp add: client_pc_maps)
      moreover have "client_ref w t = Some r" using cl by (simp add: client_pc_maps)
      ultimately show False using False core by (auto dest: core_inv_ref_unique)
    qed
    with a(3) h have "heap w r' = Some mc" by simp
    with cl' a(2) fin_invD(2) [OF inv] show ?thesis by blast
  qed
qed

lemma fin_inv_step: "dstep w w' \<Longrightarrow> core_inv w \<Longrightarrow> fin_inv w \<Longrightarrow> fin_inv w'"
proof (induction rule: dstep.induct)
  case (call_default w t c)
  then show ?case by (simp add: fin_inv_call)
next
  case (call_own w t loc hs c)
  have "fin_inv (w\<lparr>hdicts := (hdicts w)(loc \<mapsto> hs)\<rparr>)"
    by (rule fin_inv_frame [OF call_own.prems(2)]) simp_all
  then show ?case by (rule fin_inv_call) (simp add: call_own.hyps(1))
next
  case (inject_id w t cl rid)
  have "fin_inv (w\<lparr>hdicts := (hdicts w)(c_hloc (cl_call cl) \<mapsto>
          dict_set (the (hdicts w (c_hloc (cl_call cl)))) request_id_header_name rid),
          used_ids := insert rid (used_ids w)\<rparr>)"
    by (rule fin_inv_frame [OF inject_id.prems(2)]) simp_all
  then show ?case unfolding mr_inject_id_def
    by (rule fin_inv_set_pc [where cl = cl]) (simp_all add: inject_id.hyps)
next
  case (register w t cl rid r)
  then show ?case by (intro fin_inv_register)
next
  case (send w t cl rid r ep cid)
  have "fin_inv (w\<lparr>conns := (conns w)(cid \<mapsto> \<lparr>cn_origin = Some t, cn_ep = ep,
          cn_pc = Accepted (build_request (cl_call cl) (the (hdicts w (c_hloc (cl_call cl)))))\<rparr>)\<rparr>)"
    by (rule fin_inv_frame [OF send.prems(2)]) simp_all
  then show ?case unfolding mr_send_def Let_def
    by (rule fin_inv_set_pc [where cl = cl]) (simp_all add: send.hyps)
next
  case (send_failed w t cl rid r)
  show ?case unfolding mr_send_failed_def
    by (rule fin_inv_set_pc [OF send_failed.prems(2) send_failed.hyps(1)]) (simp_all add: send_failed.hyps(2))
next
  case (receive w t cl rid r req cid cn req' out resp)
  have w1: "fin_inv (w\<lparr>message_chains := (message_chains w)(rid := None)\<rparr>)"
    by (rule fin_inv_frame [OF receive.prems(2)]) simp_all
  show ?case
  proof (cases "del_message_chain w rid")
    case (Inl e)
    have "fin_inv (set_pc w t (Raised rid r e))"
      by (rule fin_inv_set_pc [OF receive.prems(2) receive.hyps(1)]) (simp_all add: receive.hyps(2))
    with Inl show ?thesis unfolding mr_receive_def by simp
  next
    case (Inr w')
    then have "w' = w\<lparr>message_chains := (message_chains w)(rid := None)\<rparr>" by (simp add: del_message_chain_Inr)
    moreover have "fin_inv (set_pc (w\<lparr>message_chains := (message_chains w)(rid := None)\<rparr>) t
        (Received rid r req resp))"
      by (rule fin_inv_set_pc [OF w1, where cl = cl]) (simp_all add: receive.hyps(1,2))
    ultimately show ?thesis using Inr unfolding mr_receive_def by simp
  qed
next
  case (finish w t cl rid r req resp)
  then show ?case by (intro fin_inv_finish)
next
  case (conn_accept w cid ep req)
  show ?case unfolding accept_request_def by (rule fin_inv_frame [OF conn_accept.prems(2)]) simp_all
next
  case (conn_sel w cid cn req)
  have "heap (conn_select w cid cn req) = heap w" "clients (conn_select w cid cn req) = clients w"
    by (simp_all add: conn_select_def Let_def split: prod.split)
  then show ?case by (intro fin_inv_frame [OF conn_sel.prems(2)]) auto
next
  case (conn_rec w cid cn req mc resp)
  show ?case unfolding conn_record_def
  proof (rule fin_inv_frame [OF conn_rec.prems(2)])
    show "dom (heap (set_conn (w\<lparr>heap := record_handling (heap w) mc
            \<lparr>h_endpoint = cn_ep cn, h_request = req, h_response = resp\<rparr>\<rparr>) cid cn (Recorded req resp))) =
          dom (heap w)"
      by (cases mc) auto
  qed (cases mc; auto simp: map_option_Some_iff split: if_splits)+
next
  case (conn_wr w cid cn req resp date)
  show ?case unfolding conn_write_def by (rule fin_inv_frame [OF conn_wr.prems(2)]) simp_all
next
  case (add_ep w a res)
  then show ?case
    by (cases res) (auto simp: sys_add_endpoint_def add_endpoint_Inr intro: fin_inv_frame)
qed

lemma reach_fin_inv: "reach w \<Longrightarrow> fin_inv w"
proof (induction rule: reach.induct)
  case init
  show ?case by (rule fin_inv_init)
next
  case (step w w')
  then show ?case using reach_core_inv fin_inv_step by blast
qed

subsection \<open>Handlings come from the chain's own handler\<close>

text \<open>A handling of a chain records the response of that chain's handler, with
  the id echoed (lines 163--173); a connection that has looked a chain up and
  not yet recorded holds such a response.\<close>

definition hand_ok :: "message_chain \<Rightarrow> request \<Rightarrow> response \<Rightarrow> bool" where
  "hand_ok mc req resp \<longleftrightarrow> resp = echo_request_id (req_headers req) (handler_function mc req)"

definition hand_inv :: "world \<Rightarrow> bool" where
  "hand_inv w \<longleftrightarrow>
     (\<forall>r mc h. heap w r = Some mc \<longrightarrow> h \<in> set (handlings mc) \<longrightarrow> hand_ok mc (h_request h) (h_response h)) \<and>
     (\<forall>cid cn req r resp. conns w cid = Some cn \<longrightarrow> cn_pc cn = Selected req (Some r) resp \<longrightarrow>
        (\<exists>mc. heap w r = Some mc \<and> hand_ok mc req resp))"

lemma hand_invD:
  assumes "hand_inv w"
  shows "heap w r = Some mc \<Longrightarrow> h \<in> set (handlings mc) \<Longrightarrow> hand_ok mc (h_request h) (h_response h)"
    and "conns w cid = Some cn \<Longrightarrow> cn_pc cn = Selected req (Some r) resp \<Longrightarrow>
       \<exists>mc. heap w r = Some mc \<and> hand_ok mc req resp"
  using assms unfolding hand_inv_def by blast+

lemma hand_inv_init: "hand_inv init_world"
  by (simp add: hand_inv_def init_world_def)

text \<open>Steps that keep the heap and create no looked-up connection.\<close>

lemma hand_inv_frame_eq:
  assumes "hand_inv w" "heap w' = heap w"
    "\<And>cid cn' req r resp. conns w' cid = Some cn' \<Longrightarrow> cn_pc cn' = Selected req (Some r) resp \<Longrightarrow>
       \<exists>cn. conns w cid = Some cn \<and> cn_pc cn = Selected req (Some r) resp"
  shows "hand_inv w'"
  unfolding hand_inv_def assms(2)
proof (intro conjI allI impI)
  fix r mc h
  assume "heap w r = Some mc" "h \<in> set (handlings mc)"
  then show "hand_ok mc (h_request h) (h_response h)" by (rule hand_invD(1) [OF assms(1)])
next
  fix cid cn' req r resp
  assume "conns w' cid = Some cn'" "cn_pc cn' = Selected req (Some r) resp"
  with assms(3) obtain cn where "conns w cid = Some cn" "cn_pc cn = Selected req (Some r) resp" by blast
  then show "\<exists>mc. heap w r = Some mc \<and> hand_ok mc req resp" by (rule hand_invD(2) [OF assms(1)])
qed

text \<open>A chain updated in place without touching its handler or handlings.\<close>

lemma hand_inv_heap_map:
  assumes "hand_inv w" "\<And>mc. handler_function (g mc) = handler_function mc" "\<And>mc. handlings (g mc) = handlings mc"
    "heap w' = (heap w)(r := map_option g (heap w r))" "conns w' = conns w"
  shows "hand_inv w'"
  unfolding hand_inv_def assms(4,5)
proof (intro conjI allI impI)
  fix r' mc' h
  assume a: "((heap w)(r := map_option g (heap w r))) r' = Some mc'" "h \<in> set (handlings mc')"
  show "hand_ok mc' (h_request h) (h_response h)"
  proof (cases "r' = r")
    case True
    with a obtain mc where "heap w r = Some mc" "mc' = g mc" by auto
    with a(2) assms hand_invD(1) [OF assms(1)] show ?thesis by (simp add: hand_ok_def)
  next
    case False
    with a hand_invD(1) [OF assms(1)] show ?thesis by simp
  qed
next
  fix cid cn req r' resp
  assume "conns w cid = Some cn" "cn_pc cn = Selected req (Some r') resp"
  then obtain mc where mc: "heap w r' = Some mc" "hand_ok mc req resp" by (blast dest: hand_invD(2) [OF assms(1)])
  show "\<exists>mc. ((heap w)(r := map_option g (heap w r))) r' = Some mc \<and> hand_ok mc req resp"
  proof (cases "r' = r")
    case True
    with mc assms(2) show ?thesis by (auto simp: hand_ok_def)
  next
    case False
    with mc show ?thesis by auto
  qed
qed

lemma hand_inv_register:
  assumes "hand_inv w" "heap w r = None"
  shows "hand_inv (mr_register w t rid r f)" (is "hand_inv ?w")
  unfolding hand_inv_def
proof (intro conjI allI impI)
  have h: "heap ?w = (heap w)(r \<mapsto> new_message_chain f)" "conns ?w = conns w"
    by (simp_all add: mr_register_def add_message_chain_def)
  fix r' mc h
  assume "heap ?w r' = Some mc" "h \<in> set (handlings mc)"
  with h hand_invD(1) [OF assms(1)] show "hand_ok mc (h_request h) (h_response h)"
    by (auto split: if_splits)
next
  have h: "heap ?w = (heap w)(r \<mapsto> new_message_chain f)" "conns ?w = conns w"
    by (simp_all add: mr_register_def add_message_chain_def)
  fix cid cn req r' resp
  assume "conns ?w cid = Some cn" "cn_pc cn = Selected req (Some r') resp"
  then obtain mc where "heap w r' = Some mc" "hand_ok mc req resp"
    using h(2) by (auto dest: hand_invD(2) [OF assms(1)])
  with assms(2) h(1) show "\<exists>mc. heap ?w r' = Some mc \<and> hand_ok mc req resp"
    by (cases "r' = r") auto
qed

lemma select_handler_found_fn:
  "select_handler d hp hs = (f, Some r) \<Longrightarrow> f = handler_function (the (hp r))"
  by (auto simp: select_handler_def Let_def split: if_splits option.splits)

lemma hand_inv_select:
  assumes "conns w cid = Some cn" "core_inv w" "hand_inv w"
  shows "hand_inv (conn_select w cid cn req)"
proof -
  obtain f m where sel: "select_handler w (heap w) (req_headers req) = (f, m)"
    by (cases "select_handler w (heap w) (req_headers req)")
  let ?resp = "echo_request_id (req_headers req) (f req)"
  have eq: "conn_select w cid cn req = set_conn w cid cn (Selected req m ?resp)"
    using sel by (simp add: conn_select_def)
  have new: "\<exists>mc. heap w r = Some mc \<and> hand_ok mc req ?resp" if "m = Some r" for r
  proof -
    from sel that obtain rid where "message_chains w rid = Some r" by (auto dest: select_handler_Some)
    with assms(2) obtain t0 where "client_ref w t0 = Some r" by (auto simp: core_inv_registry)
    with assms(2) obtain mc where mc: "heap w r = Some mc" by (auto dest: core_inv_ref_alloc)
    moreover have "f = handler_function mc" using select_handler_found_fn [OF sel [unfolded that]] mc by simp
    ultimately show ?thesis by (simp add: hand_ok_def)
  qed
  show ?thesis
    unfolding eq hand_inv_def set_conn_fields
  proof (intro conjI allI impI)
    fix r mc h
    assume "heap w r = Some mc" "h \<in> set (handlings mc)"
    then show "hand_ok mc (h_request h) (h_response h)" by (rule hand_invD(1) [OF assms(3)])
  next
    fix cid' cn' req' r resp'
    assume a: "((conns w)(cid \<mapsto> cn\<lparr>cn_pc := Selected req m ?resp\<rparr>)) cid' = Some cn'"
      "cn_pc cn' = Selected req' (Some r) resp'"
    show "\<exists>mc. heap w r = Some mc \<and> hand_ok mc req' resp'"
    proof (cases "cid' = cid")
      case True
      with a new show ?thesis by auto
    next
      case False
      with a hand_invD(2) [OF assms(3)] show ?thesis by auto
    qed
  qed
qed

lemma hand_inv_record:
  assumes "conns w cid = Some cn" "cn_pc cn = Selected req mc resp" "hand_inv w"
  shows "hand_inv (conn_record w cid cn req mc resp)"
proof (cases mc)
  case None
  show ?thesis unfolding conn_record_def
    by (rule hand_inv_frame_eq [OF assms(3)]) (use None in \<open>auto split: if_splits\<close>)
next
  case (Some r)
  let ?h = "\<lparr>h_endpoint = cn_ep cn, h_request = req, h_response = resp\<rparr>"
  obtain mc0 where mc0: "heap w r = Some mc0" "hand_ok mc0 req resp"
    using hand_invD(2) [OF assms(3) assms(1)] assms(2) Some by blast
  have "hand_inv (w\<lparr>heap := (heap w)(r := map_option (add_handling ?h) (heap w r))\<rparr>)"
    unfolding hand_inv_def
  proof (intro conjI allI impI)
    fix r' mc' h
    assume a: "heap (w\<lparr>heap := (heap w)(r := map_option (add_handling ?h) (heap w r))\<rparr>) r' = Some mc'"
      "h \<in> set (handlings mc')"
    show "hand_ok mc' (h_request h) (h_response h)"
    proof (cases "r' = r")
      case True
      with a mc0 have "mc' = add_handling ?h mc0" "h \<in> set (handlings mc0) \<or> h = ?h" by auto
      with mc0 hand_invD(1) [OF assms(3)] show ?thesis by (auto simp: hand_ok_def)
    next
      case False
      with a hand_invD(1) [OF assms(3)] show ?thesis by simp
    qed
  next
    fix cid' cn' req' r' resp'
    assume "conns (w\<lparr>heap := (heap w)(r := map_option (add_handling ?h) (heap w r))\<rparr>) cid' = Some cn'"
      "cn_pc cn' = Selected req' (Some r') resp'"
    then obtain mc1 where "heap w r' = Some mc1" "hand_ok mc1 req' resp'"
      by (auto dest: hand_invD(2) [OF assms(3)])
    then show "\<exists>mc. heap (w\<lparr>heap := (heap w)(r := map_option (add_handling ?h) (heap w r))\<rparr>) r' = Some mc \<and>
        hand_ok mc req' resp'"
      by (cases "r' = r") (auto simp: hand_ok_def)
  qed
  then show ?thesis unfolding conn_record_def Some record_handling_Some
    by (rule hand_inv_frame_eq) (auto split: if_splits)
qed

lemma hand_inv_step: "dstep w w' \<Longrightarrow> core_inv w \<Longrightarrow> hand_inv w \<Longrightarrow> hand_inv w'"
proof (induction rule: dstep.induct)
  case (register w t cl rid r)
  then show ?case by (intro hand_inv_register)
next
  case (receive w t cl rid r req cid cn req' out resp)
  have "heap (mr_receive w t rid r req resp) = heap w" "conns (mr_receive w t rid r req resp) = conns w"
    by (cases "rid \<in> dom (message_chains w)"; simp add: mr_receive_def del_message_chain_def)+
  then show ?case by (intro hand_inv_frame_eq [OF receive.prems(2)]) auto
next
  case (finish w t cl rid r req resp)
  show ?case
    by (rule hand_inv_heap_map [OF finish.prems(2), where g = "finish_message_chain req resp" and r = r])
       (simp_all add: mr_finish_def)
next
  case (conn_sel w cid cn req)
  then show ?case by (intro hand_inv_select)
next
  case (conn_rec w cid cn req mc resp)
  then show ?case by (intro hand_inv_record)
next
  case (conn_accept w cid ep req)
  show ?case by (rule hand_inv_frame_eq [OF conn_accept.prems(2)]) (auto simp: accept_request_def split: if_splits)
next
  case (conn_wr w cid cn req resp date)
  show ?case by (rule hand_inv_frame_eq [OF conn_wr.prems(2)]) (auto simp: conn_write_def split: if_splits)
next
  case (add_ep w a res)
  obtain w1 b ep where res: "res = (w1, b, ep)" by (cases res)
  with add_ep.hyps have "w1 = w\<lparr>endpoints := endpoints w @ [ep]\<rparr>" by (simp add: add_endpoint_Inr)
  with res show ?case
    by (intro hand_inv_frame_eq [OF add_ep.prems(2)]) (simp_all add: sys_add_endpoint_def)
next
  case (call_default w t c)
  show ?case by (rule hand_inv_frame_eq [OF call_default.prems(2)]) (auto simp: mr_call_def)
next
  case (call_own w t loc hs c)
  show ?case by (rule hand_inv_frame_eq [OF call_own.prems(2)]) (auto simp: mr_call_def)
next
  case (inject_id w t cl rid)
  show ?case by (rule hand_inv_frame_eq [OF inject_id.prems(2)]) (auto simp: mr_inject_id_def set_pc_def)
next
  case (send w t cl rid r ep cid)
  show ?case
    by (rule hand_inv_frame_eq [OF send.prems(2)]) (auto simp: mr_send_def Let_def set_pc_def split: if_splits)
next
  case (send_failed w t cl rid r)
  show ?case by (rule hand_inv_frame_eq [OF send_failed.prems(2)]) (auto simp: mr_send_failed_def set_pc_def)
qed

lemma reach_hand_inv: "reach w \<Longrightarrow> hand_inv w"
proof (induction rule: reach.induct)
  case init
  show ?case by (rule hand_inv_init)
next
  case (step w w')
  then show ?case using reach_core_inv hand_inv_step by blast
qed

end
