(* ===== verification/Scenarios.thy ===== *)
theory Scenarios
  imports SystemTag SystemDict SystemChain
begin

text \<open>
  Concrete runs of the concurrent system, built step by step from
  \<open>init_world\<close>; the reachable worlds the witnesses of the root theory use.
  \<^item> \<open>demo1\<close>..\<open>demo10\<close>: the first call of \<open>run\<close> (lines 221--236) and
    spec scenario 1.  An endpoint is bound on localhost:8081; thread 1 calls
    \<open>make_request(url, 'GET')\<close> for /abc/123, with the default header dict
    and the default handler; its id is \<open>abc\<close>; the request is accepted as
    connection 0, served, answered; the thread returns.
  \<^item> \<open>own2\<close>..\<open>own5\<close>: the same call given its own empty dict, up to the
    send.
  \<^item> \<open>fail1\<close>..\<open>fail4\<close>: the same call aimed at port 9999, where nothing
    listens: the request fails after registration.
  \<^item> \<open>sh1\<close>..\<open>sh9\<close>: two calls on the default dict interleaved.
\<close>

definition demo_addr :: addr where "demo_addr = (''localhost'', 8081)"
definition demo_ep :: endpoint where "demo_ep = DeproxyEndpoint demo_addr"

definition demo_call :: call where
  "demo_call = \<lparr>c_url = \<lparr>url_addr = demo_addr, url_path = ''/abc/123''\<rparr>, c_method = ''GET'',
                c_hloc = 0, c_body = [], c_handler = default_handler\<rparr>"

definition demo_req :: request where
  "demo_req = build_request demo_call [(''Request-ID'', ''abc'')]"

definition demo_resp :: response where
  "demo_resp = echo_request_id (req_headers demo_req) (default_handler demo_req)"

definition demo_addr2 :: addr where "demo_addr2 = (''localhost'', 8082)"
definition demo_ep2 :: endpoint where "demo_ep2 = DeproxyEndpoint demo_addr2"

text \<open>Lines 226--227: \<open>Deproxy(server_address)\<close> binds localhost:8081, then
  \<open>add_endpoint\<close> binds localhost:8082.\<close>

definition demo0 :: world where
  "demo0 = sys_add_endpoint init_world (init_world\<lparr>endpoints := [demo_ep]\<rparr>, [demo_addr], demo_ep)"
definition demo1 :: world where
  "demo1 = sys_add_endpoint demo0 (demo0\<lparr>endpoints := [demo_ep, demo_ep2]\<rparr>, [demo_addr2, demo_addr], demo_ep2)"
definition demo2 :: world where "demo2 = mr_call demo1 1 demo_call"
definition demo3 :: world where "demo3 = mr_inject_id demo2 1 0 ''abc''"
definition demo4 :: world where "demo4 = mr_register demo3 1 ''abc'' 0 default_handler"
definition demo5 :: world where "demo5 = mr_send demo4 1 ''abc'' 0 demo_call 0 demo_ep"

definition demo_conn :: conn where
  "demo_conn = \<lparr>cn_origin = Some 1, cn_ep = demo_ep, cn_pc = Accepted demo_req\<rparr>"

definition demo6 :: world where "demo6 = conn_select demo5 0 demo_conn demo_req"
definition demo7 :: world where
  "demo7 = conn_record demo6 0 demo_conn demo_req (Some 0) demo_resp"
definition demo_date :: string where "demo_date = ''Mon, 09 Nov 2026 12:00:00 GMT''"

text \<open>The response as the client reads it back from the bytes written.\<close>

definition demo_rcvd :: response where
  "demo_rcvd = demo_resp\<lparr>resp_headers := [(''Server'', server_version), (''Date'', demo_date)] @ resp_headers demo_resp\<rparr>"

definition demo8 :: world where "demo8 = conn_write demo7 0 demo_conn demo_req demo_resp demo_date"
definition demo9 :: world where "demo9 = mr_receive demo8 1 ''abc'' 0 demo_req demo_rcvd"
definition demo10 :: world where "demo10 = mr_finish demo9 1 ''abc'' 0 demo_req demo_rcvd"

lemmas demo_worlds = demo0_def demo1_def demo2_def demo3_def demo4_def demo5_def demo6_def demo7_def
  demo8_def demo9_def demo10_def

lemmas demo_defs = demo_addr_def demo_ep_def demo_addr2_def demo_ep2_def demo_call_def demo_req_def demo_resp_def

lemma reach_demo0: "reach demo0"
proof -
  have "add_endpoint init_world (bound init_world) demo_addr =
        Inr (init_world\<lparr>endpoints := [demo_ep]\<rparr>, [demo_addr], demo_ep)"
    by (simp add: add_endpoint_Inr init_world_def demo_ep_def)
  then show ?thesis unfolding demo0_def by (rule reach.step [OF reach.init dstep.add_ep])
qed

lemma reach_demo1: "reach demo1"
proof -
  have "add_endpoint demo0 (bound demo0) demo_addr2 =
        Inr (demo0\<lparr>endpoints := [demo_ep, demo_ep2]\<rparr>, [demo_addr2, demo_addr], demo_ep2)"
    by (simp add: add_endpoint_Inr demo0_def sys_add_endpoint_def init_world_def demo_ep2_def demo_addr_def demo_addr2_def)
  then show ?thesis unfolding demo1_def by (rule reach.step [OF reach_demo0 dstep.add_ep])
qed

lemma reach_demo2: "reach demo2"
  unfolding demo2_def
  by (rule reach.step [OF reach_demo1 dstep.call_default])
     (simp_all add: demo0_def demo1_def init_world_def sys_add_endpoint_def demo_call_def)

lemma demo2_client: "clients demo2 1 = Some \<lparr>cl_call = demo_call, cl_pc = Calling\<rparr>"
  by (simp add: demo2_def mr_call_def)

lemma reach_demo3: "reach demo3"
proof -
  have "dstep demo2 (mr_inject_id demo2 1 (c_hloc (cl_call \<lparr>cl_call = demo_call, cl_pc = Calling\<rparr>)) ''abc'')"
    by (rule dstep.inject_id [OF demo2_client])
       (simp_all add: demo2_def mr_call_def demo0_def demo1_def sys_add_endpoint_def init_world_def)
  then show ?thesis unfolding demo3_def by (simp add: demo_call_def reach.step [OF reach_demo2])
qed

lemmas demo_eval = demo_worlds demo_defs system_defs add_message_chain_def del_message_chain_def
  select_handler_def echo_request_id_def record_handling_def header_defs lower_char_def
  new_message_chain_def add_handling_def finish_message_chain_def default_handler_def Let_def

lemma demo3_client: "clients demo3 1 = Some \<lparr>cl_call = demo_call, cl_pc = IdSet ''abc''\<rparr>"
  by (simp add: demo_eval)

lemma reach_demo4: "reach demo4"
proof -
  have "dstep demo3 (mr_register demo3 1 ''abc'' 0 (c_handler (cl_call \<lparr>cl_call = demo_call, cl_pc = IdSet ''abc''\<rparr>)))"
    by (rule dstep.register [OF demo3_client]) (simp_all add: demo_eval)
  then show ?thesis unfolding demo4_def by (simp add: demo_call_def reach.step [OF reach_demo3])
qed

lemma demo4_client: "clients demo4 1 = Some \<lparr>cl_call = demo_call, cl_pc = Registered ''abc'' 0\<rparr>"
  by (simp add: demo_eval)

lemma reach_demo5: "reach demo5"
proof -
  have "dstep demo4 (mr_send demo4 1 ''abc'' 0 (cl_call \<lparr>cl_call = demo_call, cl_pc = Registered ''abc'' 0\<rparr>) 0 demo_ep)"
    by (rule dstep.send [OF demo4_client]) (simp_all add: demo_eval has_endpoint_def)
  then show ?thesis unfolding demo5_def by (simp add: reach.step [OF reach_demo4])
qed

lemma demo5_conn: "conns demo5 0 = Some demo_conn"
  by (simp add: demo_eval demo_conn_def)

lemma demo5_client: "clients demo5 1 = Some \<lparr>cl_call = demo_call, cl_pc = Waiting ''abc'' 0 demo_req 0\<rparr>"
  by (simp add: demo_eval)

lemma reach_demo6: "reach demo6"
  unfolding demo6_def
  by (rule reach.step [OF reach_demo5 dstep.conn_sel [OF demo5_conn]]) (simp add: demo_conn_def)

lemma demo6_conn: "conns demo6 0 = Some (demo_conn\<lparr>cn_pc := Selected demo_req (Some 0) demo_resp\<rparr>)"
  by (simp add: demo_eval demo_conn_def)

lemma reach_demo7: "reach demo7"
proof -
  have "dstep demo6 (conn_record demo6 0 (demo_conn\<lparr>cn_pc := Selected demo_req (Some 0) demo_resp\<rparr>)
          demo_req (Some 0) demo_resp)"
    by (rule dstep.conn_rec [OF demo6_conn]) simp
  moreover have "conn_record demo6 0 (demo_conn\<lparr>cn_pc := Selected demo_req (Some 0) demo_resp\<rparr>)
          demo_req (Some 0) demo_resp = demo7"
    by (simp add: demo7_def conn_record_def set_conn_def demo_conn_def)
  ultimately show ?thesis using reach.step [OF reach_demo6] by simp
qed

lemma demo7_conn: "conns demo7 0 = Some (demo_conn\<lparr>cn_pc := Recorded demo_req demo_resp\<rparr>)"
  by (simp add: demo_eval demo_conn_def)

lemma reach_demo8: "reach demo8"
proof -
  have "dstep demo7 (conn_write demo7 0 (demo_conn\<lparr>cn_pc := Recorded demo_req demo_resp\<rparr>) demo_req demo_resp demo_date)"
    by (rule dstep.conn_wr [OF demo7_conn]) simp
  moreover have "conn_write demo7 0 (demo_conn\<lparr>cn_pc := Recorded demo_req demo_resp\<rparr>) demo_req demo_resp demo_date = demo8"
    by (simp add: demo8_def conn_write_def set_conn_def demo_conn_def)
  ultimately show ?thesis using reach.step [OF reach_demo7] by simp
qed

lemma demo8_client: "clients demo8 1 = Some \<lparr>cl_call = demo_call, cl_pc = Waiting ''abc'' 0 demo_req 0\<rparr>"
  by (simp add: demo_eval)

lemma demo8_conn:
  "conns demo8 0 = Some (demo_conn\<lparr>cn_pc := Written demo_req (write_response demo_date demo_resp)\<rparr>)"
  by (simp add: demo_eval demo_conn_def)

lemma demo_read_wire: "read_wire (write_response demo_date demo_resp) = Some demo_rcvd"
  by (simp add: read_wire_write_response demo_rcvd_def)

lemma reach_demo9: "reach demo9"
  unfolding demo9_def
  by (rule reach.step [OF reach_demo8 dstep.receive [where req' = demo_req, OF demo8_client _ demo8_conn _ demo_read_wire]]) simp_all

lemma demo9_client: "clients demo9 1 = Some \<lparr>cl_call = demo_call, cl_pc = Received ''abc'' 0 demo_req demo_rcvd\<rparr>"
  by (simp add: demo_eval)

lemma reach_demo10: "reach demo10"
  unfolding demo10_def
  by (rule reach.step [OF reach_demo9 dstep.finish [OF demo9_client]]) simp

lemma demo10_client:
  "clients demo10 1 = Some \<lparr>cl_call = demo_call, cl_pc = Returned ''abc'' 0 demo_req demo_rcvd\<rparr>"
  by (simp add: demo_eval)

lemma demo10_heap:
  "heap demo10 0 = Some (finish_message_chain demo_req demo_rcvd
     (add_handling \<lparr>h_endpoint = demo_ep, h_request = demo_req, h_response = demo_resp\<rparr>
       (new_message_chain default_handler)))"
  by (simp add: demo_eval demo_conn_def)

subsection \<open>The second call of run\<close>

text \<open>Line 242: \<open>make_request(url2, 'GET', handler_function=handler2)\<close> to
  localhost:8082, again on the default dict, which still holds the first call's
  id and gets the new one written over it.  It runs after the first call has
  returned (thread 2 is this second call of the main thread).\<close>

definition run_call2 :: call where
  "run_call2 = \<lparr>c_url = \<lparr>url_addr = demo_addr2, url_path = ''/abc/123''\<rparr>, c_method = ''GET'',
                c_hloc = 0, c_body = [], c_handler = handler2\<rparr>"
definition run_req2 :: request where "run_req2 = build_request run_call2 [(''Request-ID'', ''def'')]"
definition run_resp2 :: response where
  "run_resp2 = echo_request_id (req_headers run_req2) (handler2 run_req2)"
definition run_rcvd2 :: response where
  "run_rcvd2 = run_resp2\<lparr>resp_headers := [(''Server'', server_version), (''Date'', demo_date)] @ resp_headers run_resp2\<rparr>"
definition run_conn2 :: conn where
  "run_conn2 = \<lparr>cn_origin = Some 2, cn_ep = demo_ep2, cn_pc = Accepted run_req2\<rparr>"

definition run11 :: world where "run11 = mr_call demo10 2 run_call2"
definition run12 :: world where "run12 = mr_inject_id run11 2 0 ''def''"
definition run13 :: world where "run13 = mr_register run12 2 ''def'' 1 handler2"
definition run14 :: world where "run14 = mr_send run13 2 ''def'' 1 run_call2 1 demo_ep2"
definition run15 :: world where "run15 = conn_select run14 1 run_conn2 run_req2"
definition run16 :: world where "run16 = conn_record run15 1 run_conn2 run_req2 (Some 1) run_resp2"
definition run17 :: world where "run17 = conn_write run16 1 run_conn2 run_req2 run_resp2 demo_date"
definition run18 :: world where "run18 = mr_receive run17 2 ''def'' 1 run_req2 run_rcvd2"
definition run19 :: world where "run19 = mr_finish run18 2 ''def'' 1 run_req2 run_rcvd2"

lemma demo10_state:
  "clients demo10 2 = None" "hdicts demo10 0 = Some [(''Request-ID'', ''abc'')]" "heap demo10 1 = None"
  "conns demo10 1 = None" "used_ids demo10 = {''abc''}" "message_chains demo10 = Map.empty"
  "endpoints demo10 = [demo_ep, demo_ep2]" "heap demo10 (Suc 0) = None" "conns demo10 (Suc 0) = None"
  by (simp_all add: demo_eval)

lemmas run_eval = run11_def run12_def run13_def run14_def run15_def run16_def run17_def run18_def
  run19_def run_call2_def run_req2_def run_resp2_def run_rcvd2_def run_conn2_def demo10_state
  system_defs add_message_chain_def del_message_chain_def select_handler_def echo_request_id_def
  record_handling_def header_defs lower_char_def new_message_chain_def add_handling_def
  finish_message_chain_def handler2_def Let_def

lemma reach_run11: "reach run11"
  unfolding run11_def
  by (rule reach.step [OF reach_demo10 dstep.call_default]) (simp_all add: run_eval)

lemma reach_run12: "reach run12"
proof -
  have c: "clients run11 2 = Some \<lparr>cl_call = run_call2, cl_pc = Calling\<rparr>" by (simp add: run11_def mr_call_def)
  have "dstep run11 (mr_inject_id run11 2 (c_hloc (cl_call \<lparr>cl_call = run_call2, cl_pc = Calling\<rparr>)) ''def'')"
    by (rule dstep.inject_id [OF c]) (simp_all add: run_eval)
  then show ?thesis unfolding run12_def by (simp add: run_call2_def reach.step [OF reach_run11])
qed

lemma reach_run13: "reach run13"
proof -
  have c: "clients run12 2 = Some \<lparr>cl_call = run_call2, cl_pc = IdSet ''def''\<rparr>" by (simp add: run_eval)
  have "dstep run12 (mr_register run12 2 ''def'' 1 (c_handler (cl_call \<lparr>cl_call = run_call2, cl_pc = IdSet ''def''\<rparr>)))"
    by (rule dstep.register [OF c]) (simp_all add: run_eval)
  then show ?thesis unfolding run13_def by (simp add: run_call2_def reach.step [OF reach_run12])
qed

lemma reach_run14: "reach run14"
proof -
  have c: "clients run13 2 = Some \<lparr>cl_call = run_call2, cl_pc = Registered ''def'' 1\<rparr>" by (simp add: run_eval)
  have "dstep run13 (mr_send run13 2 ''def'' 1 (cl_call \<lparr>cl_call = run_call2, cl_pc = Registered ''def'' 1\<rparr>) 1 demo_ep2)"
    by (rule dstep.send [OF c]) (simp_all add: run_eval has_endpoint_def demo_defs)
  then show ?thesis unfolding run14_def by (simp add: reach.step [OF reach_run13])
qed

lemma run14_conn: "conns run14 1 = Some run_conn2"
  by (simp add: run_eval)

lemma reach_run15: "reach run15"
  unfolding run15_def
  by (rule reach.step [OF reach_run14 dstep.conn_sel [OF run14_conn]]) (simp add: run_conn2_def)

lemma run15_conn: "conns run15 1 = Some (run_conn2\<lparr>cn_pc := Selected run_req2 (Some 1) run_resp2\<rparr>)"
  by (simp add: run_eval)

lemma reach_run16: "reach run16"
proof -
  have "dstep run15 (conn_record run15 1 (run_conn2\<lparr>cn_pc := Selected run_req2 (Some 1) run_resp2\<rparr>)
          run_req2 (Some 1) run_resp2)"
    by (rule dstep.conn_rec [OF run15_conn]) simp
  moreover have "conn_record run15 1 (run_conn2\<lparr>cn_pc := Selected run_req2 (Some 1) run_resp2\<rparr>)
          run_req2 (Some 1) run_resp2 = run16"
    by (simp add: run16_def conn_record_def set_conn_def run_conn2_def)
  ultimately show ?thesis using reach.step [OF reach_run15] by simp
qed

lemma run16_conn: "conns run16 1 = Some (run_conn2\<lparr>cn_pc := Recorded run_req2 run_resp2\<rparr>)"
  by (simp add: run_eval)

lemma reach_run17: "reach run17"
proof -
  have "dstep run16 (conn_write run16 1 (run_conn2\<lparr>cn_pc := Recorded run_req2 run_resp2\<rparr>) run_req2 run_resp2 demo_date)"
    by (rule dstep.conn_wr [OF run16_conn]) simp
  moreover have "conn_write run16 1 (run_conn2\<lparr>cn_pc := Recorded run_req2 run_resp2\<rparr>) run_req2 run_resp2 demo_date = run17"
    by (simp add: run17_def conn_write_def set_conn_def run_conn2_def)
  ultimately show ?thesis using reach.step [OF reach_run16] by simp
qed

lemma run17_client: "clients run17 2 = Some \<lparr>cl_call = run_call2, cl_pc = Waiting ''def'' 1 run_req2 1\<rparr>"
  by (simp add: run_eval)

lemma run17_conn:
  "conns run17 1 = Some (run_conn2\<lparr>cn_pc := Written run_req2 (write_response demo_date run_resp2)\<rparr>)"
  by (simp add: run_eval)

lemma run_read_wire: "read_wire (write_response demo_date run_resp2) = Some run_rcvd2"
  by (simp add: read_wire_write_response run_rcvd2_def)

lemma reach_run18: "reach run18"
  unfolding run18_def
  by (rule reach.step [OF reach_run17 dstep.receive [where req' = run_req2, OF run17_client _ run17_conn _ run_read_wire]])
     simp_all

lemma run18_client: "clients run18 2 = Some \<lparr>cl_call = run_call2, cl_pc = Received ''def'' 1 run_req2 run_rcvd2\<rparr>"
  by (simp add: run_eval)

lemma reach_run19: "reach run19"
  unfolding run19_def by (rule reach.step [OF reach_run18 dstep.finish [OF run18_client]]) simp

subsection \<open>A retry that lands after the call returned\<close>

text \<open>While thread 1 waits, the same request arrives a second time (a retry or
  a duplicate), as connection 1.  Both connections look the chain up while the
  id is registered; connection 0 answers, thread 1 unregisters, finalises and
  returns; only then does connection 1 append its handling.\<close>

definition dup_conn :: conn where
  "dup_conn = \<lparr>cn_origin = None, cn_ep = demo_ep, cn_pc = Accepted demo_req\<rparr>"

definition late7 :: world where "late7 = accept_request demo6 1 demo_ep demo_req"
definition late8 :: world where "late8 = conn_select late7 1 dup_conn demo_req"
definition late9 :: world where "late9 = conn_record late8 0 demo_conn demo_req (Some 0) demo_resp"
definition late10 :: world where "late10 = conn_write late9 0 demo_conn demo_req demo_resp demo_date"
definition late11 :: world where "late11 = mr_receive late10 1 ''abc'' 0 demo_req demo_rcvd"
definition late12 :: world where "late12 = mr_finish late11 1 ''abc'' 0 demo_req demo_rcvd"
definition late13 :: world where "late13 = conn_record late12 1 dup_conn demo_req (Some 0) demo_resp"

lemmas late_eval = late7_def late8_def late9_def late10_def late11_def late12_def late13_def
  dup_conn_def demo_conn_def demo_eval

lemma reach_late7: "reach late7"
  unfolding late7_def by (rule reach.step [OF reach_demo6 dstep.conn_accept]) (simp_all add: late_eval)

lemma late7_conn: "conns late7 1 = Some dup_conn"
  by (simp add: late7_def accept_request_def dup_conn_def)

lemma reach_late8: "reach late8"
  unfolding late8_def by (rule reach.step [OF reach_late7 dstep.conn_sel [OF late7_conn]]) (simp add: dup_conn_def)

lemma late8_conn0: "conns late8 0 = Some (demo_conn\<lparr>cn_pc := Selected demo_req (Some 0) demo_resp\<rparr>)"
  by (simp add: late_eval)

lemma reach_late9: "reach late9"
proof -
  have "dstep late8 (conn_record late8 0 (demo_conn\<lparr>cn_pc := Selected demo_req (Some 0) demo_resp\<rparr>)
          demo_req (Some 0) demo_resp)"
    by (rule dstep.conn_rec [OF late8_conn0]) simp
  moreover have "conn_record late8 0 (demo_conn\<lparr>cn_pc := Selected demo_req (Some 0) demo_resp\<rparr>)
          demo_req (Some 0) demo_resp = late9"
    by (simp add: late9_def conn_record_def set_conn_def demo_conn_def)
  ultimately show ?thesis using reach.step [OF reach_late8] by simp
qed

lemma late9_conn0: "conns late9 0 = Some (demo_conn\<lparr>cn_pc := Recorded demo_req demo_resp\<rparr>)"
  by (simp add: late_eval)

lemma reach_late10: "reach late10"
proof -
  have "dstep late9 (conn_write late9 0 (demo_conn\<lparr>cn_pc := Recorded demo_req demo_resp\<rparr>) demo_req demo_resp demo_date)"
    by (rule dstep.conn_wr [OF late9_conn0]) simp
  moreover have "conn_write late9 0 (demo_conn\<lparr>cn_pc := Recorded demo_req demo_resp\<rparr>) demo_req demo_resp demo_date = late10"
    by (simp add: late10_def conn_write_def set_conn_def demo_conn_def)
  ultimately show ?thesis using reach.step [OF reach_late9] by simp
qed

lemma late10_client: "clients late10 1 = Some \<lparr>cl_call = demo_call, cl_pc = Waiting ''abc'' 0 demo_req 0\<rparr>"
  by (simp add: late_eval)

lemma late10_conn0:
  "conns late10 0 = Some (demo_conn\<lparr>cn_pc := Written demo_req (write_response demo_date demo_resp)\<rparr>)"
  by (simp add: late_eval)

lemma reach_late11: "reach late11"
  unfolding late11_def
  by (rule reach.step [OF reach_late10 dstep.receive [where req' = demo_req, OF late10_client _ late10_conn0 _ demo_read_wire]])
     simp_all

lemma late11_client: "clients late11 1 = Some \<lparr>cl_call = demo_call, cl_pc = Received ''abc'' 0 demo_req demo_rcvd\<rparr>"
  by (simp add: late_eval)

lemma reach_late12: "reach late12"
  unfolding late12_def by (rule reach.step [OF reach_late11 dstep.finish [OF late11_client]]) simp

lemma late12_conn1: "conns late12 1 = Some (dup_conn\<lparr>cn_pc := Selected demo_req (Some 0) demo_resp\<rparr>)"
  by (simp add: late_eval)

lemma dstep_late13: "dstep late12 late13"
proof -
  have "dstep late12 (conn_record late12 1 (dup_conn\<lparr>cn_pc := Selected demo_req (Some 0) demo_resp\<rparr>)
          demo_req (Some 0) demo_resp)"
    by (rule dstep.conn_rec [OF late12_conn1]) simp
  moreover have "conn_record late12 1 (dup_conn\<lparr>cn_pc := Selected demo_req (Some 0) demo_resp\<rparr>)
          demo_req (Some 0) demo_resp = late13"
    by (simp add: late13_def conn_record_def set_conn_def dup_conn_def)
  ultimately show ?thesis by simp
qed

lemma reach_late13: "reach late13"
  by (rule reach.step [OF reach_late12 dstep_late13])

subsection \<open>The same call with its own header dict\<close>

definition own_call :: call where "own_call = demo_call\<lparr>c_hloc := 1\<rparr>"
definition own_req :: request where "own_req = build_request own_call [(''Request-ID'', ''abc'')]"

definition own2 :: world where "own2 = mr_call (demo1\<lparr>hdicts := (hdicts demo1)(1 \<mapsto> [])\<rparr>) 1 own_call"
definition own3 :: world where "own3 = mr_inject_id own2 1 1 ''abc''"
definition own4 :: world where "own4 = mr_register own3 1 ''abc'' 0 default_handler"
definition own5 :: world where "own5 = mr_send own4 1 ''abc'' 0 own_call 0 demo_ep"

lemmas own_eval = own2_def own3_def own4_def own5_def own_call_def own_req_def demo_eval

lemma reach_own2: "reach own2"
  unfolding own2_def by (rule reach.step [OF reach_demo1 dstep.call_own]) (simp_all add: own_eval)

lemma reach_own3: "reach own3"
proof -
  have c: "clients own2 1 = Some \<lparr>cl_call = own_call, cl_pc = Calling\<rparr>" by (simp add: own2_def mr_call_def)
  have "dstep own2 (mr_inject_id own2 1 (c_hloc (cl_call \<lparr>cl_call = own_call, cl_pc = Calling\<rparr>)) ''abc'')"
    by (rule dstep.inject_id [OF c]) (simp_all add: own_eval)
  then show ?thesis unfolding own3_def by (simp add: own_eval reach.step [OF reach_own2])
qed

lemma reach_own4: "reach own4"
proof -
  have c: "clients own3 1 = Some \<lparr>cl_call = own_call, cl_pc = IdSet ''abc''\<rparr>" by (simp add: own_eval)
  have "dstep own3 (mr_register own3 1 ''abc'' 0 (c_handler (cl_call \<lparr>cl_call = own_call, cl_pc = IdSet ''abc''\<rparr>)))"
    by (rule dstep.register [OF c]) (simp_all add: own_eval)
  then show ?thesis unfolding own4_def by (simp add: own_eval reach.step [OF reach_own3])
qed

lemma reach_own5: "reach own5"
proof -
  have c: "clients own4 1 = Some \<lparr>cl_call = own_call, cl_pc = Registered ''abc'' 0\<rparr>" by (simp add: own_eval)
  have "dstep own4 (mr_send own4 1 ''abc'' 0 (cl_call \<lparr>cl_call = own_call, cl_pc = Registered ''abc'' 0\<rparr>) 0 demo_ep)"
    by (rule dstep.send [OF c]) (simp_all add: own_eval has_endpoint_def)
  then show ?thesis unfolding own5_def by (simp add: reach.step [OF reach_own4])
qed

lemma own5_client: "clients own5 1 = Some \<lparr>cl_call = own_call, cl_pc = Waiting ''abc'' 0 own_req 0\<rparr>"
  by (simp add: own_eval)

subsection \<open>A request that fails\<close>

definition fail_call :: call where
  "fail_call = demo_call\<lparr>c_url := \<lparr>url_addr = (''localhost'', 9999), url_path = ''/abc/123''\<rparr>\<rparr>"

definition fail1 :: world where "fail1 = mr_call demo1 1 fail_call"
definition fail2 :: world where "fail2 = mr_inject_id fail1 1 0 ''abc''"
definition fail3 :: world where "fail3 = mr_register fail2 1 ''abc'' 0 default_handler"
definition fail4 :: world where "fail4 = mr_send_failed fail3 1 ''abc'' 0"

lemmas fail_eval = fail1_def fail2_def fail3_def fail4_def fail_call_def demo_eval

lemma reach_fail1: "reach fail1"
  unfolding fail1_def
  by (rule reach.step [OF reach_demo1 dstep.call_default]) (simp_all add: fail_eval)

lemma reach_fail2: "reach fail2"
proof -
  have c: "clients fail1 1 = Some \<lparr>cl_call = fail_call, cl_pc = Calling\<rparr>" by (simp add: fail1_def mr_call_def)
  have "dstep fail1 (mr_inject_id fail1 1 (c_hloc (cl_call \<lparr>cl_call = fail_call, cl_pc = Calling\<rparr>)) ''abc'')"
    by (rule dstep.inject_id [OF c]) (simp_all add: fail_eval)
  then show ?thesis unfolding fail2_def by (simp add: fail_eval reach.step [OF reach_fail1])
qed

lemma reach_fail3: "reach fail3"
proof -
  have c: "clients fail2 1 = Some \<lparr>cl_call = fail_call, cl_pc = IdSet ''abc''\<rparr>" by (simp add: fail_eval)
  have "dstep fail2 (mr_register fail2 1 ''abc'' 0 (c_handler (cl_call \<lparr>cl_call = fail_call, cl_pc = IdSet ''abc''\<rparr>)))"
    by (rule dstep.register [OF c]) (simp_all add: fail_eval)
  then show ?thesis unfolding fail3_def by (simp add: fail_eval reach.step [OF reach_fail2])
qed

lemma reach_fail4: "reach fail4"
proof -
  have c: "clients fail3 1 = Some \<lparr>cl_call = fail_call, cl_pc = Registered ''abc'' 0\<rparr>" by (simp add: fail_eval)
  show ?thesis unfolding fail4_def
    by (rule reach.step [OF reach_fail3 dstep.send_failed [OF c]]) (simp_all add: fail_eval has_endpoint_def)
qed

lemma fail4_client: "clients fail4 1 = Some \<lparr>cl_call = fail_call, cl_pc = Raised ''abc'' 0 ConnectionError\<rparr>"
  by (simp add: fail_eval)

subsection \<open>Two calls on the shared default dict\<close>

text \<open>Threads 1 and 2 both call \<open>make_request\<close> without a \<open>headers\<close>
  argument, so both write into the one default dict (location 0).  Thread 1
  writes its id \<open>abc\<close> and registers; thread 2 writes \<open>def\<close> over it and
  registers; thread 1 then sends the dict as it is now.\<close>

definition shared_call1 :: call where "shared_call1 = demo_call\<lparr>c_hloc := 0\<rparr>"
definition shared_call2 :: call where "shared_call2 = demo_call\<lparr>c_hloc := 0, c_handler := handler2\<rparr>"

definition sh1 :: world where "sh1 = mr_call demo1 1 shared_call1"
definition sh2 :: world where "sh2 = mr_call sh1 2 shared_call2"
definition sh3 :: world where "sh3 = mr_inject_id sh2 1 0 ''abc''"
definition sh4 :: world where "sh4 = mr_register sh3 1 ''abc'' 0 default_handler"
definition sh5 :: world where "sh5 = mr_inject_id sh4 2 0 ''def''"
definition sh6 :: world where "sh6 = mr_register sh5 2 ''def'' 1 handler2"
definition sh7 :: world where "sh7 = mr_send sh6 1 ''abc'' 0 shared_call1 0 demo_ep"

definition sh_req :: request where
  "sh_req = build_request shared_call1 [(''Request-ID'', ''def'')]"
definition sh_resp :: response where
  "sh_resp = echo_request_id (req_headers sh_req) (handler2 sh_req)"
definition sh_conn :: conn where
  "sh_conn = \<lparr>cn_origin = Some 1, cn_ep = demo_ep, cn_pc = Accepted sh_req\<rparr>"

definition sh8 :: world where "sh8 = conn_select sh7 0 sh_conn sh_req"
definition sh9 :: world where
  "sh9 = conn_record sh8 0 (sh_conn\<lparr>cn_pc := Selected sh_req (Some 1) sh_resp\<rparr>) sh_req (Some 1) sh_resp"

lemmas sh_eval = sh1_def sh2_def sh3_def sh4_def sh5_def sh6_def sh7_def sh8_def sh9_def
  shared_call1_def shared_call2_def sh_req_def sh_resp_def sh_conn_def handler2_def demo_eval

lemma reach_sh1: "reach sh1"
  unfolding sh1_def by (rule reach.step [OF reach_demo1 dstep.call_default]) (simp_all add: sh_eval)

lemma reach_sh2: "reach sh2"
  unfolding sh2_def by (rule reach.step [OF reach_sh1 dstep.call_default]) (simp_all add: sh_eval)

lemma sh2_client1: "clients sh2 1 = Some \<lparr>cl_call = shared_call1, cl_pc = Calling\<rparr>"
  by (simp add: sh1_def sh2_def mr_call_def)

lemma reach_sh3: "reach sh3"
proof -
  have "dstep sh2 (mr_inject_id sh2 1 (c_hloc (cl_call \<lparr>cl_call = shared_call1, cl_pc = Calling\<rparr>)) ''abc'')"
    by (rule dstep.inject_id [OF sh2_client1]) (simp_all add: sh_eval)
  then show ?thesis unfolding sh3_def by (simp add: shared_call1_def reach.step [OF reach_sh2])
qed

lemma sh3_client1: "clients sh3 1 = Some \<lparr>cl_call = shared_call1, cl_pc = IdSet ''abc''\<rparr>"
  by (simp add: sh_eval)

lemma reach_sh4: "reach sh4"
proof -
  have "dstep sh3 (mr_register sh3 1 ''abc'' 0 (c_handler (cl_call \<lparr>cl_call = shared_call1, cl_pc = IdSet ''abc''\<rparr>)))"
    by (rule dstep.register [OF sh3_client1]) (simp_all add: sh_eval)
  then show ?thesis unfolding sh4_def by (simp add: shared_call1_def demo_call_def reach.step [OF reach_sh3])
qed

lemma sh4_client2: "clients sh4 2 = Some \<lparr>cl_call = shared_call2, cl_pc = Calling\<rparr>"
  by (simp add: sh_eval)

lemma reach_sh5: "reach sh5"
proof -
  have "dstep sh4 (mr_inject_id sh4 2 (c_hloc (cl_call \<lparr>cl_call = shared_call2, cl_pc = Calling\<rparr>)) ''def'')"
    by (rule dstep.inject_id [OF sh4_client2]) (simp_all add: sh_eval)
  then show ?thesis unfolding sh5_def by (simp add: shared_call2_def reach.step [OF reach_sh4])
qed

lemma sh5_client2: "clients sh5 2 = Some \<lparr>cl_call = shared_call2, cl_pc = IdSet ''def''\<rparr>"
  by (simp add: sh_eval)

lemma reach_sh6: "reach sh6"
proof -
  have "dstep sh5 (mr_register sh5 2 ''def'' 1 (c_handler (cl_call \<lparr>cl_call = shared_call2, cl_pc = IdSet ''def''\<rparr>)))"
    by (rule dstep.register [OF sh5_client2]) (simp_all add: sh_eval)
  then show ?thesis unfolding sh6_def by (simp add: shared_call2_def reach.step [OF reach_sh5])
qed

lemma sh6_client1: "clients sh6 1 = Some \<lparr>cl_call = shared_call1, cl_pc = Registered ''abc'' 0\<rparr>"
  by (simp add: sh_eval)

lemma reach_sh7: "reach sh7"
proof -
  have "dstep sh6 (mr_send sh6 1 ''abc'' 0 (cl_call \<lparr>cl_call = shared_call1, cl_pc = Registered ''abc'' 0\<rparr>) 0 demo_ep)"
    by (rule dstep.send [OF sh6_client1]) (simp_all add: sh_eval has_endpoint_def)
  then show ?thesis unfolding sh7_def by (simp add: reach.step [OF reach_sh6])
qed

lemma sh7_conn: "conns sh7 0 = Some sh_conn"
  by (simp add: sh_eval)

lemma reach_sh8: "reach sh8"
  unfolding sh8_def
  by (rule reach.step [OF reach_sh7 dstep.conn_sel [OF sh7_conn]]) (simp add: sh_conn_def)

lemma sh8_conn: "conns sh8 0 = Some (sh_conn\<lparr>cn_pc := Selected sh_req (Some 1) sh_resp\<rparr>)"
  by (simp add: sh_eval)

lemma reach_sh9: "reach sh9"
  unfolding sh9_def by (rule reach.step [OF reach_sh8 dstep.conn_rec [OF sh8_conn]]) simp

end
