(* ===== verification/SystemLive.thy ===== *)
theory SystemLive
  imports SystemInv
begin

text \<open>
  Well-formedness of the reachable worlds and progress of \<open>make_request\<close>.
  \<open>wf_inv\<close> says that the references the threads hold are live objects: the
  default header dict exists and every call's dict exists; a waiting call's
  connection exists and was opened by that call; a call that left by an
  exception left by the connection error or by \<open>KeyError\<close> (which
  \<open>core_inv\<close> then excludes); every response on the wire parses; and the sets
  of ids, chains and connections are finite, so fresh ones always exist.  On these the progress lemmas build runs in which a call
  reaches its end.
\<close>

definition conn_wf :: "conn \<Rightarrow> bool" where
  "conn_wf cn = (case cn_pc cn of Written req out \<Rightarrow> read_wire out \<noteq> None | _ \<Rightarrow> True)"

definition pc_wf :: "world \<Rightarrow> nat \<Rightarrow> cpc \<Rightarrow> bool" where
  "pc_wf w t pc =
     (case pc of
        Waiting rid r req cid \<Rightarrow> (case conns w cid of Some cn \<Rightarrow> cn_origin cn = Some t | None \<Rightarrow> False)
      | Raised rid r e \<Rightarrow> e = ConnectionError \<or> e = KeyError
      | _ \<Rightarrow> True)"

definition wf_inv :: "world \<Rightarrow> bool" where
  "wf_inv w \<longleftrightarrow>
     finite (used_ids w) \<and> finite (dom (heap w)) \<and> finite (dom (conns w)) \<and>
     hdicts w 0 \<noteq> None \<and>
     (\<forall>t cl. clients w t = Some cl \<longrightarrow>
        hdicts w (c_hloc (cl_call cl)) \<noteq> None \<and> pc_wf w t (cl_pc cl)) \<and>
     (\<forall>cid cn. conns w cid = Some cn \<longrightarrow> conn_wf cn)"

text \<open>A call finished: returned, or left by the connection error.\<close>

fun call_done :: "cpc \<Rightarrow> bool" where
  "call_done (Returned rid r req resp) = True"
| "call_done (Raised rid r e) = (e = ConnectionError)"
| "call_done _ = False"

subsection \<open>The invariant\<close>

lemma pc_wf_simps [simp]:
  "pc_wf w t (Waiting rid r req cid) \<longleftrightarrow> (\<exists>cn. conns w cid = Some cn \<and> cn_origin cn = Some t)"
  "pc_wf w t Calling" "pc_wf w t (IdSet rid)" "pc_wf w t (Registered rid r)"
  "pc_wf w t (Received rid r req resp)" "pc_wf w t (Returned rid r req resp)"
  "pc_wf w t (Raised rid r e) \<longleftrightarrow> e = ConnectionError \<or> e = KeyError"
  by (simp_all add: pc_wf_def split: option.split)

lemma pc_wf_cong: "conns w' = conns w \<Longrightarrow> pc_wf w' = pc_wf w"
  by (simp add: pc_wf_def fun_eq_iff split: cpc.split)

lemma pc_wf_set_pc [simp]: "pc_wf (set_pc w t pc) = pc_wf w"
  by (rule pc_wf_cong) simp

lemma pc_wf_if:
  "pc_wf w t' p \<Longrightarrow> pc_wf w t pc \<Longrightarrow> q = (if t' = t then pc else p) \<Longrightarrow>
   pc_wf w t' q"
  by (cases "t' = t") simp_all

lemma wf_invI:
  assumes "finite (used_ids w)" "finite (dom (heap w))" "finite (dom (conns w))" "hdicts w 0 \<noteq> None"
    "\<And>t cl. clients w t = Some cl \<Longrightarrow> hdicts w (c_hloc (cl_call cl)) \<noteq> None"
    "\<And>t cl. clients w t = Some cl \<Longrightarrow> pc_wf w t (cl_pc cl)"
    "\<And>cid cn. conns w cid = Some cn \<Longrightarrow> conn_wf cn"
  shows "wf_inv w"
  using assms by (simp add: wf_inv_def)

lemma wf_invD:
  assumes "wf_inv w"
  shows "finite (used_ids w)" "finite (dom (heap w))" "finite (dom (conns w))" "hdicts w 0 \<noteq> None"
    "clients w t = Some cl \<Longrightarrow> hdicts w (c_hloc (cl_call cl)) \<noteq> None"
    "clients w t = Some cl \<Longrightarrow> pc_wf w t (cl_pc cl)"
    "conns w cid = Some cn \<Longrightarrow> conn_wf cn"
  using assms by (simp_all add: wf_inv_def)

lemma wf_inv_init: "wf_inv init_world"
  by (simp add: wf_inv_def init_world_def)

lemma clients_set_pc_SomeE:
  assumes "clients (set_pc w t pc) t' = Some cl'"
  obtains cl where "clients w t' = Some cl" "cl_call cl' = cl_call cl"
    "cl_pc cl' = (if t' = t then pc else cl_pc cl)"
  using assms by (cases "t' = t") (auto simp: set_pc_def)

lemma wf_inv_set_pc:
  assumes "wf_inv w" "pc_wf w t pc"
  shows "wf_inv (set_pc w t pc)"
proof (rule wf_invI)
  fix t' cl' assume "clients (set_pc w t pc) t' = Some cl'"
  then obtain cl where cl: "clients w t' = Some cl" "cl_call cl' = cl_call cl"
      "cl_pc cl' = (if t' = t then pc else cl_pc cl)"
    by (rule clients_set_pc_SomeE)
  show "hdicts (set_pc w t pc) (c_hloc (cl_call cl')) \<noteq> None"
    using wf_invD(5) [OF assms(1) cl(1)] cl(2) by simp
  have "pc_wf w t' (cl_pc cl')"
    by (rule pc_wf_if [OF wf_invD(6) [OF assms(1) cl(1)] assms(2) cl(3)])
  then show "pc_wf (set_pc w t pc) t' (cl_pc cl')"
    by simp
next
  fix cid cn assume "conns (set_pc w t pc) cid = Some cn"
  then have "conns w cid = Some cn" by simp
  then show "conn_wf cn" by (rule wf_invD(7) [OF assms(1)])
next
  show "finite (used_ids (set_pc w t pc))" "finite (dom (heap (set_pc w t pc)))"
    "finite (dom (conns (set_pc w t pc)))" "hdicts (set_pc w t pc) 0 \<noteq> None"
    using wf_invD(1-4) [OF assms(1)] by simp_all
qed

lemma pc_wf_fields [simp]:
  "pc_wf (w\<lparr>heap := h\<rparr>) = pc_wf w" "pc_wf (w\<lparr>hdicts := d\<rparr>) = pc_wf w"
  "pc_wf (w\<lparr>used_ids := u\<rparr>) = pc_wf w"
  "pc_wf (w\<lparr>message_chains := m\<rparr>) = pc_wf w"
  "pc_wf (w\<lparr>clients := c\<rparr>) = pc_wf w"
  "pc_wf (w\<lparr>endpoints := e\<rparr>) = pc_wf w" "pc_wf (w\<lparr>bound := b\<rparr>) = pc_wf w"
  by (rule pc_wf_cong, simp)+

lemma pc_wf_set_conn:
  "conns w cid = Some cn \<Longrightarrow> pc_wf (set_conn w cid cn pc) = pc_wf w"
  by (simp add: pc_wf_def fun_eq_iff split: cpc.split option.split)

lemma pc_wf_new_conn:
  "conns w cid = None \<Longrightarrow> pc_wf w t pc \<Longrightarrow> pc_wf (w\<lparr>conns := (conns w)(cid \<mapsto> cn)\<rparr>) t pc"
  by (cases pc) auto

lemma wf_inv_fields:
  "wf_inv (w\<lparr>message_chains := m\<rparr>) = wf_inv w"
  "wf_inv w \<Longrightarrow> finite (dom h) \<Longrightarrow> wf_inv (w\<lparr>heap := h\<rparr>)"
  "wf_inv w \<Longrightarrow> wf_inv (w\<lparr>hdicts := (hdicts w)(loc \<mapsto> hs)\<rparr>)"
  "wf_inv w \<Longrightarrow> wf_inv (w\<lparr>used_ids := insert rid (used_ids w)\<rparr>)"
  by (auto simp: wf_inv_def)

lemma wf_inv_set_conn:
  assumes "wf_inv w" "conns w cid = Some cn" "conn_wf (cn\<lparr>cn_pc := pc\<rparr>)"
  shows "wf_inv (set_conn w cid cn pc)"
proof -
  have "dom (conns (set_conn w cid cn pc)) = dom (conns w)" using assms(2) by auto
  then show ?thesis using assms wf_invD [OF assms(1)]
    unfolding wf_inv_def pc_wf_set_conn [OF assms(2)] by auto
qed

lemma wf_inv_new_conn:
  assumes "wf_inv w" "conns w cid = None" "conn_wf cn"
  shows "wf_inv (w\<lparr>conns := (conns w)(cid \<mapsto> cn)\<rparr>)"
  using assms unfolding wf_inv_def by (auto intro: pc_wf_new_conn)

lemma wf_inv_mr_call:
  "wf_inv w \<Longrightarrow> hdicts w (c_hloc c) \<noteq> None \<Longrightarrow> wf_inv (mr_call w t c)"
  unfolding wf_inv_def mr_call_def by auto

lemma dom_record_handling [simp]: "dom (record_handling h mc x) = dom h"
  by (cases mc) (auto simp: record_handling_def)

lemma wf_inv_step: "dstep w w' \<Longrightarrow> wf_inv w \<Longrightarrow> wf_inv w'"
proof (induction rule: dstep.induct)
  case (call_default w t c)
  then show ?case by (intro wf_inv_mr_call) (simp_all add: wf_invD(4))
next
  case (call_own w t loc hs c)
  then show ?case by (intro wf_inv_mr_call wf_inv_fields(3)) simp_all
next
  case (inject_id w t cl rid)
  have "wf_inv (w\<lparr>hdicts := (hdicts w)(c_hloc (cl_call cl) \<mapsto> dict_set (the (hdicts w (c_hloc (cl_call cl))))
                   request_id_header_name rid), used_ids := insert rid (used_ids w)\<rparr>)"
    using wf_inv_fields(4) [OF wf_inv_fields(3) [OF inject_id.prems]] by simp
  then show ?case unfolding mr_inject_id_def by (rule wf_inv_set_pc) simp
next
  case (register w t cl rid r)
  have "wf_inv (w\<lparr>heap := (heap w)(r \<mapsto> new_message_chain (c_handler (cl_call cl)))\<rparr>)"
    by (rule wf_inv_fields(2) [OF register.prems]) (simp add: wf_invD(2) [OF register.prems])
  then show ?case unfolding mr_register_def add_message_chain_def
    by (intro wf_inv_set_pc) (simp_all add: wf_inv_fields(1))
next
  case (send w t cl rid r ep cid)
  then show ?case unfolding mr_send_def Let_def
    by (intro wf_inv_set_pc wf_inv_new_conn) (simp_all add: conn_wf_def)
next
  case (send_failed w t cl rid r)
  then show ?case unfolding mr_send_failed_def by (intro wf_inv_set_pc) simp_all
next
  case (receive w t cl rid r req cid cn req' out resp)
  then show ?case unfolding mr_receive_def del_message_chain_def
    by (simp add: wf_inv_set_pc wf_inv_fields(1))
next
  case (finish w t cl rid r req resp)
  have "wf_inv (w\<lparr>heap := (heap w)(r := map_option (finish_message_chain req resp) (heap w r))\<rparr>)"
    by (rule wf_inv_fields(2) [OF finish.prems])
       (simp add: dom_map_option_upd wf_invD(2) [OF finish.prems])
  then show ?case unfolding mr_finish_def by (rule wf_inv_set_pc) simp
next
  case (conn_accept w cid ep req)
  then show ?case unfolding accept_request_def by (intro wf_inv_new_conn) (simp_all add: conn_wf_def)
next
  case (conn_sel w cid cn req)
  then show ?case unfolding conn_select_def
    by (simp add: wf_inv_set_conn conn_wf_def split: prod.split)
next
  case (conn_rec w cid cn req mc resp)
  have "wf_inv (w\<lparr>heap := record_handling (heap w) mc \<lparr>h_endpoint = cn_ep cn, h_request = req, h_response = resp\<rparr>\<rparr>)"
    by (rule wf_inv_fields(2) [OF conn_rec.prems]) (simp add: wf_invD(2) [OF conn_rec.prems])
  then show ?case unfolding conn_record_def
    by (rule wf_inv_set_conn) (simp_all add: conn_rec.hyps conn_wf_def)
next
  case (conn_wr w cid cn req resp date)
  then show ?case unfolding conn_write_def
    by (intro wf_inv_set_conn) (simp_all add: conn_wf_def read_wire_write_response)
next
  case (add_ep w a res)
  then show ?case
    by (cases res) (auto simp: sys_add_endpoint_def add_endpoint_Inr wf_inv_def)
qed

lemma reach_wf_inv: "reach w \<Longrightarrow> wf_inv w"
  by (induction rule: reach.induct) (auto intro: wf_inv_init wf_inv_step)

subsection \<open>Progress of a connection\<close>

text \<open>A connection thread, run on its own, writes its response: from any of its
  states a run of its own steps (\<open>conn_sel\<close>, \<open>conn_rec\<close>, \<open>conn_wr\<close>)
  reaches \<open>Written\<close> with bytes the client can parse, and changes neither
  the calls nor the registry.\<close>

lemma conn_written_from_recorded:
  assumes "conns w cid = Some cn" "cn_pc cn = Recorded req resp"
  shows "\<exists>w' cn' req' out. dstep\<^sup>*\<^sup>* w w' \<and> clients w' = clients w \<and>
           message_chains w' = message_chains w \<and> conns w' cid = Some cn' \<and>
           cn_pc cn' = Written req' out \<and> read_wire out \<noteq> None"
proof -
  let ?w = "conn_write w cid cn req resp []"
  have "dstep w ?w" by (rule dstep.conn_wr [OF assms])
  then show ?thesis
    by (intro exI [of _ ?w]) (auto simp: conn_write_def read_wire_write_response)
qed

lemma conn_written_from_selected:
  assumes "conns w cid = Some cn" "cn_pc cn = Selected req mc resp"
  shows "\<exists>w' cn' req' out. dstep\<^sup>*\<^sup>* w w' \<and> clients w' = clients w \<and>
           message_chains w' = message_chains w \<and> conns w' cid = Some cn' \<and>
           cn_pc cn' = Written req' out \<and> read_wire out \<noteq> None"
proof -
  let ?w = "conn_record w cid cn req mc resp"
  have step: "dstep w ?w" by (rule dstep.conn_rec [OF assms])
  have "conns ?w cid = Some (cn\<lparr>cn_pc := Recorded req resp\<rparr>)" by (simp add: conn_record_def)
  from conn_written_from_recorded [OF this] obtain w' cn' req' out where
    "dstep\<^sup>*\<^sup>* ?w w'" "clients w' = clients ?w" "message_chains w' = message_chains ?w"
    "conns w' cid = Some cn'" "cn_pc cn' = Written req' out" "read_wire out \<noteq> None"
    by auto
  with step show ?thesis
    by (intro exI [of _ w']) (auto simp: conn_record_def intro: converse_rtranclp_into_rtranclp)
qed

lemma conn_written_from_accepted:
  assumes "conns w cid = Some cn" "cn_pc cn = Accepted req"
  shows "\<exists>w' cn' req' out. dstep\<^sup>*\<^sup>* w w' \<and> clients w' = clients w \<and>
           message_chains w' = message_chains w \<and> conns w' cid = Some cn' \<and>
           cn_pc cn' = Written req' out \<and> read_wire out \<noteq> None"
proof -
  obtain f mc where sel: "select_handler w (heap w) (req_headers req) = (f, mc)" by fastforce
  let ?w = "conn_select w cid cn req"
  have step: "dstep w ?w" by (rule dstep.conn_sel [OF assms])
  have w: "?w = set_conn w cid cn (Selected req mc (echo_request_id (req_headers req) (f req)))"
    by (simp add: conn_select_def sel)
  have "conns ?w cid = Some (cn\<lparr>cn_pc := Selected req mc (echo_request_id (req_headers req) (f req))\<rparr>)"
    by (simp add: w)
  from conn_written_from_selected [OF this] obtain w' cn' req' out where
    "dstep\<^sup>*\<^sup>* ?w w'" "clients w' = clients ?w" "message_chains w' = message_chains ?w"
    "conns w' cid = Some cn'" "cn_pc cn' = Written req' out" "read_wire out \<noteq> None"
    by auto
  with step show ?thesis
    by (intro exI [of _ w']) (auto simp: w intro: converse_rtranclp_into_rtranclp)
qed

lemma conn_written:
  assumes "conns w cid = Some cn" "conn_wf cn"
  shows "\<exists>w' cn' req' out. dstep\<^sup>*\<^sup>* w w' \<and> clients w' = clients w \<and>
           message_chains w' = message_chains w \<and> conns w' cid = Some cn' \<and>
           cn_pc cn' = Written req' out \<and> read_wire out \<noteq> None"
proof (cases "cn_pc cn")
  case (Accepted req)
  then show ?thesis using conn_written_from_accepted [OF assms(1)] by blast
next
  case (Selected req mc resp)
  then show ?thesis using conn_written_from_selected [OF assms(1)] by blast
next
  case (Recorded req resp)
  then show ?thesis using conn_written_from_recorded [OF assms(1)] by blast
next
  case (Written req out)
  then show ?thesis using assms by (intro exI [of _ w]) (auto simp: conn_wf_def)
qed

subsection \<open>Progress of a call\<close>

text \<open>A waiting call returns: its connection writes the response, the call
  reads it, unregisters its id (which is registered, so \<open>del\<close> does not raise)
  and finalises its record.\<close>

lemma waiting_returns:
  assumes "reach w" "clients w t = Some cl" "cl_pc cl = Waiting rid r req cid"
  shows "\<exists>w' resp mc. dstep\<^sup>*\<^sup>* w w' \<and> clients w' t = Some (cl\<lparr>cl_pc := Returned rid r req resp\<rparr>) \<and>
           message_chains w' rid = None \<and> heap w' r = Some mc \<and>
           sent_request mc = Some req \<and> received_response mc = Some resp"
proof -
  have wf: "wf_inv w" by (rule reach_wf_inv [OF assms(1)])
  from wf_invD(6) [OF wf assms(2)] assms(3) obtain cn where cn: "conns w cid = Some cn" by auto
  from conn_written [OF cn wf_invD(7) [OF wf cn]] obtain w1 cn' req' out where
    w1: "dstep\<^sup>*\<^sup>* w w1" "clients w1 = clients w" "message_chains w1 = message_chains w"
      "conns w1 cid = Some cn'" "cn_pc cn' = Written req' out" "read_wire out \<noteq> None"
    by blast
  then obtain resp where resp: "read_wire out = Some resp" by auto
  have reg: "message_chains w rid = Some r"
    by (rule holds_registered [OF assms(1,2)]) (simp_all add: assms(3))
  have cl1: "clients w1 t = Some cl" by (simp add: w1(2) assms(2))
  let ?w2 = "mr_receive w1 t rid r req resp"
  have s2: "dstep w1 ?w2" by (rule dstep.receive [OF cl1 assms(3) w1(4,5) resp])
  have c2: "clients ?w2 t = Some (cl\<lparr>cl_pc := Received rid r req resp\<rparr>)" "message_chains ?w2 rid = None"
    using reg by (simp_all add: mr_receive_def del_message_chain_def w1(2,3) assms(2) set_pc_def domI)
  let ?w3 = "mr_finish ?w2 t rid r req resp"
  have s3: "dstep ?w2 ?w3" by (rule dstep.finish [OF c2(1)]) simp
  have run: "dstep\<^sup>*\<^sup>* w ?w2" using w1(1) s2 by (meson rtranclp.rtrancl_into_rtrancl)
  have "client_ref ?w2 t = Some r" by (simp add: client_pc_maps [OF c2(1)])
  from core_inv_ref_alloc [OF reach_core_inv [OF reach_steps [OF run assms(1)]] this]
  obtain mc where mc: "heap ?w2 r = Some mc" by auto
  have "clients ?w3 t = Some (cl\<lparr>cl_pc := Returned rid r req resp\<rparr>)" "message_chains ?w3 rid = None"
    "heap ?w3 r = Some (finish_message_chain req resp mc)"
    using c2 mc by (simp_all add: mr_finish_def clients_set_pc)
  moreover have "dstep\<^sup>*\<^sup>* w ?w3" using run s3 by (meson rtranclp.rtrancl_into_rtrancl)
  ultimately show ?thesis by (auto simp: finish_message_chain_def)
qed

text \<open>Every call ends: from any reachable state, a run of steps of the call's
  own thread and of the connection it opened brings it to \<open>Returned\<close> or to
  the connection error (fresh ids, references and connection numbers exist since
  the sets in use are finite).\<close>

lemma call_ends_from_registered:
  assumes "reach w" "clients w t = Some cl" "cl_pc cl = Registered rid r"
  shows "\<exists>w' cl'. dstep\<^sup>*\<^sup>* w w' \<and> clients w' t = Some cl' \<and> cl_call cl' = cl_call cl \<and> call_done (cl_pc cl')"
proof (cases "has_endpoint w (url_addr (c_url (cl_call cl)))")
  case None
  let ?w = "mr_send_failed w t rid r"
  have "dstep w ?w" by (rule dstep.send_failed [OF assms(2,3) None])
  moreover have "clients ?w t = Some (cl\<lparr>cl_pc := Raised rid r ConnectionError\<rparr>)"
    by (simp add: mr_send_failed_def clients_set_pc [OF assms(2)])
  ultimately show ?thesis
    by (intro exI [of _ ?w] exI [of _ "cl\<lparr>cl_pc := Raised rid r ConnectionError\<rparr>"]) auto
next
  case (Some ep)
  obtain cid where cid: "conns w cid = None"
    using ex_new_if_finite [OF infinite_UNIV_nat wf_invD(3) [OF reach_wf_inv [OF assms(1)]]] by auto
  let ?req = "build_request (cl_call cl) (the (hdicts w (c_hloc (cl_call cl))))"
  let ?w = "mr_send w t rid r (cl_call cl) cid ep"
  have s: "dstep w ?w" by (rule dstep.send [OF assms(2,3) Some cid])
  have c: "clients ?w t = Some (cl\<lparr>cl_pc := Waiting rid r ?req cid\<rparr>)"
    by (simp add: mr_send_def Let_def set_pc_def assms(2))
  from waiting_returns [OF reach.step [OF assms(1) s] c] obtain w' resp mc where
    "dstep\<^sup>*\<^sup>* ?w w'" "clients w' t = Some (cl\<lparr>cl_pc := Returned rid r ?req resp\<rparr>)"
    by auto
  with s show ?thesis
    by (intro exI [of _ w'] exI [of _ "cl\<lparr>cl_pc := Returned rid r ?req resp\<rparr>"])
       (auto intro: converse_rtranclp_into_rtranclp)
qed

lemma call_ends_from_idset:
  assumes "reach w" "clients w t = Some cl" "cl_pc cl = IdSet rid"
  shows "\<exists>w' cl'. dstep\<^sup>*\<^sup>* w w' \<and> clients w' t = Some cl' \<and> cl_call cl' = cl_call cl \<and> call_done (cl_pc cl')"
proof -
  obtain r where r: "heap w r = None"
    using ex_new_if_finite [OF infinite_UNIV_nat wf_invD(2) [OF reach_wf_inv [OF assms(1)]]] by auto
  let ?w = "mr_register w t rid r (c_handler (cl_call cl))"
  have s: "dstep w ?w" by (rule dstep.register [OF assms(2,3) r])
  have "clients ?w t = Some (cl\<lparr>cl_pc := Registered rid r\<rparr>)"
    by (simp add: mr_register_def add_message_chain_def set_pc_def assms(2))
  from call_ends_from_registered [OF reach.step [OF assms(1) s] this] obtain w' cl' where
    "dstep\<^sup>*\<^sup>* ?w w'" "clients w' t = Some cl'" "cl_call cl' = cl_call cl" "call_done (cl_pc cl')"
    by auto
  with s show ?thesis by (blast intro: converse_rtranclp_into_rtranclp)
qed

lemma call_ends_from_calling:
  assumes "reach w" "clients w t = Some cl" "cl_pc cl = Calling"
  shows "\<exists>w' cl'. dstep\<^sup>*\<^sup>* w w' \<and> clients w' t = Some cl' \<and> cl_call cl' = cl_call cl \<and> call_done (cl_pc cl')"
proof -
  obtain rid where rid: "rid \<notin> used_ids w"
    using ex_new_if_finite [OF infinite_UNIV_listI wf_invD(1) [OF reach_wf_inv [OF assms(1)]]] by auto
  let ?w = "mr_inject_id w t (c_hloc (cl_call cl)) rid"
  have s: "dstep w ?w" by (rule dstep.inject_id [OF assms(2,3) rid])
  have "clients ?w t = Some (cl\<lparr>cl_pc := IdSet rid\<rparr>)"
    by (simp add: mr_inject_id_def set_pc_def assms(2))
  from call_ends_from_idset [OF reach.step [OF assms(1) s] this] obtain w' cl' where
    "dstep\<^sup>*\<^sup>* ?w w'" "clients w' t = Some cl'" "cl_call cl' = cl_call cl" "call_done (cl_pc cl')"
    by auto
  with s show ?thesis by (blast intro: converse_rtranclp_into_rtranclp)
qed

end
