(* ===== verification/Printing.thy ===== *)
theory Printing
  imports MessageChain
begin

text \<open>
  The console output of deproxy.py lines 189--218: \<open>print_request\<close>,
  \<open>print_response\<close> and \<open>print_message_chain\<close>, as the list of lines they
  print.  A \<open>print\<close> statement is one line; \<open>'%s' % x\<close> of a string is the
  string, of an int its decimal digits.  The result records whether the
  function returned or raised: \<open>print_request(None, ...)\<close> prints the heading
  and then raises \<open>AttributeError\<close> at \<open>request.method\<close>, and so does
  \<open>print_response(None, ...)\<close>.  In \<open>print_message_chain\<close> the
  arguments \<open>mc.sent_request\<close> and \<open>mc.received_response\<close> are evaluated
  first: \<open>MessageChain.__init__\<close> does not create these attributes, so until
  \<open>make_request\<close> sets them (the model's \<open>None\<close>) the access itself raises
  \<open>AttributeError\<close> and the block's heading is not printed.  The inbound
  request's body is the body string of the model, where the code holds the
  file object \<open>rfile\<close> and prints its repr.  \<open>.items()\<close> of a header object is a
  parameter: a dict's entries, or for the inbound rfc822 object the entries
  of its dictionary (\<open>msg_items\<close>); Python 2 iterates a dict in hash order,
  so the order of the header lines is a choice of the model.
\<close>

type_synonym items = "headers \<Rightarrow> headers"

text \<open>The lines printed, and whether the call returned normally (\<open>False\<close>:
  \<open>AttributeError\<close> on \<open>None\<close>).\<close>

type_synonym printed = "string list \<times> bool"

definition digit :: "nat \<Rightarrow> char" where
  "digit d = ''0123456789'' ! d"

fun str_nat :: "nat \<Rightarrow> string" where
  "str_nat n = (if n < 10 then [digit n] else str_nat (n div 10) @ [digit (n mod 10)])"

definition str_int :: "int \<Rightarrow> string" where
  "str_int i = (if i < 0 then CHR ''-'' # str_nat (nat (- i)) else str_nat (nat i))"

text \<open>\<open>if heading: print heading\<close>: \<open>None\<close> and the empty string are false.\<close>

definition heading_lines :: "string option \<Rightarrow> string list" where
  "heading_lines heading = (case heading of None \<Rightarrow> [] | Some h \<Rightarrow> if h = [] then [] else [h])"

definition header_lines :: "headers \<Rightarrow> string list" where
  "header_lines hs = map (\<lambda>(name, value). ''        '' @ name @ '': '' @ value) hs"

definition print_request :: "items \<Rightarrow> request option \<Rightarrow> string option \<Rightarrow> printed" where
  "print_request items rq heading =
     (case rq of
        None \<Rightarrow> (heading_lines heading, False)
      | Some request \<Rightarrow>
          (heading_lines heading @
           [''    method: '' @ req_method request, ''    path: '' @ req_path request, ''    headers:''] @
           header_lines (items (req_headers request)) @
           [''    body: '' @ req_body request, ''''], True))"

definition print_response :: "items \<Rightarrow> response option \<Rightarrow> string option \<Rightarrow> printed" where
  "print_response items rs heading =
     (case rs of
        None \<Rightarrow> (heading_lines heading, False)
      | Some response \<Rightarrow>
          (heading_lines heading @
           [''    status code: '' @ str_int (resp_code response), ''    message: '' @ resp_message response,
            ''    Headers: ''] @
           header_lines (items (resp_headers response)) @
           [''    Body:'', resp_body response], True))"

text \<open>Statements in sequence: the second runs only when the first returned.\<close>

definition then_print :: "printed \<Rightarrow> printed \<Rightarrow> printed" where
  "then_print p q = (if snd p then (fst p @ fst q, snd q) else p)"

text \<open>\<open>.items()\<close> of a dict (an association list with distinct keys) and of the
  inbound header object (rfc822: the lower-cased names of its dictionary).\<close>

definition dict_items :: items where
  "dict_items hs = hs"

definition msg_items :: items where
  "msg_items hs = map (\<lambda>k. (k, the (msg_dict hs k))) (remdups (map (\<lambda>(k, v). lower k) hs))"

primrec print_handlings :: "handling list \<Rightarrow> printed" where
  "print_handlings [] = ([], True)"
| "print_handlings (h # hs) =
     then_print (print_request msg_items (Some (h_request h)) (Some ''  Received Request''))
       (then_print (print_response dict_items (Some (h_response h)) (Some ''  Sent Response''))
          (print_handlings hs))"

definition print_message_chain :: "message_chain \<Rightarrow> string option \<Rightarrow> printed" where
  "print_message_chain mc heading =
     then_print (heading_lines heading, True)
       (case sent_request mc of
          None \<Rightarrow> ([], False)
        | Some rq \<Rightarrow>
            then_print (print_request dict_items (Some rq) (Some ''Sent Request''))
              (then_print (print_handlings (handlings mc))
                 (case received_response mc of
                    None \<Rightarrow> ([], False)
                  | Some rs \<Rightarrow> print_response dict_items (Some rs) (Some ''Received Response''))))"

lemma then_print_ok [simp]: "snd (then_print p q) \<longleftrightarrow> snd p \<and> snd q"
  by (simp add: then_print_def)

lemma print_request_ok [simp]: "snd (print_request items rq heading) \<longleftrightarrow> rq \<noteq> None"
  by (simp add: print_request_def split: option.split)

lemma print_response_ok [simp]: "snd (print_response items rs heading) \<longleftrightarrow> rs \<noteq> None"
  by (simp add: print_response_def split: option.split)

lemma print_handlings_ok [simp]: "snd (print_handlings hs)"
  by (induction hs) simp_all

lemma print_message_chain_ok:
  "snd (print_message_chain mc heading) \<longleftrightarrow> sent_request mc \<noteq> None \<and> received_response mc \<noteq> None"
  by (simp add: print_message_chain_def split: option.split)

end
