(* ===== verification/Spec2Isabelle.thy ===== *)
theory Spec2Isabelle
  imports Scenarios SystemLive Printing
begin

text \<open>
  \<^bold>\<open>A verification development for deproxy\<close> (src/deproxy.py, Python 2).

  \<^emph>\<open>The program.\<close>  deproxy is an HTTP test double.  A \<open>Deproxy\<close> object owns
  listening endpoints (\<open>DeproxyEndpoint\<close>, a threading BaseHTTPServer) and a
  registry \<open>_message_chains\<close> from request ids to conversation records
  (\<open>MessageChain\<close>).  \<open>Deproxy.make_request\<close> generates an id, writes it into
  the header dict it was given, registers a new \<open>MessageChain\<close> under it,
  sends the request with the requests library, unregisters the id when the
  response arrives, and returns the chain with the sent request and the
  received response.  Each connection an endpoint accepts runs
  \<open>DeproxyRequestHandler.handle_one_request\<close> in its own thread: it parses the
  request, looks its \<open>Request-ID\<close> header up in the registry, runs the chain's
  handler (or \<open>default_handler\<close>), echoes the id onto the response, appends a
  \<open>Handling\<close> to the chain and writes the response.

  \<^emph>\<open>Theories and what they model.\<close>
  \<^item> Prelude: the \<open>deproxy_simps\<close> collection, header and address types,
    ASCII case folding (\<open>str.lower\<close>), facts on association lists and maps.
  \<^item> Http: lines 14--32: records \<open>request\<close>, \<open>response\<close>, \<open>handling\<close>;
    \<open>default_handler\<close>, \<open>handler2\<close>, \<open>request_id_header_name\<close>; the inbound
    header object (\<open>msg_has\<close>, \<open>msg_get\<close>: case-insensitive, last occurrence)
    and dict assignment \<open>dict_set\<close> (exact key, \<open>AList.update\<close>); the
    dictionary rfc822's \<open>readheaders\<close> builds (\<open>msg_dict\<close>: lower-cased names,
    later lines overwrite earlier ones).
  \<^item> MessageChain: lines 34--42 and 68--69: record \<open>message_chain\<close>,
    \<open>new_message_chain\<close>, \<open>add_handling\<close>, \<open>finish_message_chain\<close>.
  \<^item> Registry: lines 44--49, 80--93: record \<open>deproxy\<close> (registry and endpoint
    list), \<open>add_message_chain\<close>, \<open>del_message_chain\<close> (\<open>KeyError\<close> as \<open>Inl\<close>),
    \<open>get_message_chain\<close>; the spec's registry contract \<open>reg_register\<close>,
    \<open>reg_unregister\<close> beside them.
  \<^item> Endpoint: lines 45--51, 73--78, 96--107: \<open>deproxy_init\<close>,
    \<open>add_endpoint\<close>, \<open>deproxy_endpoint_init\<close> against an explicit table of
    bound addresses (\<open>socket.error\<close> when taken).
  \<^item> Wire: the library code \<open>handle_one_request\<close> calls, modelled from its
    documented behaviour (not under src/): \<open>readline\<close> with its limit, on a
    connection the peer closes or resets, \<open>parse_request\<close>, the header reader \<open>read_headers\<close>,
    \<open>send_response\<close> (adds \<open>Server\<close> and \<open>Date\<close>), \<open>send_error\<close>,
    \<open>write_response\<close>, the client's reader \<open>read_wire\<close> and writer
    \<open>write_request\<close>, with the conditions \<open>wf_request\<close> under which the
    server reads a written request back.
  \<^item> RequestHandler: lines 131--187: \<open>select_handler\<close> (157--163),
    \<open>echo_request_id\<close> (167--168), \<open>record_handling\<close> (172--173),
    \<open>serve_request\<close> (155--181) and the whole \<open>handle_one_request\<close> on a byte
    string, every early return and the read error of a reset peer included;
    \<open>instantiate\<close>
    (109--111) and \<open>__init__\<close>/\<open>handle\<close> (123--129) as \<open>deproxy_handle\<close>
    over BaseHTTPServer's loop \<open>handle_loop\<close>.
  \<^item> System: lines 53--71 and 113--187 as a concurrent system.  State
    \<open>world\<close>: the registry, the heap of \<open>MessageChain\<close> objects by reference,
    the heap of header dicts (location 0 is the shared default argument
    \<open>headers={}\<close>), the socket table, the client threads (\<open>cpc\<close>: a program
    counter of \<open>make_request\<close>) and the connection threads (\<open>spc\<close>).  Steps
    (\<open>mr_call\<close>, \<open>mr_inject_id\<close>, \<open>mr_register\<close>, \<open>mr_send\<close>,
    \<open>mr_send_failed\<close>, \<open>mr_receive\<close>, \<open>mr_finish\<close>, \<open>accept_request\<close>,
    \<open>conn_select\<close>, \<open>conn_record\<close>, \<open>conn_write\<close>, \<open>sys_add_endpoint\<close>) are
    cut at the code's locks and I/O; the inductive relation \<open>dstep\<close> lets any
    thread move, and \<open>reach\<close> is the set of reachable worlds.
  \<^item> SystemInv: \<open>core_inv\<close> (ids fresh and distinct, chains allocated and
    distinct, registry = the ids of the calls in flight, no \<open>KeyError\<close>).
    SystemTag: \<open>tag_inv\<close> (every recorded handling carries its chain owner's
    id).  SystemDict: \<open>dict_inv\<close> (a caller's own dict is private and holds
    its id).  SystemChain: \<open>fin_inv\<close> (every chain has an owner; its
    \<open>sent_request\<close> and \<open>received_response\<close> are set exactly when the owner
    has returned), \<open>handlings_grow\<close> (each step only appends to
    handlings) and \<open>hand_inv\<close> (each handling is its record's own handler's
    response).  SystemLive: \<open>wf_inv\<close> (live dicts, a waiting call's
    connection exists and is its own, raised errors are the connection error or
    \<open>KeyError\<close>, written bytes parse, finitely many ids, chains and
    connections) and the progress lemmas: a connection reaches \<open>Written\<close>
    (\<open>conn_written\<close>), a waiting call returns (\<open>waiting_returns\<close>), a call
    in any state ends (\<open>call_ends_from_calling\<close> and the lemmas it builds
    on).  Each invariant is proved for every step, then for \<open>reach\<close> by rule
    induction; progress is a run \<open>dstep\<^sup>*\<^sup>*\<close> built step by step.
  \<^item> Printing: lines 189--218: \<open>print_request\<close>, \<open>print_response\<close>,
    \<open>print_message_chain\<close> as the list of lines they print and whether they
    returned or raised \<open>AttributeError\<close> on \<open>None\<close>; \<open>.items()\<close> of the
    header objects (\<open>dict_items\<close>, \<open>msg_items\<close>), \<open>'%s' % int\<close>
    (\<open>str_int\<close>).
  \<^item> Scenarios: concrete reachable runs: \<open>run\<close> without its printing (both
    endpoints \<open>demo0\<close>, \<open>demo1\<close>; the first call \<open>demo2\<close>..\<open>demo10\<close>; the
    handler2 call \<open>run11\<close>..\<open>run19\<close>), the call with an own dict
    (\<open>own2\<close>..\<open>own5\<close>), a failing send (\<open>fail1\<close>..\<open>fail4\<close>), two calls on
    the shared default dict (\<open>sh1\<close>..\<open>sh9\<close>), a retried request that lands
    after the call returned (\<open>late7\<close>..\<open>late13\<close>).

  \<^emph>\<open>What is proved\<close> (claims C1..C26; their theorems follow text blocks
  naming them).  Per request: a connection touches only the chain its id names
  (C1); 414 on an oversized line (C9), at a limit that counts the line
  terminator (C26); the default response and its echo (C10); the echo round
  trip (C11, across the wire C13); scenario 2 as recorded and as observed
  (C12, C14); and a well-formed request written by the client is served by
  \<open>handle_one_request\<close> exactly as \<open>serve_request\<close> serves it (C25), which
  justifies delivering requests as records in the system model.  Registry:
  refinement of the contract by \<open>del_message_chain\<close> (C15), and by
  \<open>add_message_chain\<close> on fresh ids while it silently overwrites a present
  one (C16); in the running system ids are always fresh (C17).  Endpoints:
  bound and distinct in every reachable state (C18).  System: the registry
  holds exactly the calls in flight (C2), unregistering never raises (C3), a
  returned id is unregistered (C4), a failed send leaks its registration
  forever (C5), no cross-talk by id (C6), an own dict carries the caller's id
  (C7) while the shared default dict lets one call's request be recorded in
  another call's conversation (C8), and a handling can be appended to a record
  after \<open>make_request\<close> returned it (C19).  Records: handlings are
  append-only along every run (C20), a record's final attributes are present
  exactly when its call has returned (C21), and each handling is the response
  of the record's own handler (C22).  Liveness: every call ends, by returning
  or by the connection error, along a run of its own thread and its connection
  (C23); a waiting call returns its finalised record (C24).

  \<^emph>\<open>Bounds and fuel.\<close>  No fuel is used.  The liveness claims are
  existential: from any reachable state some run, in which only the call's own
  thread and the connection serving it move, reaches the end; they do not
  claim that every schedule ends.  BaseHTTPServer's connection loop
  \<open>handle_loop\<close> is a \<open>partial_function (option)\<close>; it is never entered,
  because every path of \<open>handle_one_request\<close> leaves \<open>close_connection\<close> set
  (\<open>handle_one_request_closes\<close>): the model sets the flag as HTTP/1.0 leaves
  it rather than computing it from the request's version and
  \<open>Connection\<close> header, so this is a property of the model, not a claim.
  \<open>readline\<close> recurses on its limit (65537, as at line 141) and
  \<open>read_headers\<close> terminates by the length of the remaining input.  Request
  ids are strings; \<open>uuid4\<close> is modelled as the choice of an id not used
  before (\<open>used_ids\<close>).  The Python ints of status codes are \<open>int\<close>.

  \<^emph>\<open>Not modelled.\<close>  \<open>log\<close> (a console line with the clock, the
  caller's frame and the thread, none of which the model has), and so the
  \<open>log\<close> and bare \<open>print\<close> lines of \<open>run\<close>; the order in which Python 2
  iterates a dict (the model prints and writes header lines in list order);
  the body of an inbound request, which the code holds as the file object
  \<open>rfile\<close> (line 155) and prints as its repr, while the model holds the body
  string; a peer that keeps its connection open without sending: the handler
  socket has no timeout, so the read blocks for ever and the
  \<open>except socket.timeout\<close> of lines 183--187 is never reached; the request
  version (its number, the 505 and \<open>Bad request version\<close> errors,
  \<open>Connection: keep-alive\<close>, HTTP/0.9 responses without status line and
  headers), header continuation lines, the HTML body of \<open>send_error\<close> (the
  model writes the short message); the headers the requests library adds
  to a request (\<open>User-Agent\<close>, \<open>Accept\<close>, \<open>Accept-Encoding\<close>, \<open>Host\<close>): the
  model sends the caller's dict, and none of those is \<open>Request-ID\<close>, on
  which every property about the correlation rests; write errors and network
  failures other than an unbound address.  A sent request reaches the
  endpoint intact.
\<close>

section \<open>The registry during concurrent calls\<close>

text \<open>C2. In every reachable state of the concurrent system, the registry
  \<open>Deproxy._message_chains\<close> maps a request id to a chain reference exactly
  when some \<open>make_request\<close> thread generated that id, created that chain, and
  is between registering (line 60) and unregistering (line 66) it, or has left
  by the connection error of line 62.\<close>

theorem registry_exactly_in_flight:
  assumes "reach w"
  shows "message_chains w rid = Some r \<longleftrightarrow>
     (\<exists>t. SystemInv.client_rid w t = Some rid \<and> SystemInv.client_ref w t = Some r \<and>
          SystemInv.client_holds w t)"
  using reach_core_inv [OF assms] by (rule core_inv_registry)

theorem registry_exactly_in_flight_witness:
  "message_chains demo5 ''abc'' = Some 0 \<and> SystemInv.client_rid demo5 1 = Some ''abc''"
proof -
  have "SystemInv.client_rid demo5 1 = Some ''abc'' \<and> SystemInv.client_ref demo5 1 = Some 0 \<and>
        SystemInv.client_holds demo5 1"
    by (simp add: demo_eval client_rid_def client_ref_def client_holds_def)
  then show ?thesis using registry_exactly_in_flight [OF reach_demo5, of "''abc''" 0] by blast
qed

text \<open>C3. A \<open>make_request\<close> thread that has sent its request and waits for the
  response always finds its id in the registry, so \<open>del_message_chain\<close>
  (line 66) succeeds and removes exactly that id: the \<open>KeyError\<close> branch of
  \<open>del\<close> is never taken, however the other threads interleave.\<close>

theorem waiting_unregister_succeeds:
  assumes "reach w" "clients w t = Some cl" "cl_pc cl = Waiting rid r req cid"
  shows "\<exists>w'. del_message_chain w rid = Inr w' \<and> message_chains w' = (message_chains w)(rid := None)"
proof -
  have "message_chains w rid = Some r" using holds_registered [of w t cl rid r] assms by simp
  then show ?thesis by (auto simp: del_message_chain_def)
qed

theorem waiting_unregister_succeeds_witness:
  "\<exists>w'. del_message_chain demo8 ''abc'' = Inr w' \<and> message_chains w' = (message_chains demo8)(''abc'' := None)"
  by (rule waiting_unregister_succeeds [OF reach_demo8 demo8_client]) simp

text \<open>C4. Once \<open>make_request\<close> has returned its chain (line 71), the id it
  used is no longer registered: a late request carrying that id falls back
  to the default handler instead of being recorded.\<close>

theorem returned_call_unregistered:
  assumes "reach w" "clients w t = Some cl" "cl_pc cl = Returned rid r req resp"
  shows "message_chains w rid = None"
proof (rule ccontr)
  assume "message_chains w rid \<noteq> None"
  then obtain r' where "message_chains w rid = Some r'" by auto
  moreover have inv: "core_inv w" using assms(1) by (rule reach_core_inv)
  ultimately obtain t' where t': "client_rid w t' = Some rid" "client_holds w t'"
    by (auto simp: core_inv_registry)
  have "client_rid w t = Some rid" using assms(2,3) by (simp add: client_pc_maps)
  with t' inv have "t' = t" by (auto intro: core_inv_rid_unique)
  with t' assms(2,3) show False by (simp add: client_pc_maps)
qed

theorem returned_call_unregistered_witness: "message_chains demo10 ''abc'' = None"
  by (rule returned_call_unregistered [OF reach_demo10 demo10_client]) simp

text \<open>C5. A call whose request cannot be sent (no endpoint listens at the
  URL, line 62--63) leaves \<open>make_request\<close> by the exception with its id still
  registered, and it stays registered in every later state: \<open>make_request\<close>
  has no \<open>try\<close>/\<open>finally\<close> around lines 62--66.\<close>

theorem failed_call_leaks_registration:
  assumes "reach w" "clients w t = Some cl" "cl_pc cl = Raised rid r ConnectionError" "dstep\<^sup>*\<^sup>* w w'"
  shows "message_chains w' rid = Some r"
  using holds_registered [OF reach_steps [OF assms(4,1)] steps_keep_raised [OF assms(4,2,3)]] assms(3)
  by simp

theorem failed_call_leaks_registration_witness:
  "message_chains fail4 ''abc'' = Some 0"
  using failed_call_leaks_registration [OF reach_fail4 fail4_client] by simp

text \<open>C6. No cross-talk: in every reachable state, each handling recorded in
  the chain a \<open>make_request\<close> thread created carries, in its request's
  \<open>Request-ID\<close> header, the id that thread generated.  A request is never
  recorded in another call's conversation.\<close>

theorem no_cross_talk:
  assumes "reach w" "SystemInv.client_ref w t = Some r" "heap w r = Some mc" "h \<in> set (handlings mc)"
  shows "msg_get (req_headers (h_request h)) request_id_header_name = SystemInv.client_rid w t"
  using reach_tag_inv [OF assms(1)] assms(2-4) unfolding tag_inv_def by blast

theorem no_cross_talk_witness:
  "msg_get (req_headers demo_req) request_id_header_name = Some ''abc''"
proof -
  have "SystemInv.client_ref demo10 1 = Some 0" "SystemInv.client_rid demo10 1 = Some ''abc''"
    using client_pc_maps(1,2) [OF demo10_client] by simp_all
  with no_cross_talk [OF reach_demo10 _ demo10_heap,
      of 1 "\<lparr>h_endpoint = demo_ep, h_request = demo_req, h_response = demo_resp\<rparr>"]
  show ?thesis by simp
qed

section \<open>The header dict passed to make_request\<close>

text \<open>C7. A call that is given its own \<open>headers\<close> dict sends a request whose
  \<open>Request-ID\<close> header, as the server reads it, is the id the call generated
  and registered, however other calls interleave; provided the caller's dict
  holds no other spelling of \<open>Request-ID\<close> (the server compares header names
  case-insensitively and reads the last one).\<close>

theorem own_dict_request_carries_own_id:
  assumes "reach w" "clients w t = Some cl" "c_hloc (cl_call cl) \<noteq> 0"
    "cl_pc cl = Waiting rid r req cid" "SystemDict.rid_clean (req_headers req)"
  shows "msg_get (req_headers req) request_id_header_name = Some rid"
proof -
  have inv: "dict_inv w" using assms(1) by (rule reach_dict_inv)
  obtain hs where hs: "hdicts w (c_hloc (cl_call cl)) = Some hs" using dict_invD(2) [OF inv assms(2)] by blast
  have "own_dict_ok hs (cl_pc cl)" by (rule dict_invD(4) [OF inv assms(2,3) hs])
  then have "req_headers req = hs" "distinct (map fst hs)" "map_of hs request_id_header_name = Some rid"
    using assms(4) by (simp_all add: own_dict_ok_def)
  with assms(5) show ?thesis by (simp add: msg_get_clean)
qed

theorem own_dict_request_carries_own_id_witness:
  "msg_get (req_headers own_req) request_id_header_name = Some ''abc'' \<and> c_hloc own_call = 1"
proof -
  have "SystemDict.rid_clean (req_headers own_req)"
    by (simp add: rid_clean_def own_eval)
  with own_dict_request_carries_own_id [OF reach_own5 own5_client]
  show ?thesis by (simp add: own_call_def)
qed

text \<open>C8. Counterexample: two calls that omit \<open>headers\<close> share the one
  default dict (\<open>headers={}\<close> is evaluated once, when the \<open>def\<close> runs).  In a
  reachable interleaving thread 1 registers \<open>abc\<close>, thread 2 overwrites the
  dict with \<open>def\<close> and registers it, thread 1 sends: the request of thread 1
  carries \<open>def\<close>, the endpoint runs thread 2's handler on it and records it
  in thread 2's conversation, and thread 1's own conversation stays empty.\<close>

theorem shared_default_dict_cross_talk:
  "reach sh9 \<and>
   clients sh9 1 = Some \<lparr>cl_call = shared_call1, cl_pc = Waiting ''abc'' 0 sh_req 0\<rparr> \<and>
   SystemInv.client_ref sh9 2 = Some 1 \<and>
   msg_get (req_headers sh_req) request_id_header_name = Some ''def'' \<and>
   map_option handlings (heap sh9 1) = Some [\<lparr>h_endpoint = demo_ep, h_request = sh_req, h_response = sh_resp\<rparr>] \<and>
   map_option handlings (heap sh9 0) = Some []"
proof (intro conjI)
  show "reach sh9" by (rule reach_sh9)
  show "clients sh9 1 = Some \<lparr>cl_call = shared_call1, cl_pc = Waiting ''abc'' 0 sh_req 0\<rparr>"
    by (simp add: sh_eval)
  show "SystemInv.client_ref sh9 2 = Some 1" by (simp add: sh_eval client_ref_def)
  show "msg_get (req_headers sh_req) request_id_header_name = Some ''def''" by (simp add: sh_eval)
  show "map_option handlings (heap sh9 1) = Some [\<lparr>h_endpoint = demo_ep, h_request = sh_req, h_response = sh_resp\<rparr>]"
    by (simp add: sh_eval)
  show "map_option handlings (heap sh9 0) = Some []" by (simp add: sh_eval)
qed

section \<open>What the client observes\<close>

text \<open>C13. Round trip of the correlation header across the wire: when the
  inbound request carries a \<open>Request-ID\<close>, the response the client reads back
  from the bytes the handler writes (lines 175--181) parses, and maps
  \<open>Request-ID\<close> to that same value, so the client can assert its echo.\<close>

theorem client_reads_echoed_id:
  assumes "msg_get (req_headers rq) request_id_header_name = Some rid"
  shows "\<exists>rs. read_wire (write_response date (snd (serve_request d hp ep rq))) = Some rs \<and>
              map_of (resp_headers rs) request_id_header_name = Some rid"
  using assms
  by (simp add: read_wire_write_response serve_request_response echo_request_id_Some dict_set_def
      server_version_def request_id_header_name_def)

theorem client_reads_echoed_id_witness:
  "\<exists>rs. read_wire (write_response demo_date (snd (serve_request demo4 (heap demo4) demo_ep demo_req))) = Some rs \<and>
        map_of (resp_headers rs) request_id_header_name = Some ''abc''"
  by (rule client_reads_echoed_id) (simp add: demo_req_def build_request_def header_defs)

text \<open>C14. Spec scenario 2 as the client sees it: for a request matched to a
  conversation with \<open>handler2\<close>, the response the client reads back has
  handler2's status 601, message and body, and its headers are handler2's
  \<open>X-Header\<close> with the echoed \<open>Request-ID\<close> after it and, before it, the
  \<open>Server\<close> and \<open>Date\<close> headers that BaseHTTPServer's \<open>send_response\<close> adds:
  it matches handler2's response modulo more than the correlation header.\<close>

theorem handler2_client_observed:
  assumes "msg_get (req_headers rq) request_id_header_name = Some rid"
    "message_chains d rid = Some r" "hp r = Some (new_message_chain handler2)"
  shows "read_wire (write_response date (snd (serve_request d hp ep rq))) =
     Some \<lparr>resp_code = 601, resp_message = ''Something'',
           resp_headers = [(''Server'', server_version), (''Date'', date), (''X-Header'', ''Value''),
                           (''Request-ID'', rid)],
           resp_body = ''this is the body''\<rparr>"
  using assms
  by (simp add: read_wire_write_response serve_request_found handler2_def dict_set_def
      request_id_header_name_def Let_def)

theorem handler2_client_observed_witness:
  "read_wire (write_response demo_date (snd (serve_request \<lparr>message_chains = [''abc'' \<mapsto> (1::nat)], endpoints = []\<rparr>
      [1 \<mapsto> new_message_chain handler2] demo_ep demo_req))) =
     Some \<lparr>resp_code = 601, resp_message = ''Something'',
           resp_headers = [(''Server'', server_version), (''Date'', demo_date), (''X-Header'', ''Value''),
                           (''Request-ID'', ''abc'')],
           resp_body = ''this is the body''\<rparr>"
  by (rule handler2_client_observed) (simp_all add: demo_req_def build_request_def header_defs)

section \<open>Registration, endpoints, and the split connection steps\<close>

text \<open>C17. In the running system \<open>add_message_chain\<close> (line 60) is only ever
  called with an id that is not registered: the code meets the contract's
  precondition of \<open>register\<close>, so its silent overwrite never happens.\<close>

theorem register_only_fresh_ids:
  assumes "reach w" "clients w t = Some cl" "cl_pc cl = IdSet rid"
  shows "rid \<notin> dom (message_chains w)"
proof
  assume "rid \<in> dom (message_chains w)"
  then obtain r where "message_chains w rid = Some r" by auto
  moreover have inv: "core_inv w" using assms(1) by (rule reach_core_inv)
  ultimately obtain t' where t': "client_rid w t' = Some rid" "client_holds w t'"
    by (auto simp: core_inv_registry)
  have "client_rid w t = Some rid" using assms(2,3) by (simp add: client_pc_maps)
  with t' inv have "t' = t" by (auto intro: core_inv_rid_unique)
  with t' assms(2,3) show False by (simp add: client_pc_maps)
qed

theorem register_only_fresh_ids_witness: "''abc'' \<notin> dom (message_chains demo3)"
  by (rule register_only_fresh_ids [OF reach_demo3 demo3_client]) simp

text \<open>C18. In every reachable state the endpoints of the Deproxy object
  (\<open>_endpoints\<close>) serve distinct addresses, each held in the socket table.\<close>

theorem reach_endpoints_bound:
  assumes "reach w"
  shows "Endpoint.endpoints_bound (endpoints w) (bound w)"
  using assms
proof (induction rule: reach.induct)
  case init
  show ?case by (simp add: endpoints_bound_def init_world_def)
next
  case (step w w')
  from dstep_endpoints [OF step.hyps(2)] step.IH show ?case
    by (auto intro: endpoints_bound_add)
qed

theorem reach_endpoints_bound_witness: "Endpoint.endpoints_bound [demo_ep, demo_ep2] [demo_addr2, demo_addr]"
proof -
  have "endpoints demo10 = [demo_ep, demo_ep2]" "bound demo10 = [demo_addr2, demo_addr]" by (simp_all add: demo_eval)
  with reach_endpoints_bound [OF reach_demo10] show ?thesis by simp
qed

section \<open>The demo driver run\<close>

section \<open>A handling after finalisation\<close>

text \<open>C19. Counterexample to "no concurrent writer contends with finalise": a
  connection that looked the chain up while the id was registered (lines
  159--163) can append its handling (lines 172--173) after \<open>make_request\<close> has
  unregistered the id, finalised the record (lines 68--69) and returned it.
  The record returned with one handling then holds two.\<close>

theorem handling_after_return:
  "reach late12 \<and> reach late13 \<and> dstep late12 late13 \<and>
   clients late12 1 = Some \<lparr>cl_call = demo_call, cl_pc = Returned ''abc'' 0 demo_req demo_rcvd\<rparr> \<and>
   clients late13 1 = clients late12 1 \<and> message_chains late12 ''abc'' = None \<and>
   map_option received_response (heap late12 0) = Some (Some demo_rcvd) \<and>
   map_option (length \<circ> handlings) (heap late12 0) = Some 1 \<and>
   map_option (length \<circ> handlings) (heap late13 0) = Some 2"
proof (intro conjI)
  show "reach late12" by (rule reach_late12)
  show "reach late13" by (rule reach_late13)
  show "dstep late12 late13" by (rule dstep_late13)
qed (simp_all add: late_eval)

section \<open>Conversation records\<close>

text \<open>C20. A conversation record is append-only: along any run of the
  system, the handlings of a chain after the run extend those before it;
  handlings are never lost, reordered or replaced (\<open>add_handling\<close> appends
  under the chain's lock, lines 40--42).\<close>

theorem handlings_append_only:
  assumes "dstep\<^sup>*\<^sup>* w w'" "heap w r = Some mc"
  shows "\<exists>mc' xs. heap w' r = Some mc' \<and> handlings mc' = handlings mc @ xs"
  using steps_handlings_grow [OF assms(1)] assms(2) unfolding handlings_grow_def by blast

theorem handlings_append_only_witness:
  "\<exists>mc' xs. heap late13 0 = Some mc' \<and>
     handlings mc' = [\<lparr>h_endpoint = demo_ep, h_request = demo_req, h_response = demo_resp\<rparr>] @ xs"
proof -
  have "heap late12 0 = Some (finish_message_chain demo_req demo_rcvd
          (add_handling \<lparr>h_endpoint = demo_ep, h_request = demo_req, h_response = demo_resp\<rparr>
            (new_message_chain default_handler)))"
    by (simp add: late_eval)
  from handlings_append_only [OF r_into_rtranclp [of dstep, OF dstep_late13] this] show ?thesis by simp
qed

text \<open>C21. A record's \<open>sent_request\<close> and \<open>received_response\<close> are present
  exactly when the \<open>make_request\<close> that owns it has returned: they are set
  only at the end of the call (lines 68--69) and never before; every chain in
  the heap is owned by one call.\<close>

theorem record_attrs_iff_returned:
  assumes "reach w" "clients w t = Some cl" "pc_ref (cl_pc cl) = Some r" "heap w r = Some mc"
  shows "(received_response mc \<noteq> None \<longleftrightarrow> SystemChain.is_returned (cl_pc cl)) \<and>
         (sent_request mc \<noteq> None \<longleftrightarrow> SystemChain.is_returned (cl_pc cl))"
  by (rule fin_invD(2) [OF reach_fin_inv [OF assms(1)] assms(2-4)])

theorem record_attrs_iff_returned_witness:
  "received_response (finish_message_chain demo_req demo_rcvd
     (add_handling \<lparr>h_endpoint = demo_ep, h_request = demo_req, h_response = demo_resp\<rparr>
       (new_message_chain default_handler))) \<noteq> None"
  using record_attrs_iff_returned [OF reach_demo10 demo10_client _ demo10_heap] by simp

text \<open>C22. Spec scenario 3 under every interleaving: each handling recorded in a
  conversation record is the response of that record's own handler to the
  handling's request, with the id echoed (lines 163--173).  A record never
  holds an interaction produced by another call's handler.\<close>

theorem handlings_from_own_handler:
  assumes "reach w" "heap w r = Some mc" "h \<in> set (handlings mc)"
  shows "h_response h = echo_request_id (req_headers (h_request h)) (handler_function mc (h_request h))"
  using hand_invD(1) [OF reach_hand_inv [OF assms(1)] assms(2,3)] by (simp add: hand_ok_def)

theorem handlings_from_own_handler_witness:
  "demo_resp = echo_request_id (req_headers demo_req) (default_handler demo_req)"
  using handlings_from_own_handler [OF reach_demo10 demo10_heap,
      of "\<lparr>h_endpoint = demo_ep, h_request = demo_req, h_response = demo_resp\<rparr>"]
  by simp

text \<open>C23. Every \<open>make_request\<close> call ends (lines 53--71): from any reachable
  state there is a run, made of steps of the call's own thread and of the
  connection thread serving its request, after which the call has returned or
  has raised the connection error of a URL where nothing listens.  It never
  blocks for ever and never raises \<open>KeyError\<close>, whatever the other threads
  did before.\<close>

theorem make_request_ends:
  assumes "reach w" "clients w t = Some cl"
  shows "\<exists>w' cl'. dstep\<^sup>*\<^sup>* w w' \<and> clients w' t = Some cl' \<and> cl_call cl' = cl_call cl \<and>
           SystemLive.call_done (cl_pc cl')"
proof (cases "cl_pc cl")
  case Calling
  then show ?thesis by (rule call_ends_from_calling [OF assms])
next
  case (IdSet rid)
  then show ?thesis by (rule call_ends_from_idset [OF assms])
next
  case (Registered rid r)
  then show ?thesis by (rule call_ends_from_registered [OF assms])
next
  case (Waiting rid r req cid)
  from waiting_returns [OF assms this] obtain w' resp where
    "dstep\<^sup>*\<^sup>* w w'" "clients w' t = Some (cl\<lparr>cl_pc := Returned rid r req resp\<rparr>)"
    by blast
  then show ?thesis by (intro exI [of _ w'] exI [of _ "cl\<lparr>cl_pc := Returned rid r req resp\<rparr>"]) simp
next
  case (Received rid r req resp)
  let ?w = "mr_finish w t rid r req resp"
  have "dstep w ?w" by (rule dstep.finish [OF assms(2) Received])
  moreover have "clients ?w t = Some (cl\<lparr>cl_pc := Returned rid r req resp\<rparr>)"
    by (simp add: mr_finish_def set_pc_def assms(2))
  ultimately show ?thesis
    by (intro exI [of _ ?w] exI [of _ "cl\<lparr>cl_pc := Returned rid r req resp\<rparr>"]) auto
next
  case (Returned rid r req resp)
  then show ?thesis using assms(2) by (intro exI [of _ w] exI [of _ cl]) simp
next
  case (Raised rid r e)
  have "e = ConnectionError \<or> e = KeyError"
    using wf_invD(6) [OF reach_wf_inv [OF assms(1)] assms(2)] Raised by simp
  moreover have "e \<noteq> KeyError"
    using core_inv_no_keyerror [OF reach_core_inv [OF assms(1)] assms(2)] Raised by auto
  ultimately show ?thesis using assms(2) Raised by (intro exI [of _ w] exI [of _ cl]) simp
qed

theorem make_request_ends_witness:
  "\<exists>w' cl'. dstep\<^sup>*\<^sup>* demo2 w' \<and> clients w' 1 = Some cl' \<and> cl_call cl' = demo_call \<and>
     SystemLive.call_done (cl_pc cl')"
  using make_request_ends [OF reach_demo2 demo2_client] by simp

text \<open>C24. A call waiting for its response (after line 63) returns it: a run of
  the serving connection and of the call reads the response, unregisters the id
  without \<open>KeyError\<close> and returns the record, finalised with the request sent
  and the response received (lines 64--71).\<close>

theorem waiting_call_returns:
  assumes "reach w" "clients w t = Some cl" "cl_pc cl = Waiting rid r req cid"
  shows "\<exists>w' resp mc. dstep\<^sup>*\<^sup>* w w' \<and> clients w' t = Some (cl\<lparr>cl_pc := Returned rid r req resp\<rparr>) \<and>
           message_chains w' rid = None \<and> heap w' r = Some mc \<and>
           sent_request mc = Some req \<and> received_response mc = Some resp"
  by (rule waiting_returns [OF assms])

theorem waiting_call_returns_witness:
  "\<exists>w' resp mc. dstep\<^sup>*\<^sup>* demo5 w' \<and>
     clients w' 1 = Some \<lparr>cl_call = demo_call, cl_pc = Returned ''abc'' 0 demo_req resp\<rparr> \<and>
     message_chains w' ''abc'' = None \<and> heap w' 0 = Some mc \<and>
     sent_request mc = Some demo_req \<and> received_response mc = Some resp"
  using waiting_call_returns [OF reach_demo5 demo5_client,
      where rid = "''abc''" and r = 0 and req = demo_req and cid = 0]
  by simp

text \<open>C25. The request the client writes is the request the endpoint serves: for a
  well-formed request (method and path single words, the request line within
  the limit of line 141, header names without colon or newline, values without
  newline or surrounding white space), \<open>handle_one_request\<close> on the bytes the
  requests library writes reads the request line and the headers back, passes
  the 414 and parse checks, and does exactly what \<open>serve_request\<close> does with
  the request (lines 131--187), writing its response and closing.\<close>

theorem client_request_served_as_sent:
  assumes "Wire.wf_request req"
  shows "handle_one_request d hp ep date eof (Wire.write_request req) =
     (case serve_request d hp ep req of (hp', resp) \<Rightarrow>
        \<lparr>cr_chains = hp', cr_out = write_response date resp, cr_logged = None,
         cr_rest = req_body req, cr_close = Some True\<rparr>)"
proof (cases req)
  case (fields m p hs b)
  from read_write_request [OF assms, where eof = eof] obtain line rest where
    l: "readline eof 65537 (write_request req) = Inr (line, rest)" "line \<noteq> []" "length line \<le> 65536"
       "parse_request eof line rest = Parsed m p hs b"
    using fields by auto
  then show ?thesis by (simp add: handle_one_request_def fields split: prod.split)
qed

theorem client_request_served_as_sent_witness:
  "cr_out (handle_one_request demo1 (heap demo1) demo_ep demo_date True (Wire.write_request demo_req)) =
   write_response demo_date demo_resp"
proof -
  have "Wire.wf_request demo_req"
    by (simp add: wf_request_def token_def header_ok_def is_space_def demo_req_def build_request_def
        demo_call_def)
  moreover have "serve_request demo1 (heap demo1) demo_ep demo_req =
      (heap demo1, demo_resp)"
    by (simp add: serve_request_def demo_eval)
  ultimately show ?thesis
    using client_request_served_as_sent [of demo_req demo1 "heap demo1" demo_ep demo_date True] by simp
qed

end
